theory Spec2Isabelle
  imports Complex_Main
begin


section \<open>Vectors, colours and the configuration record\<close>

text \<open>
  The simulation of \<^verbatim>\<open>quantum-fireworks-main/fireworks.js\<close> works on p5.js vectors,
  of which only the x and y components are ever read. JavaScript numbers are taken as
  real numbers, except in the fade of a particle, which is given a second time in
  binary64 arithmetic because rounding decides whether alpha reaches 0. A vector is a
  pair; the operations below are the p5.Vector methods the source calls
  (\<^verbatim>\<open>add\<close>, \<^verbatim>\<open>mult\<close>, \<^verbatim>\<open>magSq\<close>, \<^verbatim>\<open>mag\<close>, \<^verbatim>\<open>normalize\<close>, \<^verbatim>\<open>setMag\<close>,
  \<^verbatim>\<open>fromAngle\<close>).
\<close>

type_synonym vec = "real \<times> real"

definition vx :: "vec \<Rightarrow> real" where
  "vx v = fst v"

definition vy :: "vec \<Rightarrow> real" where
  "vy v = snd v"

definition createVector :: "real \<Rightarrow> real \<Rightarrow> vec" where
  "createVector a b = (a, b)"

definition vadd :: "vec \<Rightarrow> vec \<Rightarrow> vec" where
  "vadd a b = (fst a + fst b, snd a + snd b)"

definition vsub :: "vec \<Rightarrow> vec \<Rightarrow> vec" where
  "vsub a b = (fst a - fst b, snd a - snd b)"

definition vmult :: "vec \<Rightarrow> real \<Rightarrow> vec" where
  "vmult a k = (fst a * k, snd a * k)"

definition magSq :: "vec \<Rightarrow> real" where
  "magSq a = fst a * fst a + snd a * snd a"

definition mag :: "vec \<Rightarrow> real" where
  "mag a = sqrt (magSq a)"

definition normalize :: "vec \<Rightarrow> vec" where
  "normalize a = (if mag a \<noteq> 0 then vmult a (1 / mag a) else a)"

definition setMag :: "vec \<Rightarrow> real \<Rightarrow> vec" where
  "setMag a n = vmult (normalize a) n"

definition TWO_PI :: real where
  "TWO_PI = 2 * pi"

definition fromAngle :: "real \<Rightarrow> vec" where
  "fromAngle a = (cos a, sin a)"

text \<open>
  A colour argument is either a string of a palette (\<^verbatim>\<open>'#FF4E50'\<close>), or a p5 colour
  built by \<^verbatim>\<open>color(r, g, b, a)\<close> or by \<^verbatim>\<open>color(gray)\<close>. The particle reads only
  its alpha level, \<^verbatim>\<open>levels[3]\<close>: 255 unless the four-argument form gave one.
\<close>

datatype color = Hex string | RGBA real real real real | Gray real

fun color_alpha :: "color \<Rightarrow> real" where
  "color_alpha (Hex s) = 255"
| "color_alpha (RGBA r g b a) = a"
| "color_alpha (Gray g) = 255"

definition FIREWORK_TYPES :: "string list" where
  "FIREWORK_TYPES = [''PEONY'', ''CHRYSANTHEMUM'', ''PALM'', ''WILLOW'', ''STROBE'',
     ''CRACKLING'', ''MULTI_BREAK'', ''RANDOM'']"

definition MAX_PARTICLES_PER_FIREWORK :: real where
  "MAX_PARTICLES_PER_FIREWORK = 5000"

definition MAX_TOTAL_PARTICLES :: nat where
  "MAX_TOTAL_PARTICLES = 30000"

definition TRAIL_LENGTH :: nat where
  "TRAIL_LENGTH = 15"

definition PALETTES :: "string list list" where
  "PALETTES =
    [[''#FF4E50'', ''#FC913A'', ''#F9D423'', ''#EDE574'', ''#E1F5C4''],
     [''#1E90FF'', ''#00BFFF'', ''#87CEFA'', ''#ADD8E6'', ''#E0FFFF''],
     [''#228B22'', ''#556B2F'', ''#8FBC8F'', ''#90EE90'', ''#3CB371''],
     [''#FF0000'', ''#FF4500'', ''#FFA500'', ''#FFD700'', ''#FFFF00''],
     [''#FF00FF'', ''#00FFFF'', ''#00FF00'', ''#FFFF00'', ''#FF69B4''],
     [''#FFFFFF'', ''#D3D3D3'', ''#A9A9A9'', ''#FFD700'', ''#F0E68C'']]"

text \<open>
  The fields of \<^verbatim>\<open>FireworkSystem.config\<close> that the update logic reads; the
  rendering fields (bloom, background opacity, colour transition) are left out.
\<close>

record config =
  launchFrequency :: real
  explosionSize :: real
  particleCount :: real
  wind :: real
  turbulence :: real
  gravity :: real
  airDrag :: real
  autoLaunch :: bool
  particleType :: string
  fireworkType :: string
  maxTotalParticles :: nat

definition default_config :: config where
  "default_config = \<lparr> launchFrequency = 1/2, explosionSize = 400, particleCount = 1500,
     wind = 3/10, turbulence = 1/100, gravity = 8/100, airDrag = 2/100, autoLaunch = True,
     particleType = ''CLASSIC'', fireworkType = ''RANDOM'',
     maxTotalParticles = MAX_TOTAL_PARTICLES \<rparr>"

section \<open>Particles and the world they live in\<close>

text \<open>
  The optional fields of the \<^verbatim>\<open>options\<close> argument of the Particle constructor; a
  field that is absent is \<open>None\<close>.
\<close>

record options =
  opt_lifespan :: "real option"
  opt_strobeRate :: "real option"
  opt_crackleRate :: "real option"
  opt_fadeRate :: "real option"
  opt_delay :: "real option"
  opt_subType :: "string option"
  opt_palette :: "string list option"

definition no_options :: options where
  "no_options = \<lparr> opt_lifespan = None, opt_strobeRate = None, opt_crackleRate = None,
     opt_fadeRate = None, opt_delay = None, opt_subType = None, opt_palette = None \<rparr>"

text \<open>
  \<^verbatim>\<open>x || d\<close> on a number: \<open>d\<close> when \<open>x\<close> is absent or zero.
\<close>

definition or_else :: "real option \<Rightarrow> real \<Rightarrow> real" where
  "or_else x d = (case x of None \<Rightarrow> d | Some v \<Rightarrow> (if v = 0 then d else v))"

definition num_or :: "real \<Rightarrow> real \<Rightarrow> real" where
  "num_or x d = (if x = 0 then d else x)"

text \<open>
  A Particle object. \<open>configRef\<close> is the reference to the system's configuration, null
  until the creator sets it; no function modelled here writes to the configuration, so
  the reference is held as the record it points to. \<open>secondaryCalls\<close> is not a field of
  the source: it counts the invocations of \<^verbatim>\<open>explodeSecondary\<close> on this object, so
  that "called exactly once" can be stated.
\<close>

record particle =
  pos :: vec
  vel :: vec
  acc_p :: vec
  baseColor :: color
  alpha :: real
  baseAlpha :: real
  size_p :: real
  role :: string
  particleStyle :: string
  configRef :: "config option"
  lifespan :: real
  strobeRate :: real
  crackleRate :: real
  fadeRate :: real
  delay :: real
  subType :: "string option"
  palette :: "string list option"
  timeCreated :: real
  lastStrobe :: real
  lastCrackle :: real
  strobeOn :: bool
  isFading :: bool
  fadeStartAlpha :: real
  fadeStartTime :: real
  fadeDuration :: real
  trail :: "vec list"
  maxTrailLength :: nat
  fluid :: bool
  viscosity :: real
  density :: real
  pressure :: real
  secondaryCalls :: nat

text \<open>
  A Firework object. \<open>shell\<close> is a reference into the store of particle objects: the
  shell is shared with the global \<^verbatim>\<open>particles\<close> array. \<open>explodeCalls\<close> is not a
  field of the source: it counts the invocations of \<^verbatim>\<open>explode\<close> on this object.
\<close>

datatype lifecycle = ASCENT | EXPLOSION

record firework =
  shell :: nat
  fw_type :: string
  fw_config :: config
  fw_lifecycle :: lifecycle
  explosionAltitude :: real
  fw_palette :: "string list"
  hasExploded :: bool
  explodeCalls :: nat

text \<open>
  What a call reads from the host: the clock \<^verbatim>\<open>millis()\<close>, p5's \<^verbatim>\<open>deltaTime\<close>,
  the canvas size, and the two simplex-noise functions. One call reads one clock value.
\<close>

record env =
  millis :: real
  deltaTime :: real
  width :: real
  height :: real
  noise2D :: "real \<Rightarrow> real \<Rightarrow> real"
  noise3D :: "real \<Rightarrow> real \<Rightarrow> real \<Rightarrow> real"

text \<open>
  The global state. \<open>heap\<close> maps a reference to the Particle object it names; \<open>next_ref\<close>
  is the next fresh reference. \<open>particles\<close> and \<open>fireworks\<close> are the two global arrays.
  \<open>rand\<close> is the sequence of values \<^verbatim>\<open>Math.random()\<close> will return, each in \<open>[0, 1)\<close>,
  and \<open>used\<close> counts those already drawn. \<open>console\<close> collects the messages of
  \<^verbatim>\<open>console.warn\<close> and \<^verbatim>\<open>console.error\<close>.
\<close>

record world =
  heap :: "nat \<Rightarrow> particle"
  next_ref :: nat
  particles :: "nat list"
  fireworks :: "firework list"
  sys_config :: config
  lastLaunch :: real
  gravity_y :: real
  rand :: "nat \<Rightarrow> real"
  used :: nat
  console :: "string list"

definition unit_rand :: "(nat \<Rightarrow> real) \<Rightarrow> bool" where
  "unit_rand r = (\<forall>i. 0 \<le> r i \<and> r i < 1)"

definition draw_unit :: "world \<Rightarrow> real \<times> world" where
  "draw_unit w = (rand w (used w), w\<lparr>used := Suc (used w)\<rparr>)"

text \<open>
  p5's \<^verbatim>\<open>random(min, max)\<close> (the bounds are swapped when \<open>min > max\<close>),
  \<^verbatim>\<open>random(max)\<close> and \<^verbatim>\<open>random(array)\<close>.
\<close>

definition random2 :: "real \<Rightarrow> real \<Rightarrow> world \<Rightarrow> real \<times> world" where
  "random2 a b w =
     (let (u, w') = draw_unit w; lo = min a b; hi = max a b
      in (u * (hi - lo) + lo, w'))"

definition random1 :: "real \<Rightarrow> world \<Rightarrow> real \<times> world" where
  "random1 m w = (let (u, w') = draw_unit w in (u * m, w'))"

definition random_of :: "'a list \<Rightarrow> world \<Rightarrow> 'a \<times> world" where
  "random_of xs w =
     (let (u, w') = draw_unit w in (xs ! nat \<lfloor>u * real (length xs)\<rfloor>, w'))"

definition random2D :: "world \<Rightarrow> vec \<times> world" where
  "random2D w = (let (u, w') = draw_unit w in (fromAngle (u * TWO_PI), w'))"

text \<open>
  \<^verbatim>\<open>p5.Vector.random3D()\<close>, of which the callers keep the x and y components.
\<close>

definition random3D_xy :: "world \<Rightarrow> vec \<times> world" where
  "random3D_xy w =
     (let (u, w1) = draw_unit w;
          (u', w2) = draw_unit w1;
          vz = u' * 2 - 1;
          vzBase = sqrt (1 - vz * vz)
      in ((vzBase * cos (u * TWO_PI), vzBase * sin (u * TWO_PI)), w2))"

definition console_log :: "string \<Rightarrow> world \<Rightarrow> world" where
  "console_log s w = w\<lparr>console := console w @ [s]\<rparr>"

text \<open>
  \<^verbatim>\<open>particles.push(p)\<close> for a newly constructed object \<open>p\<close>.
\<close>

definition push_particle :: "particle \<Rightarrow> world \<Rightarrow> world" where
  "push_particle p w =
     w\<lparr>heap := (heap w)(next_ref w := p),
       particles := particles w @ [next_ref w],
       next_ref := Suc (next_ref w)\<rparr>"

text \<open>
  A \<^verbatim>\<open>for\<close> loop over the indices \<open>is\<close>, whose body may \<^verbatim>\<open>break\<close> first.
\<close>

fun for_range :: "nat list \<Rightarrow> (nat \<Rightarrow> 's \<Rightarrow> bool) \<Rightarrow> (nat \<Rightarrow> 's \<Rightarrow> 's) \<Rightarrow> 's \<Rightarrow> 's" where
  "for_range [] brk body s = s"
| "for_range (i # is) brk body s =
     (if brk i s then s else for_range is brk body (body i s))"

definition no_break :: "nat \<Rightarrow> 's \<Rightarrow> bool" where
  "no_break i s = False"

text \<open>
  The number of passes of \<^verbatim>\<open>for (let i = 0; i < b; i++)\<close>.
\<close>

definition iterations :: "real \<Rightarrow> nat" where
  "iterations b = nat \<lceil>b\<rceil>"

section \<open>The Particle class\<close>

definition enableFluidBehavior :: "particle \<Rightarrow> world \<Rightarrow> particle \<times> world" where
  "enableFluidBehavior p w =
     (let (r1, w1) = random2 (- (2/100)) (2/100) w;
          (r2, w2) = random2 (13/10) (18/10) w1
      in (p\<lparr>fluid := True, viscosity := 97/100 + r1, size_p := size_p p * r2,
             maxTrailLength := nat \<lfloor>real (maxTrailLength p) * (1/2)\<rfloor>\<rparr>, w2))"

definition new_Particle ::
  "env \<Rightarrow> vec \<Rightarrow> vec \<Rightarrow> color \<Rightarrow> real \<Rightarrow> string \<Rightarrow> options \<Rightarrow> world \<Rightarrow> particle \<times> world" where
  "new_Particle e ps vl col sz rl opts w =
     (let a = color_alpha col;
          (ls, w1) = (case opt_lifespan opts of
                        None \<Rightarrow> random2 (15/10) (25/10) w
                      | Some v \<Rightarrow> if v = 0 then random2 (15/10) (25/10) w else (v, w));
          fr = or_else (opt_fadeRate opts) 1;
          tc = millis e / 1000;
          (dn, w2) = random2 (8/10) (12/10) w1;
          p = \<lparr> pos = ps, vel = vl, acc_p = createVector 0 0, baseColor = col,
                alpha = a, baseAlpha = a, size_p = sz, role = rl,
                particleStyle = ''CLASSIC'', configRef = None,
                lifespan = ls,
                strobeRate = or_else (opt_strobeRate opts) 0,
                crackleRate = or_else (opt_crackleRate opts) 0,
                fadeRate = fr,
                delay = or_else (opt_delay opts) 0,
                subType = opt_subType opts, palette = opt_palette opts,
                timeCreated = tc, lastStrobe = tc, lastCrackle = tc,
                strobeOn = True, isFading = False,
                fadeStartAlpha = a, fadeStartTime = 0,
                fadeDuration = (5/10) / max (1/10) fr,
                trail = [], maxTrailLength = TRAIL_LENGTH,
                fluid = False, viscosity = 98/100, density = dn, pressure = 0,
                secondaryCalls = 0 \<rparr>
      in if particleStyle p = ''FLUID'' then enableFluidBehavior p w2 else (p, w2))"

definition applyForce :: "vec \<Rightarrow> particle \<Rightarrow> particle" where
  "applyForce f p = p\<lparr>acc_p := vadd (acc_p p) f\<rparr>"

definition applyDrag :: "real \<Rightarrow> particle \<Rightarrow> particle" where
  "applyDrag dragCoefficient p =
     (if dragCoefficient > 0 then
        (let speedSq = magSq (vel p) in
         if speedSq > 1/10000 then
           applyForce (setMag (vel p) (- (speedSq * dragCoefficient))) p
         else p)
      else p)"

definition setFading :: "env \<Rightarrow> real \<Rightarrow> particle \<Rightarrow> particle" where
  "setFading e duration p =
     (if \<not> isFading p then
        p\<lparr>isFading := True,
          fadeStartTime := millis e / 1000,
          fadeStartAlpha := alpha p,
          fadeDuration := (if duration > 0 then duration
                           else max (1/100) ((5/10) / max (1/10) (fadeRate p)))\<rparr>
      else p)"

text \<open>
  \<^verbatim>\<open>Firework.prototype.createParticle\<close>, called on an object whose \<^verbatim>\<open>config\<close> is
  \<open>cfg\<close> (a Firework, or the \<^verbatim>\<open>particleCreator\<close> of a secondary explosion).
\<close>

definition createParticle ::
  "env \<Rightarrow> config \<Rightarrow> vec \<Rightarrow> vec \<Rightarrow> color \<Rightarrow> real \<Rightarrow> string \<Rightarrow> options \<Rightarrow> world \<Rightarrow> world" where
  "createParticle e cfg ps vl col sz rl opts w =
     (if length (particles w) < maxTotalParticles cfg then
        (let (p, w1) = new_Particle e ps vl col sz rl opts w
         in push_particle (p\<lparr>particleStyle := particleType cfg, configRef := Some cfg\<rparr>) w1)
      else w)"

definition crackle_body :: "env \<Rightarrow> particle \<Rightarrow> config \<Rightarrow> nat \<Rightarrow> world \<Rightarrow> world" where
  "crackle_body e p cfg i w =
     (let (d, w1) = random2D w;
          (m, w2) = random2 3 6 w1;
          offsetVel = vmult d m;
          crackleVel = vadd (vmult (vel p) (2/10)) offsetVel;
          (cr, w3) = random2 200 255 w2;
          (cg, w4) = random2 180 255 w3;
          (cb, w5) = random2 150 220 w4;
          (crackleLifespan, w6) = random2 (5/100) (15/100) w5;
          (sz, w7) = random2 1 (25/10) w6;
          (q, w8) = new_Particle e (pos p) crackleVel (RGBA cr cg cb 255) sz ''CRACKLE''
                      (no_options\<lparr>opt_lifespan := Some crackleLifespan, opt_fadeRate := Some 8\<rparr>) w7
      in push_particle (q\<lparr>particleStyle := particleStyle p, configRef := configRef p\<rparr>) w8)"

definition spawnCrackle :: "env \<Rightarrow> particle \<Rightarrow> world \<Rightarrow> world" where
  "spawnCrackle e p w =
     (case configRef p of
        None \<Rightarrow> w
      | Some cfg \<Rightarrow>
          (let (r, w1) = random2 1 4 w;
               numCrackles = nat \<lfloor>r\<rfloor>
           in for_range [0..<numCrackles]
                (\<lambda>i s. length (particles s) \<ge> maxTotalParticles cfg)
                (crackle_body e p cfg) w1))"

definition secondary_peony_body :: "env \<Rightarrow> config \<Rightarrow> vec \<Rightarrow> real \<Rightarrow> vec \<Rightarrow> string list \<Rightarrow> nat \<Rightarrow> world \<Rightarrow> world" where
  "secondary_peony_body e cfg explosionPos baseForce inheritedVel paletteToUse i w =
     (let (angle, w1) = random1 TWO_PI w;
          (forceMag, w2) = random2 (baseForce * (8/10)) (baseForce * (12/10)) w1;
          v = vadd (vmult (fromAngle angle) forceMag) inheritedVel;
          (col, w3) = random_of paletteToUse w2;
          (sz, w4) = random2 2 (35/10) w3;
          (ls, w5) = random2 (8/10) (15/10) w4
      in createParticle e cfg explosionPos v (Hex col) sz ''EXPLOSION''
           (no_options\<lparr>opt_lifespan := Some ls\<rparr>) w5)"

definition secondary_crackling_body :: "env \<Rightarrow> config \<Rightarrow> vec \<Rightarrow> real \<Rightarrow> vec \<Rightarrow> string list \<Rightarrow> nat \<Rightarrow> world \<Rightarrow> world" where
  "secondary_crackling_body e cfg explosionPos baseForce inheritedVel paletteToUse i w =
     (let (angle, w1) = random1 TWO_PI w;
          (forceMag, w2) = random2 (baseForce * (6/10)) (baseForce * 1) w1;
          v = vadd (vmult (fromAngle angle) forceMag) inheritedVel;
          (col, w3) = random_of paletteToUse w2;
          (ls, w4) = random2 (6/10) (12/10) w3;
          (cr, w5) = random2 4 9 w4
      in createParticle e cfg explosionPos v (Hex col) (25/10) ''CRACKLE_SOURCE''
           (no_options\<lparr>opt_lifespan := Some ls, opt_crackleRate := Some cr\<rparr>) w5)"

definition secondary_strobe_body :: "env \<Rightarrow> config \<Rightarrow> vec \<Rightarrow> real \<Rightarrow> vec \<Rightarrow> nat \<Rightarrow> world \<Rightarrow> world" where
  "secondary_strobe_body e cfg explosionPos baseForce inheritedVel i w =
     (let (angle, w1) = random1 TWO_PI w;
          (forceMag, w2) = random2 (baseForce * (7/10)) (baseForce * (11/10)) w1;
          v = vadd (vmult (fromAngle angle) forceMag) inheritedVel;
          (g, w3) = random2 200 255 w2;
          (ls, w4) = random2 1 2 w3;
          (sr, w5) = random2 6 16 w4
      in createParticle e cfg explosionPos v (Gray g) 2 ''STROBE''
           (no_options\<lparr>opt_lifespan := Some ls, opt_strobeRate := Some sr\<rparr>) w5)"

definition explodeSecondary :: "env \<Rightarrow> particle \<Rightarrow> world \<Rightarrow> particle \<times> world" where
  "explodeSecondary e p0 w0 =
     (let p = p0\<lparr>secondaryCalls := Suc (secondaryCalls p0)\<rparr> in
      case configRef p of
        None \<Rightarrow>
          (p\<lparr>alpha := 0\<rparr>,
           console_log ''Cannot explode secondary: missing config, position, or global particles array.'' w0)
      | Some cfg \<Rightarrow>
          (let numParticles = \<lfloor>min (num_or (particleCount cfg) 1000 * (4/10)) MAX_PARTICLES_PER_FIREWORK\<rfloor>;
               baseForce = num_or (explosionSize cfg) 400 / 18;
               explosionPos = pos p;
               (paletteToUse, w) = (case palette p of Some pl \<Rightarrow> (pl, w0) | None \<Rightarrow> random_of PALETTES w0);
               explosionType = (case subType p of Some t \<Rightarrow> t | None \<Rightarrow> ''PEONY'');
               maxTotal = (if maxTotalParticles cfg = 0 then MAX_TOTAL_PARTICLES else maxTotalParticles cfg);
               inheritedVel = vmult (vel p) (3/10);
               full = (\<lambda>i s. length (particles s) \<ge> maxTotal)
           in if explosionType = ''CRACKLING'' then
                (p, for_range [0..<iterations (real_of_int numParticles * (8/10))] full
                      (secondary_crackling_body e cfg explosionPos baseForce inheritedVel paletteToUse) w)
              else if explosionType = ''STROBE'' then
                (p, for_range [0..<iterations (real_of_int numParticles * (7/10))] full
                      (secondary_strobe_body e cfg explosionPos baseForce inheritedVel) w)
              else
                (p, for_range [0..<iterations (real_of_int numParticles)] full
                      (secondary_peony_body e cfg explosionPos baseForce inheritedVel paletteToUse) w)))"

text \<open>
  \<^verbatim>\<open>while (trail.length > maxTrailLength) trail.shift()\<close>.
\<close>

fun shift_while :: "nat \<Rightarrow> vec list \<Rightarrow> vec list" where
  "shift_while m [] = []"
| "shift_while m (x # xs) = (if length (x # xs) > m then shift_while m xs else x # xs)"

definition applyFluidBehavior :: "env \<Rightarrow> particle \<Rightarrow> particle" where
  "applyFluidBehavior e p =
     (let p1 = p\<lparr>vel := vmult (vel p) (viscosity p)\<rparr>;
          noiseAngle = noise2D e (vx (pos p1) * (3/100)) (vy (pos p1) * (3/100)) * TWO_PI * 2
      in applyForce (vmult (fromAngle noiseAngle) (8/100)) p1)"

text \<open>
  The frame time \<^verbatim>\<open>dt\<close> of \<^verbatim>\<open>Particle.update\<close>, in seconds.
\<close>

definition frame_dt :: "env \<Rightarrow> real" where
  "frame_dt e = (if deltaTime e > 0 \<and> deltaTime e < 250 then deltaTime e / 1000 else 1 / 60)"

definition constrain :: "real \<Rightarrow> real \<Rightarrow> real \<Rightarrow> real" where
  "constrain n lo hi = max (min n hi) lo"

definition lerp :: "real \<Rightarrow> real \<Rightarrow> real \<Rightarrow> real" where
  "lerp start stop amt = amt * (stop - start) + start"

definition physics_step :: "env \<Rightarrow> particle \<Rightarrow> particle" where
  "physics_step e p =
     (let p1 = p\<lparr>vel := vadd (vel p) (acc_p p)\<rparr>;
          dt = frame_dt e;
          p2 = p1\<lparr>pos := vadd (pos p1) (vmult (vel p1) dt)\<rparr>
      in p2\<lparr>acc_p := vmult (acc_p p2) 0\<rparr>)"

definition trail_step :: "particle \<Rightarrow> particle" where
  "trail_step p =
     (if magSq (vel p) > 1/100 then
        p\<lparr>trail := shift_while (maxTrailLength p) (trail p @ [pos p])\<rparr>
      else if length (trail p) > 0 then p\<lparr>trail := tl (trail p)\<rparr>
      else p)"

definition fade_step :: "env \<Rightarrow> particle \<Rightarrow> particle" where
  "fade_step e p =
     (let currentTime = millis e / 1000; age = currentTime - timeCreated p in
      if isFading p then
        (let fadeProgress = constrain ((currentTime - fadeStartTime p) / fadeDuration p) 0 1
         in p\<lparr>alpha := max 0 (lerp (fadeStartAlpha p) 0 fadeProgress)\<rparr>)
      else if role p \<noteq> ''MINI_SHELL'' \<and> age \<ge> lifespan p then setFading e (-1) p
      else p)"

definition strobe_step :: "env \<Rightarrow> particle \<Rightarrow> particle" where
  "strobe_step e p =
     (let currentTime = millis e / 1000 in
      if role p = ''STROBE'' \<and> strobeRate p > 0 \<and> \<not> isFading p then
        (let timeSinceStrobe = currentTime - lastStrobe p;
             strobeInterval = 1 / strobeRate p
         in if timeSinceStrobe \<ge> strobeInterval then
              (let p1 = p\<lparr>strobeOn := \<not> strobeOn p, lastStrobe := lastStrobe p + strobeInterval\<rparr>
               in if lastStrobe p1 < currentTime - strobeInterval * 2
                  then p1\<lparr>lastStrobe := currentTime\<rparr> else p1)
            else p)
      else p)"

definition crackle_step :: "env \<Rightarrow> particle \<Rightarrow> world \<Rightarrow> particle \<times> world" where
  "crackle_step e p w =
     (let currentTime = millis e / 1000 in
      if role p = ''CRACKLE_SOURCE'' \<and> crackleRate p > 0 \<and> \<not> isFading p then
        (let timeSinceCrackle = currentTime - lastCrackle p;
             (r, w1) = random2 (7/10) (13/10) w;
             crackleInterval = r / crackleRate p
         in if timeSinceCrackle \<ge> crackleInterval then
              (let maxP = (case configRef p of
                             None \<Rightarrow> MAX_TOTAL_PARTICLES
                           | Some cfg \<Rightarrow> if maxTotalParticles cfg = 0 then MAX_TOTAL_PARTICLES
                                         else maxTotalParticles cfg)
               in if int (length (particles w1)) < int maxP - 5
                  then (p\<lparr>lastCrackle := currentTime\<rparr>, spawnCrackle e p w1)
                  else (p, w1))
            else (p, w1))
      else (p, w))"

definition fluid_step :: "env \<Rightarrow> particle \<Rightarrow> particle" where
  "fluid_step e p =
     (if particleStyle p = ''FLUID'' \<and> fluid p then applyFluidBehavior e p else p)"

text \<open>
  \<^verbatim>\<open>Particle.update\<close>. The object is passed and returned by value; the world carries
  the global array, to which a crackle or a secondary explosion appends new objects
  (never this one).
\<close>

definition Particle_update :: "env \<Rightarrow> particle \<Rightarrow> world \<Rightarrow> particle \<times> world" where
  "Particle_update e p w =
     (let currentTime = millis e / 1000; age = currentTime - timeCreated p in
      if role p = ''MINI_SHELL'' \<and> delay p > 0 \<and> age \<ge> delay p then
        (let (p1, w1) = explodeSecondary e p w in (p1\<lparr>alpha := 0, delay := 0\<rparr>, w1))
      else if role p = ''MINI_SHELL'' \<and> delay p \<le> 0 then (p\<lparr>alpha := 0\<rparr>, w)
      else
        (let p1 = strobe_step e (fade_step e (trail_step (physics_step e p)));
             (p2, w2) = crackle_step e p1 w
         in (fluid_step e p2, w2)))"

definition isDone :: "particle \<Rightarrow> bool" where
  "isDone p = (alpha p \<le> 0)"

subsection \<open>The fade in double-precision arithmetic\<close>

text \<open>
  Whether a fade ends exactly at 0 depends on how the quotient
  \<^verbatim>\<open>(currentTime - fadeStartTime) / fadeDuration\<close> is rounded, so the fade is also modelled with
  the arithmetic of JavaScript numbers. A number is an IEEE 754 binary64 value: an
  integer of at most 53 bits times a power of two, the exponent no smaller than -1074.
  \<^term>\<open>double x\<close> is the binary64 value nearest to the real \<open>x\<close>, a tie going to the
  even integer, for \<open>x\<close> of magnitude below \<open>2 ^ 1024\<close> (the clock and alpha stay far
  below; overflow to infinity is not modelled). Each arithmetic operation of the source
  returns the rounded exact result.
\<close>

definition round_half_even :: "real \<Rightarrow> int" where
  "round_half_even x =
     (if x - of_int \<lfloor>x\<rfloor> < 1/2 then \<lfloor>x\<rfloor>
      else if 1/2 < x - of_int \<lfloor>x\<rfloor> then \<lfloor>x\<rfloor> + 1
      else if even \<lfloor>x\<rfloor> then \<lfloor>x\<rfloor> else \<lfloor>x\<rfloor> + 1)"

definition double_exponent :: "real \<Rightarrow> int" where
  "double_exponent x = max (\<lfloor>log 2 \<bar>x\<bar>\<rfloor> - 52) (- 1074)"

definition double :: "real \<Rightarrow> real" where
  "double x =
     (if x = 0 then 0
      else of_int (round_half_even (x / 2 powr of_int (double_exponent x)))
             * 2 powr of_int (double_exponent x))"

text \<open>
  \<^verbatim>\<open>setFading\<close>, the fading branch of \<^verbatim>\<open>Particle.update\<close> and \<^verbatim>\<open>Particle.update\<close> itself
  with every operation on the clock and on alpha rounded by \<open>fl\<close>: the division of
  \<^verbatim>\<open>millis()\<close> by 1000, the literals 0.01, 0.5 and 0.1, the subtractions from
  \<^verbatim>\<open>currentTime\<close>, the divisions, and the subtraction, product and sum inside
  \<^verbatim>\<open>lerp\<close>; \<^verbatim>\<open>max\<close>, \<^verbatim>\<open>min\<close> and the comparisons are exact. The other steps of
  \<^verbatim>\<open>update\<close> touch neither alpha nor the fade fields and stay as above. With \<open>fl\<close>
  the identity these are \<^const>\<open>setFading\<close>, \<^const>\<open>fade_step\<close> and
  \<^const>\<open>Particle_update\<close>; with \<^const>\<open>double\<close> they are what the program computes when
  \<^verbatim>\<open>millis()\<close> returns a binary64 value.
\<close>

definition setFading_fl :: "(real \<Rightarrow> real) \<Rightarrow> env \<Rightarrow> real \<Rightarrow> particle \<Rightarrow> particle" where
  "setFading_fl fl e duration p =
     (if \<not> isFading p then
        p\<lparr>isFading := True,
          fadeStartTime := fl (millis e / 1000),
          fadeStartAlpha := alpha p,
          fadeDuration := (if duration > 0 then duration
                           else max (fl (1/100)) (fl (fl (5/10) / max (fl (1/10)) (fadeRate p))))\<rparr>
      else p)"

definition fade_step_fl :: "(real \<Rightarrow> real) \<Rightarrow> env \<Rightarrow> particle \<Rightarrow> particle" where
  "fade_step_fl fl e p =
     (let currentTime = fl (millis e / 1000); age = fl (currentTime - timeCreated p) in
      if isFading p then
        (let fadeProgress = constrain (fl (fl (currentTime - fadeStartTime p) / fadeDuration p)) 0 1
         in p\<lparr>alpha := max 0 (fl (fl (fadeProgress * fl (0 - fadeStartAlpha p)) + fadeStartAlpha p))\<rparr>)
      else if role p \<noteq> ''MINI_SHELL'' \<and> age \<ge> lifespan p then setFading_fl fl e (-1) p
      else p)"

definition Particle_update_fl :: "(real \<Rightarrow> real) \<Rightarrow> env \<Rightarrow> particle \<Rightarrow> world \<Rightarrow> particle \<times> world" where
  "Particle_update_fl fl e p w =
     (let currentTime = fl (millis e / 1000); age = fl (currentTime - timeCreated p) in
      if role p = ''MINI_SHELL'' \<and> delay p > 0 \<and> age \<ge> delay p then
        (let (p1, w1) = explodeSecondary e p w in (p1\<lparr>alpha := 0, delay := 0\<rparr>, w1))
      else if role p = ''MINI_SHELL'' \<and> delay p \<le> 0 then (p\<lparr>alpha := 0\<rparr>, w)
      else
        (let p1 = strobe_step e (fade_step_fl fl e (trail_step (physics_step e p)));
             (p2, w2) = crackle_step e p1 w
         in (fluid_step e p2, w2)))"

section \<open>The Firework class\<close>

definition new_Firework :: "env \<Rightarrow> vec \<Rightarrow> vec \<Rightarrow> string \<Rightarrow> config \<Rightarrow> world \<Rightarrow> firework \<times> world" where
  "new_Firework e ps vl t cfg w =
     (let (s, w1) = new_Particle e ps vl (RGBA 255 255 0 200) 4 ''SHELL'' no_options w;
          s' = s\<lparr>configRef := Some cfg\<rparr>;
          (alt, w2) = random2 (height e * (1/10)) (height e * (5/10)) w1;
          (pal, w3) = random_of PALETTES w2
      in (\<lparr> shell = next_ref w3, fw_type = t, fw_config = cfg, fw_lifecycle = ASCENT,
             explosionAltitude = alt, fw_palette = pal, hasExploded = False,
             explodeCalls = 0 \<rparr>,
          push_particle s' w3))"

definition peony_body :: "env \<Rightarrow> firework \<Rightarrow> vec \<Rightarrow> real \<Rightarrow> vec \<Rightarrow> nat \<Rightarrow> world \<Rightarrow> world" where
  "peony_body e fw explosionPos baseForce inheritedVel i w =
     (let chrys = (fw_type fw = ''CHRYSANTHEMUM'');
          (angle, w1) = random1 TWO_PI w;
          (r, w2) = random2 (baseForce * (8/10)) (baseForce * (12/10)) w1;
          forceMag = r * (if chrys then 105/100 else 1);
          v = vadd (vmult (fromAngle angle) forceMag) inheritedVel;
          (l, w3) = random2 1 (18/10) w2;
          ls = l * (if chrys then 11/10 else 1);
          (col, w4) = random_of (fw_palette fw) w3
      in createParticle e (fw_config fw) explosionPos v (Hex col) 3 ''EXPLOSION''
           (no_options\<lparr>opt_lifespan := Some ls\<rparr>) w4)"

definition palm_body :: "env \<Rightarrow> firework \<Rightarrow> vec \<Rightarrow> real \<Rightarrow> vec \<Rightarrow> vec \<Rightarrow> nat \<Rightarrow> world \<Rightarrow> world" where
  "palm_body e fw explosionPos baseForce inheritedVel baseVel j w =
     (let (d, w1) = random2D w;
          variation = vmult d (baseForce * (35/100));
          v = vadd (vadd baseVel variation) inheritedVel;
          (col, w2) = random_of (fw_palette fw) w1;
          (sz, w3) = random2 3 (45/10) w2;
          (ls, w4) = random2 (15/10) (25/10) w3
      in createParticle e (fw_config fw) explosionPos v (Hex col) sz ''EXPLOSION''
           (no_options\<lparr>opt_lifespan := Some ls\<rparr>) w4)"

definition palm_branch :: "env \<Rightarrow> firework \<Rightarrow> vec \<Rightarrow> real \<Rightarrow> vec \<Rightarrow> int \<Rightarrow> nat \<Rightarrow> nat \<Rightarrow> world \<Rightarrow> world" where
  "palm_branch e fw explosionPos baseForce inheritedVel numParticles mainBranches i w =
     (let (r1, w1) = random2 (- (15/100)) (15/100) w;
          angle = (real i / real mainBranches) * TWO_PI + r1;
          (r2, w2) = random2 (12/10) (16/10) w1;
          branchForce = baseForce * r2;
          baseVel = vmult (fromAngle angle) branchForce;
          particlesPerBranch = \<lfloor>real_of_int numParticles / real mainBranches\<rfloor>
      in for_range [0..<iterations (real_of_int particlesPerBranch)] no_break
           (palm_body e fw explosionPos baseForce inheritedVel baseVel) w2)"

definition willow_body :: "env \<Rightarrow> firework \<Rightarrow> vec \<Rightarrow> real \<Rightarrow> vec \<Rightarrow> nat \<Rightarrow> world \<Rightarrow> world" where
  "willow_body e fw explosionPos baseForce inheritedVel i w =
     (let (angle, w1) = random1 TWO_PI w;
          (forceMag, w2) = random2 (baseForce * (4/10)) (baseForce * (8/10)) w1;
          v = vadd (vmult (fromAngle angle) forceMag) inheritedVel;
          (col, w3) = random_of (fw_palette fw) w2;
          (ls, w4) = random2 3 5 w3
      in createParticle e (fw_config fw) explosionPos v (Hex col) (25/10) ''EXPLOSION''
           (no_options\<lparr>opt_lifespan := Some ls, opt_fadeRate := Some (4/10)\<rparr>) w4)"

definition strobe_body :: "env \<Rightarrow> firework \<Rightarrow> vec \<Rightarrow> real \<Rightarrow> vec \<Rightarrow> nat \<Rightarrow> world \<Rightarrow> world" where
  "strobe_body e fw explosionPos baseForce inheritedVel i w =
     (let (angle, w1) = random1 TWO_PI w;
          (forceMag, w2) = random2 (baseForce * (7/10)) (baseForce * (11/10)) w1;
          v = vadd (vmult (fromAngle angle) forceMag) inheritedVel;
          (g, w3) = random2 200 255 w2;
          (ls, w4) = random2 (15/10) 3 w3;
          (sr, w5) = random2 5 15 w4
      in createParticle e (fw_config fw) explosionPos v (Gray g) 2 ''STROBE''
           (no_options\<lparr>opt_lifespan := Some ls, opt_strobeRate := Some sr\<rparr>) w5)"

definition crackling_body :: "env \<Rightarrow> firework \<Rightarrow> vec \<Rightarrow> real \<Rightarrow> vec \<Rightarrow> nat \<Rightarrow> world \<Rightarrow> world" where
  "crackling_body e fw explosionPos baseForce inheritedVel i w =
     (let (angle, w1) = random1 TWO_PI w;
          (forceMag, w2) = random2 (baseForce * (6/10)) (baseForce * 1) w1;
          v = vadd (vmult (fromAngle angle) forceMag) inheritedVel;
          (col, w3) = random_of (fw_palette fw) w2;
          (ls, w4) = random2 (8/10) (15/10) w3;
          (cr, w5) = random2 3 8 w4
      in createParticle e (fw_config fw) explosionPos v (Hex col) (25/10) ''CRACKLE_SOURCE''
           (no_options\<lparr>opt_lifespan := Some ls, opt_crackleRate := Some cr\<rparr>) w5)"

definition validSubTypes :: "string list" where
  "validSubTypes = filter (\<lambda>t. t \<noteq> ''RANDOM'' \<and> t \<noteq> ''MULTI_BREAK'') FIREWORK_TYPES"

definition multi_break_body :: "env \<Rightarrow> firework \<Rightarrow> vec \<Rightarrow> real \<Rightarrow> vec \<Rightarrow> nat \<Rightarrow> world \<Rightarrow> world" where
  "multi_break_body e fw explosionPos baseForce inheritedVel i w =
     (let (angle, w1) = random1 TWO_PI w;
          (forceMag, w2) = random2 (baseForce * (6/10)) (baseForce * 1) w1;
          v = vadd (vmult (fromAngle angle) forceMag) (vmult inheritedVel (15/10));
          (miniShell, w3) = new_Particle e explosionPos v (RGBA 255 220 150 200) 3 ''MINI_SHELL''
                              no_options w2;
          (d, w4) = random2 (4/10) (9/10) w3;
          (st, w5) = random_of validSubTypes w4;
          (pal, w6) = random_of PALETTES w5
      in push_particle
           (miniShell\<lparr>delay := d, subType := Some st, palette := Some pal,
              timeCreated := millis e / 1000, configRef := Some (fw_config fw)\<rparr>) w6)"

definition default_body :: "env \<Rightarrow> firework \<Rightarrow> vec \<Rightarrow> real \<Rightarrow> vec \<Rightarrow> nat \<Rightarrow> world \<Rightarrow> world" where
  "default_body e fw explosionPos baseForce inheritedVel i w =
     (let (d, w1) = random3D_xy w;
          (m, w2) = random2 (baseForce * (7/10)) (baseForce * (13/10)) w1;
          vel3D = vmult d m;
          v = vadd (createVector (vx vel3D) (vy vel3D)) inheritedVel;
          (col, w3) = random_of (fw_palette fw) w2;
          (ls, w4) = random2 (12/10) (22/10) w3
      in createParticle e (fw_config fw) explosionPos v (Hex col) 3 ''EXPLOSION''
           (no_options\<lparr>opt_lifespan := Some ls\<rparr>) w4)"

text \<open>
  The two constants \<^verbatim>\<open>numParticles\<close> and \<^verbatim>\<open>baseForce\<close> that
  \<^verbatim>\<open>Firework.explode\<close> computes from the configuration.
\<close>

definition fw_numParticles :: "config \<Rightarrow> int" where
  "fw_numParticles cfg = \<lfloor>min (num_or (particleCount cfg) 1000) MAX_PARTICLES_PER_FIREWORK\<rfloor>"

definition fw_baseForce :: "config \<Rightarrow> real" where
  "fw_baseForce cfg = num_or (explosionSize cfg) 400 / 10"

text \<open>
  \<^verbatim>\<open>Firework.explode\<close>: the \<^verbatim>\<open>switch\<close> on the type tag, case by case, the
  \<^verbatim>\<open>default\<close> branch last.
\<close>

definition Firework_explode :: "env \<Rightarrow> firework \<Rightarrow> world \<Rightarrow> firework \<times> world" where
  "Firework_explode e fw0 w =
     (let fw = fw0\<lparr>explodeCalls := Suc (explodeCalls fw0)\<rparr>;
          s = heap w (shell fw);
          explosionPos = pos s;
          numParticles = fw_numParticles (fw_config fw);
          baseForce = fw_baseForce (fw_config fw);
          inheritedVel = vmult (vel s) (1/10);
          t = fw_type fw
      in if t = ''PEONY'' \<or> t = ''CHRYSANTHEMUM'' then
           (fw, for_range [0..<iterations (real_of_int numParticles)] no_break
                  (peony_body e fw explosionPos baseForce inheritedVel) w)
         else if t = ''PALM'' then
           (let (r, w1) = random2 4 7 w; mainBranches = nat \<lfloor>r\<rfloor>
            in (fw, for_range [0..<mainBranches] no_break
                      (palm_branch e fw explosionPos baseForce inheritedVel numParticles mainBranches) w1))
         else if t = ''WILLOW'' then
           (fw, for_range [0..<iterations (real_of_int numParticles)] no_break
                  (willow_body e fw explosionPos baseForce inheritedVel) w)
         else if t = ''STROBE'' then
           (fw, for_range [0..<iterations (real_of_int numParticles * (7/10))] no_break
                  (strobe_body e fw explosionPos baseForce inheritedVel) w)
         else if t = ''CRACKLING'' then
           (fw, for_range [0..<iterations (real_of_int numParticles * (8/10))] no_break
                  (crackling_body e fw explosionPos baseForce inheritedVel) w)
         else if t = ''MULTI_BREAK'' then
           (let (r, w1) = random2 2 5 w; breaks = nat \<lfloor>r\<rfloor>
            in (fw, for_range [0..<breaks] no_break
                      (multi_break_body e fw explosionPos baseForce inheritedVel) w1))
         else
           (fw, for_range [0..<iterations (real_of_int numParticles)] no_break
                  (default_body e fw explosionPos baseForce inheritedVel)
                  (console_log ''Unknown or fallback firework type:'' w)))"

text \<open>
  The apex condition of \<^verbatim>\<open>Firework.update\<close>, read from the shell object.
\<close>

definition apex_condition :: "firework \<Rightarrow> world \<Rightarrow> bool" where
  "apex_condition fw w =
     (vy (vel (heap w (shell fw))) \<ge> - (5/10) \<or> vy (pos (heap w (shell fw))) \<le> explosionAltitude fw)"

definition Firework_update :: "env \<Rightarrow> firework \<Rightarrow> world \<Rightarrow> firework \<times> world" where
  "Firework_update e fw w =
     (let (fw1, w1) =
            (if fw_lifecycle fw = ASCENT \<and> apex_condition fw w \<and> \<not> hasExploded fw then
               (let (fw', w') = Firework_explode e fw w;
                    fw'' = fw'\<lparr>fw_lifecycle := EXPLOSION\<rparr>;
                    w'' = w'\<lparr>heap := (heap w')(shell fw'' := setFading e (1/10) (heap w' (shell fw'')))\<rparr>
                in (fw''\<lparr>hasExploded := True\<rparr>, w''))
             else (fw, w))
      in if fw_lifecycle fw1 = ASCENT \<and> shell fw1 \<notin> set (particles w1) then
           (fw1\<lparr>fw_lifecycle := EXPLOSION, hasExploded := True\<rparr>,
            console_log ''Shell particle disappeared before explosion.'' w1)
         else (fw1, w1))"

definition Firework_done :: "firework \<Rightarrow> bool" where
  "Firework_done fw = (fw_lifecycle fw = EXPLOSION)"

section \<open>The FireworkSystem class and the frame loop\<close>

definition FireworkSystem_launch :: "env \<Rightarrow> vec \<Rightarrow> string option \<Rightarrow> world \<Rightarrow> world" where
  "FireworkSystem_launch e ps typeOverride w =
     (if length (particles w) \<ge> maxTotalParticles (sys_config w) then
        console_log ''Max particle limit reached. Skipping launch.'' w
      else
        (let t0 = (case typeOverride of
                     None \<Rightarrow> fireworkType (sys_config w)
                   | Some t \<Rightarrow> if t = [] then fireworkType (sys_config w) else t);
             (t, w1) = (if t0 = ''RANDOM''
                        then random_of (filter (\<lambda>t. t \<noteq> ''RANDOM'') FIREWORK_TYPES) w
                        else (t0, w));
             (lx, w2) = random2 (- (15/10)) (15/10) w1;
             (ly, w3) = random2 (- 18) (- 24) w2;
             (fw, w4) = new_Firework e ps (createVector lx ly) t (sys_config w) w3
         in w4\<lparr>fireworks := fireworks w4 @ [fw]\<rparr>))"

definition launchRandom :: "env \<Rightarrow> world \<Rightarrow> world" where
  "launchRandom e w =
     (let (xPos, w1) = random2 (width e * (15/100)) (width e * (85/100)) w;
          startPos = createVector xPos (height e)
      in FireworkSystem_launch e startPos
           (Some (if fireworkType (sys_config w) = ''RANDOM'' then ''RANDOM''
                  else fireworkType (sys_config w))) w1)"

definition manualLaunch :: "env \<Rightarrow> real \<Rightarrow> world \<Rightarrow> world" where
  "manualLaunch e launchX w =
     FireworkSystem_launch e (createVector launchX (height e)) (Some (fireworkType (sys_config w))) w"

definition FireworkSystem_update :: "env \<Rightarrow> world \<Rightarrow> world" where
  "FireworkSystem_update e w =
     (if autoLaunch (sys_config w) \<and> millis e - lastLaunch w > 1000 / launchFrequency (sys_config w) then
        (if length (particles w) < maxTotalParticles (sys_config w) then
           (launchRandom e w)\<lparr>lastLaunch := millis e\<rparr>
         else w)
      else w)"

definition getWind :: "env \<Rightarrow> vec \<Rightarrow> world \<Rightarrow> vec" where
  "getWind e position w =
     (let time = millis e * (1/10000);
          noiseVal = noise3D e (vx position * turbulence (sys_config w))
                       (vy position * turbulence (sys_config w)) time
      in createVector (wind (sys_config w) + noiseVal * wind (sys_config w) * (5/10)) 0)"

text \<open>
  \<^verbatim>\<open>array.splice(i, 1)\<close>.
\<close>

definition splice1 :: "nat \<Rightarrow> 'a list \<Rightarrow> 'a list" where
  "splice1 i xs = take i xs @ drop (Suc i) xs"

text \<open>
  One pass of the particle loop of \<^verbatim>\<open>draw\<close>, for the object at index \<open>i\<close> of the
  global array; \<^verbatim>\<open>display\<close> draws and changes no state.
\<close>

definition draw_particle :: "env \<Rightarrow> nat \<Rightarrow> world \<Rightarrow> world" where
  "draw_particle e i w =
     (let r = particles w ! i;
          p1 = applyForce (createVector 0 (gravity_y w)) (heap w r);
          p2 = applyForce (getWind e (pos p1) w) p1;
          p3 = applyDrag (airDrag (sys_config w)) p2;
          (p4, w1) = Particle_update e p3 w;
          w2 = w1\<lparr>heap := (heap w1)(r := p4)\<rparr>
      in if isDone p4 then w2\<lparr>particles := splice1 i (particles w2)\<rparr> else w2)"

definition draw_firework :: "env \<Rightarrow> nat \<Rightarrow> world \<Rightarrow> world" where
  "draw_firework e i w =
     (let (fw, w1) = Firework_update e (fireworks w ! i) w;
          w2 = w1\<lparr>fireworks := (fireworks w1)[i := fw]\<rparr>
      in if Firework_done fw then w2\<lparr>fireworks := splice1 i (fireworks w2)\<rparr> else w2)"

definition draw :: "env \<Rightarrow> world \<Rightarrow> world" where
  "draw e w =
     (let w1 = FireworkSystem_update e w;
          w2 = for_range (rev [0..<length (particles w1)]) no_break (draw_particle e) w1
      in for_range (rev [0..<length (fireworks w2)]) no_break (draw_firework e) w2)"

section \<open>The earlier version, \<^verbatim>\<open>fireworks.js\<close> at the root\<close>

text \<open>
  The repository also holds an earlier version of the simulation, \<^verbatim>\<open>fireworks.js\<close>,
  with the same three classes. There a Firework owns the particles of its explosion,
  vectors carry a z component, and there is no particle cap. Its definitions carry the
  prefix \<open>lg\<close>. The sequence of random values and the count of those drawn are
  threaded as a pair.
\<close>

type_synonym vec3 = "real \<times> real \<times> real"

type_synonym rng = "(nat \<Rightarrow> real) \<times> nat"

definition v3x :: "vec3 \<Rightarrow> real" where
  "v3x v = fst v"

definition v3y :: "vec3 \<Rightarrow> real" where
  "v3y v = fst (snd v)"

definition v3z :: "vec3 \<Rightarrow> real" where
  "v3z v = snd (snd v)"

definition v3add :: "vec3 \<Rightarrow> vec3 \<Rightarrow> vec3" where
  "v3add a b = (v3x a + v3x b, v3y a + v3y b, v3z a + v3z b)"

definition v3mult :: "vec3 \<Rightarrow> real \<Rightarrow> vec3" where
  "v3mult a k = (v3x a * k, v3y a * k, v3z a * k)"

definition v3rotate :: "vec3 \<Rightarrow> real \<Rightarrow> vec3" where
  "v3rotate a t = (v3x a * cos t - v3y a * sin t, v3x a * sin t + v3y a * cos t, v3z a)"

definition lg_fromAngle :: "real \<Rightarrow> vec3" where
  "lg_fromAngle a = (cos a, sin a, 0)"

definition lg_draw :: "rng \<Rightarrow> real \<times> rng" where
  "lg_draw g = (fst g (snd g), (fst g, Suc (snd g)))"

definition lg_random2 :: "real \<Rightarrow> real \<Rightarrow> rng \<Rightarrow> real \<times> rng" where
  "lg_random2 a b g =
     (let (u, g') = lg_draw g; lo = min a b; hi = max a b in (u * (hi - lo) + lo, g'))"

definition lg_random1 :: "real \<Rightarrow> rng \<Rightarrow> real \<times> rng" where
  "lg_random1 m g = (let (u, g') = lg_draw g in (u * m, g'))"

definition lg_random2D :: "rng \<Rightarrow> vec3 \<times> rng" where
  "lg_random2D g = (let (u, g') = lg_draw g in (lg_fromAngle (u * TWO_PI), g'))"

definition lg_random3D :: "rng \<Rightarrow> vec3 \<times> rng" where
  "lg_random3D g =
     (let (u, g1) = lg_draw g;
          (u', g2) = lg_draw g1;
          vz = u' * 2 - 1;
          vzBase = sqrt (1 - vz * vz)
      in ((vzBase * cos (u * TWO_PI), vzBase * sin (u * TWO_PI), vz), g2))"

record lg_config =
  lg_launchFrequency :: real
  lg_explosionSize :: real
  lg_particleCount :: real
  lg_turbulence :: real
  lg_wind :: real
  lg_gravity :: real
  lg_physicsAccuracy :: real
  lg_autoLaunch :: bool
  lg_particleType :: string

text \<open>
  \<open>lg_density\<close> and \<open>lg_pressure\<close> exist only once \<^verbatim>\<open>enableFluidBehavior\<close> has run;
  until then they are held as 0 and never read.
\<close>

record lg_particle =
  lg_pos :: vec3
  lg_vel :: vec3
  lg_acc :: vec3
  lg_col :: color
  lg_alpha :: real
  lg_size :: real
  lg_lifespan :: real
  lg_fluid :: bool
  lg_trail :: "vec3 list"
  lg_density :: real
  lg_pressure :: real

record lg_firework =
  lg_fpos :: vec3
  lg_fvel :: vec3
  lg_particles :: "lg_particle list"
  lg_type :: string
  lg_fconfig :: lg_config
  lg_lifecycle :: lifecycle
  lg_explosionColor :: color
  lg_shell :: lg_particle
  lg_explodeCalls :: nat

datatype lg_error = TypeError

text \<open>
  What a call does: it returns, or it raises. Either way the objects are left in some
  state, which the next frame finds.
\<close>

datatype 'a lg_result = Returns 'a | Raises lg_error 'a

definition lg_new_Particle :: "vec3 \<Rightarrow> vec3 \<Rightarrow> color \<Rightarrow> bool \<Rightarrow> rng \<Rightarrow> lg_particle \<times> rng" where
  "lg_new_Particle ps vl c isExplosion g =
     (let (sz, g1) = (if isExplosion then lg_random2 2 5 g else (4, g));
          (ls, g2) = lg_random2 (8/10) (12/10) g1
      in (\<lparr> lg_pos = ps, lg_vel = vl, lg_acc = (0, 0, 0), lg_col = c, lg_alpha = 255,
             lg_size = sz, lg_lifespan = ls, lg_fluid = False, lg_trail = [],
             lg_density = 0, lg_pressure = 0 \<rparr>, g2))"

definition lg_applyForce :: "vec3 \<Rightarrow> lg_particle \<Rightarrow> lg_particle" where
  "lg_applyForce f p = p\<lparr>lg_acc := v3add (lg_acc p) f\<rparr>"

definition lg_enableFluidBehavior :: "lg_particle \<Rightarrow> rng \<Rightarrow> lg_particle \<times> rng" where
  "lg_enableFluidBehavior p g =
     (let (d, g1) = lg_random2 (8/10) (12/10) g
      in (p\<lparr>lg_fluid := True, lg_density := d, lg_pressure := 0\<rparr>, g1))"

definition lg_applyFluidBehavior :: "lg_particle \<Rightarrow> rng \<Rightarrow> lg_particle \<times> rng" where
  "lg_applyFluidBehavior p g =
     (let viscosity = 97/100;
          pressureForce = lg_pressure p * (1/100);
          p1 = p\<lparr>lg_vel := v3mult (lg_vel p) viscosity\<rparr>;
          (d, g1) = lg_random2D g
      in (p1\<lparr>lg_vel := v3add (lg_vel p1) (v3mult d pressureForce)\<rparr>, g1))"

definition lg_Particle_update :: "real \<Rightarrow> lg_particle \<Rightarrow> rng \<Rightarrow> lg_particle \<times> rng" where
  "lg_Particle_update dTime p g =
     (let (p1, g1) = (if lg_fluid p then lg_applyFluidBehavior p g else (p, g));
          p2 = p1\<lparr>lg_vel := v3add (lg_vel p1) (lg_acc p1)\<rparr>;
          p3 = p2\<lparr>lg_pos := v3add (lg_pos p2) (lg_vel p2)\<rparr>;
          p4 = p3\<lparr>lg_acc := v3mult (lg_acc p3) 0\<rparr>;
          p5 = p4\<lparr>lg_alpha := lg_alpha p4 - dTime * (5/10)\<rparr>;
          p6 = p5\<lparr>lg_trail := lg_trail p5 @ [lg_pos p5]\<rparr>
      in (if length (lg_trail p6) > 10 then p6\<lparr>lg_trail := tl (lg_trail p6)\<rparr> else p6, g1))"

text \<open>
  \<^verbatim>\<open>color(r, g, b)\<close> of three random levels, and \<^verbatim>\<open>lerpColor\<close> on the four levels.
\<close>

fun color_levels :: "color \<Rightarrow> real \<times> real \<times> real \<times> real" where
  "color_levels (RGBA r g b a) = (r, g, b, a)"
| "color_levels (Gray g) = (g, g, g, 255)"
| "color_levels (Hex s) = (255, 255, 255, 255)"

definition lerpColor :: "color \<Rightarrow> color \<Rightarrow> real \<Rightarrow> color" where
  "lerpColor c1 c2 amt =
     (case (color_levels c1, color_levels c2) of
        ((r1, g1, b1, a1), (r2, g2, b2, a2)) \<Rightarrow>
          (let t = max 0 (min 1 amt)
           in RGBA (lerp r1 r2 t) (lerp g1 g2 t) (lerp b1 b2 t) (lerp a1 a2 t)))"

definition lg_createParticle :: "vec3 \<Rightarrow> lg_firework \<times> rng \<Rightarrow> lg_firework \<times> rng" where
  "lg_createParticle force s =
     (let fw = fst s;
          (cr, g1) = lg_random1 255 (snd s);
          (cg, g2) = lg_random1 255 g1;
          (cb, g3) = lg_random1 255 g2;
          (amt, g4) = lg_random1 (2/10) g3;
          (p, g5) = lg_new_Particle (lg_pos (lg_shell fw)) (v3mult force (5/10))
                      (lerpColor (lg_explosionColor fw) (RGBA cr cg cb 255) amt) True g4;
          (p', g6) = (if lg_particleType (lg_fconfig fw) = ''FLUID''
                      then lg_enableFluidBehavior p g5 else (p, g5))
      in (fw\<lparr>lg_particles := lg_particles fw @ [p']\<rparr>, g6))"

definition lg_peony_body :: "real \<Rightarrow> lg_firework \<times> rng \<Rightarrow> lg_firework \<times> rng" where
  "lg_peony_body a s =
     (let S = lg_explosionSize (lg_fconfig (fst s));
          (m, g1) = lg_random2 (S * (8/10)) S (snd s)
      in lg_createParticle (v3mult (lg_fromAngle a) m) (fst s, g1))"

text \<open>
  \<^verbatim>\<open>for (let a = 0; a < TWO_PI; a += angleStep)\<close>: a loop on a real counter, which
  does not end when the step is not positive; not returning is the value \<open>None\<close>.
\<close>

partial_function (option) lg_peony_loop ::
  "real \<Rightarrow> real \<Rightarrow> lg_firework \<times> rng \<Rightarrow> (lg_firework \<times> rng) option" where
  "lg_peony_loop a angleStep s =
     (if a < TWO_PI then lg_peony_loop (a + angleStep) angleStep (lg_peony_body a s)
      else Some s)"

text \<open>
  \<^verbatim>\<open>TWO_PI / particleCount\<close> is \<^verbatim>\<open>Infinity\<close> for a count of zero: the loop then
  makes its first pass and stops.
\<close>

definition lg_createPeony :: "lg_firework \<times> rng \<Rightarrow> (lg_firework \<times> rng) option" where
  "lg_createPeony s =
     (let n = lg_particleCount (lg_fconfig (fst s))
      in if n = 0 then Some (lg_peony_body 0 s) else lg_peony_loop 0 (TWO_PI / n) s)"

definition lg_chrysanthemum_body :: "nat \<Rightarrow> lg_firework \<times> rng \<Rightarrow> lg_firework \<times> rng" where
  "lg_chrysanthemum_body i s =
     (let S = lg_explosionSize (lg_fconfig (fst s));
          (d, g1) = lg_random3D (snd s);
          (m, g2) = lg_random1 (S * (5/10)) g1;
          f = v3mult d m
      in lg_createParticle (v3x f, v3y f, v3z f * (2/10)) (fst s, g2))"

definition lg_palm_body :: "real \<Rightarrow> nat \<Rightarrow> lg_firework \<times> rng \<Rightarrow> lg_firework \<times> rng" where
  "lg_palm_body angle i s =
     (let S = lg_explosionSize (lg_fconfig (fst s));
          (r1, g1) = lg_random2 (- (1/10)) (1/10) (snd s);
          (m, g2) = lg_random2 (S * (5/10)) S g1;
          (r2, g3) = lg_random2 (- (2/10)) (2/10) g2
      in lg_createParticle (v3rotate (v3mult (lg_fromAngle (angle + r1)) m) r2) (fst s, g3))"

definition lg_createPalm :: "lg_firework \<times> rng \<Rightarrow> lg_firework \<times> rng" where
  "lg_createPalm s =
     (let (angle, g1) = lg_random2 (- (pi / 4)) (pi / 4) (snd s)
      in for_range [0..<iterations (lg_particleCount (lg_fconfig (fst s)))] no_break
           (lg_palm_body angle) (fst s, g1))"

definition lg_random_body :: "nat \<Rightarrow> lg_firework \<times> rng \<Rightarrow> lg_firework \<times> rng" where
  "lg_random_body i s =
     (let S = lg_explosionSize (lg_fconfig (fst s));
          (d, g1) = lg_random3D (snd s);
          (m, g2) = lg_random1 S g1
      in lg_createParticle (v3mult d m) (fst s, g2))"

text \<open>
  \<^verbatim>\<open>Firework.explode\<close> of the earlier version: the generator is looked up in a table
  of four entries and called; calling the entry of a tag that is not in the table raises
  a TypeError. The result is \<open>None\<close> when the call does not return.
\<close>

definition lg_explode :: "lg_firework \<Rightarrow> rng \<Rightarrow> (lg_firework \<times> rng) lg_result option" where
  "lg_explode fw0 g =
     (let fw = fw0\<lparr>lg_explodeCalls := Suc (lg_explodeCalls fw0)\<rparr>;
          n = iterations (lg_particleCount (lg_fconfig fw))
      in if lg_type fw = ''PEONY'' then map_option Returns (lg_createPeony (fw, g))
         else if lg_type fw = ''CHRYSANTHEMUM'' then
           Some (Returns (for_range [0..<n] no_break lg_chrysanthemum_body (fw, g)))
         else if lg_type fw = ''PALM'' then Some (Returns (lg_createPalm (fw, g)))
         else if lg_type fw = ''RANDOM'' then
           Some (Returns (for_range [0..<n] no_break lg_random_body (fw, g)))
         else Some (Raises TypeError (fw, g)))"

definition lg_new_Firework :: "vec3 \<Rightarrow> string \<Rightarrow> lg_config \<Rightarrow> rng \<Rightarrow> lg_firework \<times> rng" where
  "lg_new_Firework ps t cfg g =
     (let (v, g1) = lg_random2 (- 12) (- 18) g;
          vl = (0, v, 0);
          (cr, g2) = lg_random1 255 g1;
          (cg, g3) = lg_random1 255 g2;
          (cb, g4) = lg_random1 255 g3;
          (sh, g5) = lg_new_Particle ps vl (RGBA 255 255 255 150) False g4
      in (\<lparr> lg_fpos = ps, lg_fvel = vl, lg_particles = [], lg_type = t, lg_fconfig = cfg,
             lg_lifecycle = ASCENT, lg_explosionColor = RGBA cr cg cb 255, lg_shell = sh,
             lg_explodeCalls = 0 \<rparr>, g5))"

definition lg_update_particles :: "real \<Rightarrow> lg_firework \<times> rng \<Rightarrow> lg_firework \<times> rng" where
  "lg_update_particles dTime s =
     (let n = iterations (lg_physicsAccuracy (lg_fconfig (fst s)));
          step = (\<lambda>k (t :: lg_firework \<times> rng).
                    for_range [0..<n] no_break
                      (\<lambda>i (u :: lg_firework \<times> rng).
                         (let (p, g) = lg_Particle_update dTime (lg_particles (fst u) ! k) (snd u)
                          in ((fst u)\<lparr>lg_particles := (lg_particles (fst u))[k := p]\<rparr>, g))) t)
      in for_range [0..<length (lg_particles (fst s))] no_break step s)"

definition lg_Firework_update ::
  "real \<Rightarrow> lg_firework \<Rightarrow> rng \<Rightarrow> (lg_firework \<times> rng) lg_result option" where
  "lg_Firework_update dTime fw g =
     (if lg_lifecycle fw = ASCENT then
        (let sh = lg_applyForce (0, lg_gravity (lg_fconfig fw), 0) (lg_shell fw);
             (sh', g1) = lg_Particle_update dTime sh g;
             fw1 = fw\<lparr>lg_shell := sh'\<rparr>
         in if v3y (lg_vel sh') \<ge> 0 then
              (case lg_explode fw1 g1 of
                 None \<Rightarrow> None
               | Some (Raises err s) \<Rightarrow> Some (Raises err s)
               | Some (Returns s) \<Rightarrow>
                   Some (Returns (lg_update_particles dTime
                                    ((fst s)\<lparr>lg_lifecycle := EXPLOSION\<rparr>, snd s))))
            else Some (Returns (lg_update_particles dTime (fw1, g1))))
      else Some (Returns (lg_update_particles dTime (fw, g))))"

definition lg_done :: "lg_firework \<Rightarrow> bool" where
  "lg_done fw = (lg_lifecycle fw = EXPLOSION \<and> list_all (\<lambda>p. lg_alpha p \<le> 0) (lg_particles fw))"

section \<open>Runs of update calls, and what a call adds to the world\<close>

text \<open>
  The successive states of one Particle object under a sequence of \<^verbatim>\<open>update\<close> calls.
  Between two calls the rest of the program runs, so each call comes with the clock and
  the world it finds, and these are arbitrary.
\<close>

fun updates :: "particle \<Rightarrow> (env \<times> world) list \<Rightarrow> particle list" where
  "updates p [] = []"
| "updates p (ew # rest) =
     (let p' = fst (Particle_update (fst ew) p (snd ew)) in p' # updates p' rest)"

text \<open>
  The same with the fade computed in the arithmetic \<open>fl\<close>.
\<close>

fun updates_fl :: "(real \<Rightarrow> real) \<Rightarrow> particle \<Rightarrow> (env \<times> world) list \<Rightarrow> particle list" where
  "updates_fl fl p [] = []"
| "updates_fl fl p (ew # rest) =
     (let p' = fst (Particle_update_fl fl (fst ew) p (snd ew)) in p' # updates_fl fl p' rest)"

text \<open>
  The same for one Firework object.
\<close>

fun fw_updates :: "firework \<Rightarrow> (env \<times> world) list \<Rightarrow> firework list" where
  "fw_updates fw [] = []"
| "fw_updates fw (ew # rest) =
     (let fw' = fst (Firework_update (fst ew) fw (snd ew)) in fw' # fw_updates fw' rest)"

text \<open>
  The Particle objects created between a world \<open>w\<close> and a later world \<open>w'\<close>.
\<close>

definition new_particles :: "world \<Rightarrow> world \<Rightarrow> particle list" where
  "new_particles w w' = map (heap w') [next_ref w..<next_ref w']"

text \<open>
  \<open>grows Q w w'\<close>: from \<open>w\<close> to \<open>w'\<close> the global array was only appended to, by newly
  created objects that satisfy \<open>Q\<close>, and no older object was written.
\<close>

definition grows :: "(particle \<Rightarrow> bool) \<Rightarrow> world \<Rightarrow> world \<Rightarrow> bool" where
  "grows Q w w' =
     (next_ref w \<le> next_ref w'
      \<and> particles w' = particles w @ [next_ref w..<next_ref w']
      \<and> (\<forall>r. r < next_ref w \<longrightarrow> heap w' r = heap w r)
      \<and> (\<forall>r. next_ref w \<le> r \<and> r < next_ref w' \<longrightarrow> Q (heap w' r))
      \<and> rand w' = rand w)"

definition secondary_role :: "string \<Rightarrow> bool" where
  "secondary_role r = (r = ''EXPLOSION'' \<or> r = ''STROBE'' \<or> r = ''CRACKLE_SOURCE'')"

text \<open>
  The successive states of one Firework object of the earlier version under a sequence
  of \<^verbatim>\<open>update\<close> calls, each with the \<^verbatim>\<open>deltaTime\<close> and the random values it finds.
  A call that raises leaves the object as it was at the throw, and the next frame calls
  again; a call that does not return ends the run.
\<close>

fun lg_state_of :: "(lg_firework \<times> rng) lg_result \<Rightarrow> lg_firework" where
  "lg_state_of (Returns s) = fst s"
| "lg_state_of (Raises err s) = fst s"

fun lg_fw_updates :: "lg_firework \<Rightarrow> (real \<times> rng) list \<Rightarrow> lg_firework list" where
  "lg_fw_updates fw [] = []"
| "lg_fw_updates fw (dg # rest) =
     (case lg_Firework_update (fst dg) fw (snd dg) of
        None \<Rightarrow> []
      | Some r \<Rightarrow> lg_state_of r # lg_fw_updates (lg_state_of r) rest)"

text \<open>
  The fields of a Firework of the earlier version that creating and updating its
  particles leaves alone.
\<close>

definition lg_core :: "lg_firework \<Rightarrow> lifecycle \<times> nat \<times> string \<times> lg_config \<times> lg_particle" where
  "lg_core fw = (lg_lifecycle fw, lg_explodeCalls fw, lg_type fw, lg_fconfig fw, lg_shell fw)"

text \<open>
  The tags of the table of \<^verbatim>\<open>explode\<close> in the earlier version.
\<close>

definition lg_recognized :: "string \<Rightarrow> bool" where
  "lg_recognized t = (t = ''PEONY'' \<or> t = ''CHRYSANTHEMUM'' \<or> t = ''PALM'' \<or> t = ''RANDOM'')"

text \<open>
  The type tags that \<^verbatim>\<open>Firework.explode\<close> has a case for.
\<close>

definition recognized_types :: "string list" where
  "recognized_types = [''PEONY'', ''CHRYSANTHEMUM'', ''PALM'', ''WILLOW'', ''STROBE'',
     ''CRACKLING'', ''MULTI_BREAK'']"

text \<open>
  What the \<^verbatim>\<open>default\<close> branch of \<^verbatim>\<open>Firework.explode\<close> gives each particle: the
  role \<^verbatim>\<open>EXPLOSION\<close>, size 3, the shell's position, and as velocity the x and y
  of a random direction of the unit sphere (so of length at most 1), scaled by a
  magnitude between 0.7 and 1.3 times the base force, plus a tenth of the shell's
  velocity.
\<close>

definition default_particle :: "firework \<Rightarrow> world \<Rightarrow> particle \<Rightarrow> bool" where
  "default_particle fw w q =
     (role q = ''EXPLOSION'' \<and> pos q = pos (heap w (shell fw)) \<and> size_p q = 3
      \<and> (\<exists>d m. vel q = vadd (vmult d m) (vmult (vel (heap w (shell fw))) (1/10))
             \<and> magSq d \<le> 1
             \<and> min (fw_baseForce (fw_config fw) * (7/10)) (fw_baseForce (fw_config fw) * (13/10)) \<le> m
             \<and> m \<le> max (fw_baseForce (fw_config fw) * (7/10)) (fw_baseForce (fw_config fw) * (13/10))))"

text \<open>
  What a multi-break explosion creates: a particle of role \<^verbatim>\<open>MINI_SHELL\<close> whose
  \<^verbatim>\<open>subType\<close> is a firework type other than \<^verbatim>\<open>RANDOM\<close> and \<^verbatim>\<open>MULTI_BREAK\<close>.
\<close>

definition mini_shell_particle :: "particle \<Rightarrow> bool" where
  "mini_shell_particle q =
     (role q = ''MINI_SHELL''
      \<and> (\<exists>s. subType q = Some s \<and> s \<in> set FIREWORK_TYPES \<and> s \<noteq> ''RANDOM'' \<and> s \<noteq> ''MULTI_BREAK''))"

text \<open>
  The alpha that the fading branch of \<^verbatim>\<open>Particle.update\<close> computes at time \<open>t\<close>, for a
  fade from alpha \<open>a\<close> that started at \<open>T\<close> and lasts \<open>D\<close>.
\<close>

definition fade_level :: "real \<Rightarrow> real \<Rightarrow> real \<Rightarrow> real \<Rightarrow> real" where
  "fade_level a T D t = max 0 (lerp a 0 (constrain ((t - T) / D) 0 1))"

text \<open>
  What the proofs about the fade use of an arithmetic: rounding is monotone, odd and
  idempotent, and 0 and 1 are numbers.
\<close>

definition rounding :: "(real \<Rightarrow> real) \<Rightarrow> bool" where
  "rounding fl = (mono fl \<and> fl 0 = 0 \<and> fl 1 = 1 \<and> (\<forall>x. fl (- x) = - fl x)
                 \<and> (\<forall>x. fl (fl x) = fl x))"

text \<open>
  In the arithmetic \<open>fl\<close>: the quotient \<^verbatim>\<open>(currentTime - fadeStartTime) / fadeDuration\<close>
  as \<^verbatim>\<open>Particle.update\<close> computes it under the clock of \<open>e\<close>, before \<^verbatim>\<open>constrain\<close>; the
  alpha computed from it; and what holds of a fading particle between two updates, the
  earlier of them under a clock no later than that of \<open>e\<close>.
\<close>

definition fade_progress :: "(real \<Rightarrow> real) \<Rightarrow> real \<Rightarrow> real \<Rightarrow> env \<Rightarrow> real" where
  "fade_progress fl T D e = fl (fl (fl (millis e / 1000) - T) / D)"

definition fade_level_fl :: "(real \<Rightarrow> real) \<Rightarrow> real \<Rightarrow> real \<Rightarrow> real \<Rightarrow> env \<Rightarrow> real" where
  "fade_level_fl fl a T D e =
     max 0 (fl (fl (constrain (fade_progress fl T D e) 0 1 * fl (0 - a)) + a))"

definition fading_inv_fl :: "(real \<Rightarrow> real) \<Rightarrow> real \<Rightarrow> real \<Rightarrow> particle \<Rightarrow> env \<Rightarrow> bool" where
  "fading_inv_fl fl T D p e =
     (isFading p \<and> fadeStartTime p = T \<and> fadeDuration p = D \<and> 0 < D \<and> 0 \<le> alpha p
      \<and> (role p = ''MINI_SHELL'' \<and> delay p \<le> 0
         \<or> 0 \<le> fadeStartAlpha p \<and> fl (fadeStartAlpha p) = fadeStartAlpha p
           \<and> fade_level_fl fl (fadeStartAlpha p) T D e \<le> alpha p))"

text \<open>
  What the \<^verbatim>\<open>PEONY\<close> branch of \<^verbatim>\<open>Firework.explode\<close> gives each particle: the role
  \<^verbatim>\<open>EXPLOSION\<close>, size 3, the shell's position, and a velocity that differs from a
  tenth of the shell's velocity by a vector of length between 0.8 and 1.2 times the
  base force.
\<close>

definition peony_particle :: "firework \<Rightarrow> world \<Rightarrow> particle \<Rightarrow> bool" where
  "peony_particle fw w q =
     (role q = ''EXPLOSION'' \<and> pos q = pos (heap w (shell fw)) \<and> size_p q = 3
      \<and> fw_baseForce (fw_config fw) * (8/10)
          \<le> mag (vsub (vel q) (vmult (vel (heap w (shell fw))) (1/10)))
      \<and> mag (vsub (vel q) (vmult (vel (heap w (shell fw))) (1/10)))
          \<le> fw_baseForce (fw_config fw) * (12/10))"

text \<open>
  What one pass of the frame loop does to a particle that is neither a mini-shell nor
  fluid when there is no wind and no drag: gravity \<open>g\<close> is applied, then the physics,
  trail and fade steps of \<^verbatim>\<open>Particle.update\<close>. And what holds of a shell launched
  upwards at speed 21 with a lifespan of 2 s after \<open>k\<close> such passes at 60 frames
  per second: it has gained \<open>0.08 k\<close> of velocity, has risen at most \<open>0.35 k\<close>, and
  is opaque until frame 120, from which it fades over half a second.
\<close>

definition shell_step :: "real \<Rightarrow> env \<Rightarrow> particle \<Rightarrow> particle" where
  "shell_step g e p = fade_step e (trail_step (physics_step e (applyForce (0, g) p)))"

definition flying :: "nat \<Rightarrow> particle \<Rightarrow> bool" where
  "flying k p =
     (role p = ''SHELL'' \<and> \<not> fluid p \<and> timeCreated p = 0 \<and> lifespan p = 2 \<and> fadeRate p = 1
      \<and> acc_p p = (0, 0) \<and> vel p = (0, 8/100 * real k - 21)
      \<and> 800 - 21/60 * real k \<le> vy (pos p)
      \<and> (if k < 120 then \<not> isFading p \<and> alpha p = 200
          else isFading p \<and> fadeStartAlpha p = 200 \<and> fadeStartTime p = 2
               \<and> fadeDuration p = 1/2 \<and> alpha p = fade_level 200 2 (1/2) (real k / 60)))"

text \<open>
  The particle cap. \<open>cap_ok c p\<close>: the configuration that particle \<open>p\<close> refers to, if any,
  has the cap \<open>c\<close>. \<open>refs_ok c w\<close>: every reference in the global array is allocated and
  names such a particle. \<open>spawns c w w'\<close>: from \<open>w\<close> to \<open>w'\<close> the global array did not
  shrink, did not grow past \<open>c\<close> unless it was past it, and was left as it was if it had
  reached \<open>c\<close>; the configuration and the Fireworks are the same.
\<close>

definition cap_ok :: "nat \<Rightarrow> particle \<Rightarrow> bool" where
  "cap_ok c p = (case configRef p of None \<Rightarrow> True | Some cfg \<Rightarrow> maxTotalParticles cfg = c)"

definition refs_ok :: "nat \<Rightarrow> world \<Rightarrow> bool" where
  "refs_ok c w = (\<forall>r \<in> set (particles w). r < next_ref w \<and> cap_ok c (heap w r))"

definition spawns :: "nat \<Rightarrow> world \<Rightarrow> world \<Rightarrow> bool" where
  "spawns c w w' =
     (length (particles w) \<le> length (particles w')
      \<and> length (particles w') \<le> max (length (particles w)) c
      \<and> (c \<le> length (particles w) \<longrightarrow> particles w' = particles w)
      \<and> (refs_ok c w \<longrightarrow> refs_ok c w')
      \<and> sys_config w' = sys_config w \<and> fireworks w' = fireworks w)"

text \<open>
  A stage on which the cap can be relied on: one cap \<open>c\<close> in the system's configuration,
  in the configuration of every Firework and of every live particle (in the program
  they all refer to the one configuration object); no multi-break Firework in flight
  and none to be launched (\<^verbatim>\<open>fireworkType\<close> is neither \<^verbatim>\<open>MULTI_BREAK\<close> nor \<^verbatim>\<open>RANDOM\<close>,
  which may draw it); and at most \<open>c\<close> live particles.
\<close>

definition stage_ok :: "nat \<Rightarrow> world \<Rightarrow> bool" where
  "stage_ok c w =
     (maxTotalParticles (sys_config w) = c
      \<and> fireworkType (sys_config w) \<noteq> ''MULTI_BREAK'' \<and> fireworkType (sys_config w) \<noteq> ''RANDOM''
      \<and> list_all (\<lambda>fw. maxTotalParticles (fw_config fw) = c \<and> fw_type fw \<noteq> ''MULTI_BREAK'')
           (fireworks w)
      \<and> refs_ok c w
      \<and> length (particles w) \<le> c)"

text \<open>
  What happens to the world: a frame (\<^verbatim>\<open>draw\<close>), or a click that launches a Firework
  (\<^verbatim>\<open>manualLaunch\<close>). \<open>run\<close> lists the worlds after each event.
\<close>

datatype event = Frame env | Click env real

fun react :: "event \<Rightarrow> world \<Rightarrow> world" where
  "react (Frame e) w = draw e w"
| "react (Click e x) w = manualLaunch e x w"

fun run :: "event list \<Rightarrow> world \<Rightarrow> world list" where
  "run [] w = []"
| "run (ev # evs) w = react ev w # run evs (react ev w)"

section \<open>Concrete inputs\<close>

definition env_at :: "real \<Rightarrow> env" where
  "env_at t = \<lparr> millis = t, deltaTime = 20, width = 1000, height = 800,
     noise2D = (\<lambda>x y. 0), noise3D = (\<lambda>x y z. 0) \<rparr>"

definition blank_particle :: particle where
  "blank_particle = \<lparr> pos = (0, 0), vel = (0, 0), acc_p = (0, 0), baseColor = Gray 255,
     alpha = 255, baseAlpha = 255, size_p = 3, role = ''EXPLOSION'',
     particleStyle = ''CLASSIC'', configRef = Some default_config, lifespan = 2,
     strobeRate = 0, crackleRate = 0, fadeRate = 1, delay = 0, subType = None,
     palette = None, timeCreated = 0, lastStrobe = 0, lastCrackle = 0, strobeOn = True,
     isFading = False, fadeStartAlpha = 255, fadeStartTime = 0, fadeDuration = 1/2,
     trail = [], maxTrailLength = TRAIL_LENGTH, fluid = False, viscosity = 98/100,
     density = 1, pressure = 0, secondaryCalls = 0 \<rparr>"

text \<open>
  An empty world with the default configuration, in which every random draw is \<open>1/2\<close>.
\<close>

definition world0 :: world where
  "world0 = \<lparr> heap = (\<lambda>r. blank_particle), next_ref = 0, particles = [], fireworks = [],
     sys_config = default_config, lastLaunch = 0, gravity_y = 8/100,
     rand = (\<lambda>i. 1/2), used = 0, console = [] \<rparr>"

text \<open>
  A mini-shell as a multi-break explosion makes it, with a delay of half a second.
\<close>

definition mini_shell0 :: particle where
  "mini_shell0 = blank_particle\<lparr> role := ''MINI_SHELL'', alpha := 200, baseAlpha := 200,
     baseColor := RGBA 255 220 150 200, delay := 1/2, subType := Some ''STROBE'',
     palette := Some (PALETTES ! 0) \<rparr>"

definition lg_default_config :: lg_config where
  "lg_default_config = \<lparr> lg_launchFrequency = 1/2, lg_explosionSize = 300, lg_particleCount = 2000,
     lg_turbulence = 8/10, lg_wind = 2/10, lg_gravity = 8/100, lg_physicsAccuracy = 3,
     lg_autoLaunch = True, lg_particleType = ''QUANTUM'' \<rparr>"

definition rng0 :: rng where
  "rng0 = ((\<lambda>i. 1/2), 0)"

text \<open>
  A Firework of the earlier version whose tag is not in the table of \<^verbatim>\<open>explode\<close>.
\<close>

definition lg_fw_willow :: lg_firework where
  "lg_fw_willow = fst (lg_new_Firework (500, 800, 0) ''WILLOW'' lg_default_config rng0)"

text \<open>
  The same Firework with its shell at the top of its flight, still rising at 0.05 per
  frame.
\<close>

definition lg_fw_willow_apex :: lg_firework where
  "lg_fw_willow_apex =
     lg_fw_willow\<lparr>lg_shell := (lg_shell lg_fw_willow)\<lparr>lg_pos := (500, 300, 0), lg_vel := (0, - (5/100), 0)\<rparr>\<rparr>"

text \<open>
  A Firework of the earlier version one frame before its apex, with two particles per
  burst.
\<close>

definition lg_fw_apex :: lg_firework where
  "lg_fw_apex =
     (let fw = fst (lg_new_Firework (500, 800, 0) ''RANDOM''
                      (lg_default_config\<lparr>lg_particleCount := 2\<rparr>) rng0)
      in fw\<lparr>lg_shell := (lg_shell fw)\<lparr>lg_pos := (500, 300, 0), lg_vel := (0, - (5/100), 0)\<rparr>\<rparr>)"

text \<open>
  A PEONY Firework as the constructor makes it at the bottom of an 800-pixel canvas, the
  world right after (its shell is the only particle, rising at 21 per frame), and the
  same world once the shell has slowed to 0.3 per frame at height 700.
\<close>

definition fw_peony :: firework where
  "fw_peony = fst (new_Firework (env_at 0) (500, 800) (0, - 21) ''PEONY'' default_config world0)"

definition world_ascending :: world where
  "world_ascending = snd (new_Firework (env_at 0) (500, 800) (0, - 21) ''PEONY'' default_config world0)"

definition world_apex :: world where
  "world_apex = world_ascending\<lparr>heap := (heap world_ascending)
      (0 := (heap world_ascending 0)\<lparr>pos := (500, 700), vel := (0, - (3/10))\<rparr>)\<rparr>"

definition peony_run :: "(env \<times> world) list" where
  "peony_run = [(env_at 20, world_ascending), (env_at 40, world_apex), (env_at 60, world_apex)]"

text \<open>
  The same Firework with a tag that \<^verbatim>\<open>explode\<close> has no case for.
\<close>

definition fw_comet :: firework where
  "fw_comet = fw_peony\<lparr>fw_type := ''COMET''\<rparr>"

text \<open>
  The same Firework as a multi-break shell.
\<close>

definition fw_multi :: firework where
  "fw_multi = fw_peony\<lparr>fw_type := ''MULTI_BREAK''\<rparr>"

text \<open>
  A particle whose fade starts at 2 s and lasts half a second, and three update calls
  at 2.1 s, 2.6 s and 2.7 s; and a particle whose fade starts at 63 ms. All in
  double-precision arithmetic.
\<close>

definition fading0 :: particle where
  "fading0 = setFading_fl double (env_at 2000) (- 1) blank_particle"

definition fading63 :: particle where
  "fading63 = setFading_fl double (env_at 63) (- 1) blank_particle"

definition fade_run :: "(env \<times> world) list" where
  "fade_run = [(env_at 2100, world0), (env_at 2600, world0), (env_at 2700, world0)]"

text \<open>
  A particle rising at 10 per frame under a downward force of 0.08.
\<close>

definition rising :: particle where
  "rising = blank_particle\<lparr>pos := (500, 400), vel := (0, - 10), acc_p := (0, 8/100)\<rparr>"

text \<open>
  The scenario of the specification: a PEONY Firework with 100 particles per burst and
  explosion size 400; and the world at its apex when wind has pushed the shell to a
  horizontal speed of 2, the next random draws being 0 (the angle) and 0.999 (the
  magnitude).
\<close>

definition fw_peony100 :: firework where
  "fw_peony100 = fw_peony\<lparr>fw_config := default_config\<lparr>particleCount := 100\<rparr>\<rparr>"

definition world_windy :: world where
  "world_windy = world_apex\<lparr>heap := (heap world_apex)
      (0 := (heap world_apex 0)\<lparr>vel := (2, - (3/10))\<rparr>),
      rand := (\<lambda>i. if i = 1 then 999/1000 else 0), used := 0\<rparr>"

text \<open>
  The world of \<open>world_ascending\<close> in a frame in which the shell is still rising fast
  and far below its explosion altitude, but has faded out and has been removed from
  the global array.
\<close>

definition world_faded :: world where
  "world_faded = world_ascending\<lparr>heap := (heap world_ascending)
      (0 := (heap world_ascending 0)\<lparr>pos := (500, 747), vel := (0, - (1996/100)), alpha := 0,
            isFading := True\<rparr>),
      particles := []\<rparr>"

text \<open>
  A show on a calm night: no wind, no air drag (the panel allows 0 to 0.1), no automatic
  launches. One shell is launched by a click at \<open>x = 500\<close>, and the frame loop runs at
  60 frames per second, frame \<open>k\<close> at \<open>k / 60\<close> seconds. \<open>shell_at k\<close> is the shell object
  after \<open>k\<close> frames.
\<close>

definition calm_config :: config where
  "calm_config = default_config\<lparr>autoLaunch := False, wind := 0, airDrag := 0, fireworkType := ''PEONY''\<rparr>"

definition frame :: "nat \<Rightarrow> env" where
  "frame k = \<lparr> millis = 50 / 3 * real k, deltaTime = 50 / 3, width = 1000, height = 800,
     noise2D = (\<lambda>x y. 0), noise3D = (\<lambda>x y z. 0) \<rparr>"

definition launched :: world where
  "launched = manualLaunch (frame 0) 500 (world0\<lparr>sys_config := calm_config\<rparr>)"

fun show_world :: "nat \<Rightarrow> world" where
  "show_world 0 = launched"
| "show_world (Suc k) = draw (frame (Suc k)) (show_world k)"

fun shell_at :: "nat \<Rightarrow> particle" where
  "shell_at 0 = heap launched 0"
| "shell_at (Suc k) = shell_step (gravity_y launched) (frame (Suc k)) (shell_at k)"

text \<open>
  The world of \<open>world_apex\<close> with the global array at the default cap: the shell and
  29999 other particles.
\<close>

definition world_full :: world where
  "world_full = world_apex\<lparr>particles := [0..<30000], next_ref := 30000\<rparr>"

text \<open>
  The same crowded world with a configuration whose \<^verbatim>\<open>fireworkType\<close> is \<^verbatim>\<open>PEONY\<close>.
\<close>

definition world_crowded :: world where
  "world_crowded = world_full\<lparr>sys_config := calm_config\<rparr>"

section \<open>Lemmas\<close>

lemma grows_refl: "grows Q w w"
  by (auto simp add: grows_def)

lemma upt_split: "a \<le> b \<Longrightarrow> b \<le> c \<Longrightarrow> [a..<b] @ [b..<c] = [a..<c]"
  by (metis le_Suc_ex upt_add_eq_append)

lemma grows_trans:
  assumes "grows Q w w'" and "grows Q w' w''"
  shows "grows Q w w''"
proof -
  have a: "next_ref w \<le> next_ref w'" "next_ref w' \<le> next_ref w''"
    using assms by (simp_all add: grows_def)
  have "particles w'' = particles w @ [next_ref w..<next_ref w'] @ [next_ref w'..<next_ref w'']"
    using assms by (simp add: grows_def)
  then have b: "particles w'' = particles w @ [next_ref w..<next_ref w'']"
    using a by (simp add: upt_split)
  have c: "heap w'' r = heap w r" if "r < next_ref w" for r
    using that assms a by (simp add: grows_def)
  have d: "Q (heap w'' r)" if "next_ref w \<le> r" "r < next_ref w''" for r
  proof (cases "r < next_ref w'")
    case True
    then show ?thesis using that assms by (simp add: grows_def)
  next
    case False
    then show ?thesis using that assms by (simp add: grows_def)
  qed
  have "rand w'' = rand w" using assms by (simp add: grows_def)
  then show ?thesis using a b c d by (simp add: grows_def)
qed

lemma draw_unit_simps:
  "fst (draw_unit w) = rand w (used w)" "snd (draw_unit w) = w\<lparr>used := Suc (used w)\<rparr>"
  by (simp_all add: draw_unit_def)

lemma random2_simps:
  "fst (random2 a b w) = rand w (used w) * (max a b - min a b) + min a b"
  "snd (random2 a b w) = w\<lparr>used := Suc (used w)\<rparr>"
  by (simp_all add: random2_def draw_unit_def Let_def)

lemma random1_simps:
  "fst (random1 m w) = rand w (used w) * m"
  "snd (random1 m w) = w\<lparr>used := Suc (used w)\<rparr>"
  by (simp_all add: random1_def draw_unit_def Let_def)

lemma random_of_simps:
  "fst (random_of xs w) = xs ! nat \<lfloor>rand w (used w) * real (length xs)\<rfloor>"
  "snd (random_of xs w) = w\<lparr>used := Suc (used w)\<rparr>"
  by (simp_all add: random_of_def draw_unit_def Let_def)

lemma random2D_simps:
  "fst (random2D w) = fromAngle (rand w (used w) * TWO_PI)"
  "snd (random2D w) = w\<lparr>used := Suc (used w)\<rparr>"
  by (simp_all add: random2D_def draw_unit_def Let_def)

lemma random3D_xy_snd:
  "snd (random3D_xy w) = w\<lparr>used := Suc (Suc (used w))\<rparr>"
  by (simp add: random3D_xy_def draw_unit_def Let_def)

lemma grows_used: "grows Q w w' \<Longrightarrow> grows Q w (w'\<lparr>used := k\<rparr>)"
  by (simp add: grows_def)

lemma grows_console: "grows Q w w' \<Longrightarrow> grows Q w (console_log s w')"
  by (simp add: grows_def console_log_def)

lemma grows_push: "grows Q w w' \<Longrightarrow> Q p \<Longrightarrow> grows Q w (push_particle p w')"
  by (auto simp add: grows_def push_particle_def)

lemma new_Particle_snd:
  "snd (new_Particle e ps vl col sz rl opts w) =
     w\<lparr>used := (if or_else (opt_lifespan opts) 0 = 0 then Suc (Suc (used w)) else Suc (used w))\<rparr>"
  by (simp add: new_Particle_def Let_def split_beta random2_simps or_else_def split: option.splits)

lemma new_Particle_fields:
  "pos (fst (new_Particle e ps vl col sz rl opts w)) = ps"
  "vel (fst (new_Particle e ps vl col sz rl opts w)) = vl"
  "role (fst (new_Particle e ps vl col sz rl opts w)) = rl"
  "size_p (fst (new_Particle e ps vl col sz rl opts w)) = sz"
  "alpha (fst (new_Particle e ps vl col sz rl opts w)) = color_alpha col"
  "isFading (fst (new_Particle e ps vl col sz rl opts w)) = False"
  "fluid (fst (new_Particle e ps vl col sz rl opts w)) = False"
  "secondaryCalls (fst (new_Particle e ps vl col sz rl opts w)) = 0"
  "timeCreated (fst (new_Particle e ps vl col sz rl opts w)) = millis e / 1000"
  "delay (fst (new_Particle e ps vl col sz rl opts w)) = or_else (opt_delay opts) 0"
  by (simp_all add: new_Particle_def Let_def split_beta)

lemma for_range_induct:
  assumes "P s" and "\<And>i s. P s \<Longrightarrow> \<not> brk i s \<Longrightarrow> P (body i s)"
  shows "P (for_range is brk body s)"
  using assms(1)
proof (induction "is" arbitrary: s)
  case Nil
  then show ?case by simp
next
  case (Cons i "is")
  then show ?case using assms(2) by simp
qed

lemma grows_for_range:
  assumes "\<And>i s. grows Q s (body i s)"
  shows "grows Q w (for_range is brk body w)"
  by (rule for_range_induct) (auto intro: grows_refl grows_trans assms)

lemma grows_createParticle:
  assumes "\<And>p. pos p = ps \<Longrightarrow> vel p = vl \<Longrightarrow> role p = rl \<Longrightarrow> size_p p = sz \<Longrightarrow> Q p"
  shows "grows Q w (createParticle e cfg ps vl col sz rl opts w)"
  unfolding createParticle_def
  by (auto simp add: split_beta new_Particle_snd new_Particle_fields
        intro!: grows_push grows_used grows_refl assms)

lemmas rnd_simps = random2_simps random1_simps random_of_simps random2D_simps random3D_xy_snd

lemma grows_createParticle_used:
  assumes "\<And>p. pos p = ps \<Longrightarrow> vel p = vl \<Longrightarrow> role p = rl \<Longrightarrow> size_p p = sz \<Longrightarrow> Q p"
  shows "grows Q w (createParticle e cfg ps vl col sz rl opts (w\<lparr>used := k\<rparr>))"
  by (rule grows_trans [OF grows_used [OF grows_refl] grows_createParticle]) (rule assms)

lemma grows_weaken: "grows Q w w' \<Longrightarrow> (\<And>p. Q p \<Longrightarrow> R p) \<Longrightarrow> grows R w w'"
  by (simp add: grows_def)

lemma grows_for_range_rand:
  assumes "\<And>i s. rand s = rand w \<Longrightarrow> grows Q s (body i s)"
  shows "grows Q w (for_range is brk body w)"
proof (rule for_range_induct)
  show "grows Q w w" by (rule grows_refl)
next
  fix i s assume g: "grows Q w s"
  then have "rand s = rand w" by (simp add: grows_def)
  then show "grows Q w (body i s)" using g assms grows_trans by blast
qed

lemma secondary_peony_body_grows:
  "grows (\<lambda>q. role q = ''EXPLOSION'') w
     (secondary_peony_body e cfg explosionPos baseForce inheritedVel pal i w)"
  by (simp add: secondary_peony_body_def Let_def split_beta rnd_simps grows_createParticle_used)

lemma secondary_crackling_body_grows:
  "grows (\<lambda>q. role q = ''CRACKLE_SOURCE'') w
     (secondary_crackling_body e cfg explosionPos baseForce inheritedVel pal i w)"
  by (simp add: secondary_crackling_body_def Let_def split_beta rnd_simps grows_createParticle_used)

lemma secondary_strobe_body_grows:
  "grows (\<lambda>q. role q = ''STROBE'') w
     (secondary_strobe_body e cfg explosionPos baseForce inheritedVel i w)"
  by (simp add: secondary_strobe_body_def Let_def split_beta rnd_simps grows_createParticle_used)

lemma explodeSecondary_grows:
  "grows (\<lambda>q. secondary_role (role q)) w (snd (explodeSecondary e p w))"
proof (cases "configRef p")
  case None
  then show ?thesis
    by (simp add: explodeSecondary_def Let_def grows_console grows_refl)
next
  case (Some cfg)
  have 1: "grows (\<lambda>q. secondary_role (role q)) s (secondary_peony_body e cfg a b c d i s)" for a b c d i s
    by (rule grows_weaken [OF secondary_peony_body_grows]) (simp add: secondary_role_def)
  have 2: "grows (\<lambda>q. secondary_role (role q)) s (secondary_crackling_body e cfg a b c d i s)" for a b c d i s
    by (rule grows_weaken [OF secondary_crackling_body_grows]) (simp add: secondary_role_def)
  have 3: "grows (\<lambda>q. secondary_role (role q)) s (secondary_strobe_body e cfg a b c i s)" for a b c i s
    by (rule grows_weaken [OF secondary_strobe_body_grows]) (simp add: secondary_role_def)
  have u: "grows Q w (for_range is brk body (w\<lparr>used := k\<rparr>))"
    if "\<And>i s. grows Q s (body i s)" for Q "is" brk body k
    by (rule grows_trans [OF grows_used [OF grows_refl] grows_for_range]) (rule that)
  show ?thesis using Some
    by (auto simp add: explodeSecondary_def Let_def split_beta rnd_simps
          intro!: grows_for_range u 1 2 3 split: option.splits)
qed

lemma explodeSecondary_fst:
  "secondaryCalls (fst (explodeSecondary e p w)) = Suc (secondaryCalls p)"
  "role (fst (explodeSecondary e p w)) = role p"
  by (simp_all add: explodeSecondary_def Let_def split_beta split: option.splits)

lemma crackle_body_grows:
  "grows (\<lambda>q. role q = ''CRACKLE'') w (crackle_body e p cfg i w)"
  by (simp add: crackle_body_def Let_def split_beta rnd_simps new_Particle_snd new_Particle_fields
        grows_push grows_used grows_refl)

lemma spawnCrackle_grows:
  "grows (\<lambda>q. role q = ''CRACKLE'') w (spawnCrackle e p w)"
  by (auto simp add: spawnCrackle_def Let_def split_beta rnd_simps crackle_body_grows
        intro!: grows_trans [OF grows_used [OF grows_refl] grows_for_range] grows_refl
        split: option.splits)

lemmas step_defs = physics_step_def trail_step_def fade_step_def strobe_step_def
  crackle_step_def fluid_step_def setFading_def applyFluidBehavior_def applyForce_def

lemma normal_path:
  "\<not> (role p = ''MINI_SHELL'' \<and> delay p > 0 \<and> millis e / 1000 - timeCreated p \<ge> delay p) \<Longrightarrow>
   \<not> (role p = ''MINI_SHELL'' \<and> delay p \<le> 0) \<Longrightarrow>
   fst (Particle_update e p w) =
     fluid_step e (fst (crackle_step e (strobe_step e (fade_step e (trail_step (physics_step e p)))) w))"
  by (auto simp add: Particle_update_def Let_def split_beta)

lemma steps_keep:
  "role (physics_step e p) = role p" "delay (physics_step e p) = delay p"
  "timeCreated (physics_step e p) = timeCreated p" "secondaryCalls (physics_step e p) = secondaryCalls p"
  "role (trail_step p) = role p" "delay (trail_step p) = delay p"
  "timeCreated (trail_step p) = timeCreated p" "secondaryCalls (trail_step p) = secondaryCalls p"
  "role (fade_step e p) = role p" "delay (fade_step e p) = delay p"
  "timeCreated (fade_step e p) = timeCreated p" "secondaryCalls (fade_step e p) = secondaryCalls p"
  "role (strobe_step e p) = role p" "delay (strobe_step e p) = delay p"
  "timeCreated (strobe_step e p) = timeCreated p" "secondaryCalls (strobe_step e p) = secondaryCalls p"
  "role (fst (crackle_step e p w)) = role p" "delay (fst (crackle_step e p w)) = delay p"
  "timeCreated (fst (crackle_step e p w)) = timeCreated p"
  "secondaryCalls (fst (crackle_step e p w)) = secondaryCalls p"
  "role (fluid_step e p) = role p" "delay (fluid_step e p) = delay p"
  "timeCreated (fluid_step e p) = timeCreated p" "secondaryCalls (fluid_step e p) = secondaryCalls p"
  by (simp_all add: step_defs Let_def split_beta)









lemma lg_createParticle_core: "lg_core (fst (lg_createParticle f s)) = lg_core (fst s)"
  by (simp add: lg_createParticle_def lg_core_def Let_def split_beta)

lemma lg_bodies_core:
  "lg_core (fst (lg_peony_body a s)) = lg_core (fst s)"
  "lg_core (fst (lg_chrysanthemum_body i s)) = lg_core (fst s)"
  "lg_core (fst (lg_palm_body ang i s)) = lg_core (fst s)"
  "lg_core (fst (lg_random_body i s)) = lg_core (fst s)"
  by (simp_all add: lg_peony_body_def lg_chrysanthemum_body_def lg_palm_body_def
        lg_random_body_def Let_def split_beta lg_createParticle_core)

lemma for_range_core:
  assumes "\<And>i s. lg_core (fst (body i s)) = lg_core (fst s)"
  shows "lg_core (fst (for_range is brk body s)) = lg_core (fst s)"
  by (rule for_range_induct [where P = "\<lambda>t. lg_core (fst t) = lg_core (fst s)"])
     (simp_all add: assms)

lemma lg_peony_loop_core:
  assumes "lg_peony_loop a st s = Some s'"
  shows "lg_core (fst s') = lg_core (fst s)"
proof (rule lg_peony_loop.raw_induct
    [where P = "\<lambda>a st s y. lg_core (fst y) = lg_core (fst s)", OF _ assms])
  fix f :: "real \<Rightarrow> real \<Rightarrow> lg_firework \<times> rng \<Rightarrow> (lg_firework \<times> rng) option"
  fix a st s y
  assume IH: "\<And>a st s y. f a st s = Some y \<Longrightarrow> lg_core (fst y) = lg_core (fst s)"
    and eq: "(if a < TWO_PI then f (a + st) st (lg_peony_body a s) else Some s) = Some y"
  show "lg_core (fst y) = lg_core (fst s)"
  proof (cases "a < TWO_PI")
    case True
    then have "f (a + st) st (lg_peony_body a s) = Some y" using eq by simp
    then show ?thesis using IH by (simp add: lg_bodies_core)
  next
    case False
    then show ?thesis using eq by simp
  qed
qed

lemma lg_createPeony_core:
  "lg_createPeony s = Some s' \<Longrightarrow> lg_core (fst s') = lg_core (fst s)"
  by (auto simp add: lg_createPeony_def Let_def lg_bodies_core dest: lg_peony_loop_core split: if_splits)

lemma lg_createPalm_core: "lg_core (fst (lg_createPalm s)) = lg_core (fst s)"
  by (simp add: lg_createPalm_def Let_def split_beta for_range_core lg_bodies_core)

lemma lg_update_particles_core: "lg_core (fst (lg_update_particles d s)) = lg_core (fst s)"
  unfolding lg_update_particles_def Let_def
  by (intro for_range_core) (simp add: split_beta lg_core_def)

lemma lg_explode_recognized:
  assumes "lg_recognized (lg_type fw)" "lg_explode fw g = Some r"
  shows "(case r of Returns s \<Rightarrow> True | Raises err s \<Rightarrow> False)
       \<and> lg_core (lg_state_of r) = lg_core (fw\<lparr>lg_explodeCalls := Suc (lg_explodeCalls fw)\<rparr>)"
  using assms
  by (auto simp add: lg_explode_def Let_def lg_recognized_def for_range_core lg_bodies_core
        lg_createPalm_core dest!: lg_createPeony_core split: if_splits)

lemma lg_explode_unrecognized:
  "\<not> lg_recognized (lg_type fw) \<Longrightarrow>
   lg_explode fw g = Some (Raises TypeError (fw\<lparr>lg_explodeCalls := Suc (lg_explodeCalls fw)\<rparr>, g))"
  by (simp add: lg_explode_def Let_def lg_recognized_def)

lemma lg_update_exploded:
  "lg_lifecycle fw = EXPLOSION \<Longrightarrow>
   \<exists>s. lg_Firework_update d fw g = Some (Returns s) \<and> lg_core (fst s) = lg_core fw"
  by (simp add: lg_Firework_update_def lg_update_particles_core)

lemma lg_update_ascent:
  assumes "lg_lifecycle fw = ASCENT" "lg_recognized (lg_type fw)" "lg_Firework_update d fw g = Some r"
  shows "(lg_lifecycle (lg_state_of r) = ASCENT \<and> lg_explodeCalls (lg_state_of r) = lg_explodeCalls fw
            \<or> lg_lifecycle (lg_state_of r) = EXPLOSION \<and> lg_explodeCalls (lg_state_of r) = Suc (lg_explodeCalls fw))
         \<and> lg_type (lg_state_of r) = lg_type fw"
proof -
  let ?sh = "fst (lg_Particle_update d (lg_applyForce (0, lg_gravity (lg_fconfig fw), 0) (lg_shell fw)) g)"
  let ?g1 = "snd (lg_Particle_update d (lg_applyForce (0, lg_gravity (lg_fconfig fw), 0) (lg_shell fw)) g)"
  let ?fw1 = "fw\<lparr>lg_shell := ?sh\<rparr>"
  show ?thesis
  proof (cases "v3y (lg_vel ?sh) \<ge> 0")
    case False
    then have "r = Returns (lg_update_particles d (?fw1, ?g1))"
      using assms by (simp add: lg_Firework_update_def Let_def split_beta)
    moreover have "lg_core (fst (lg_update_particles d (?fw1, ?g1))) = lg_core ?fw1"
      by (simp add: lg_update_particles_core)
    ultimately show ?thesis using assms(1) by (simp add: lg_core_def)
  next
    case True
    then obtain r' where r': "lg_explode ?fw1 ?g1 = Some r'"
      using assms by (auto simp add: lg_Firework_update_def Let_def split_beta split: option.splits)
    then obtain s where s: "r' = Returns s"
        "lg_core (fst s) = lg_core (?fw1\<lparr>lg_explodeCalls := Suc (lg_explodeCalls ?fw1)\<rparr>)"
      using lg_explode_recognized [of ?fw1 ?g1 r'] assms(2) by (cases r') auto
    have "r = Returns (lg_update_particles d ((fst s)\<lparr>lg_lifecycle := EXPLOSION\<rparr>, snd s))"
      using assms True r' s by (simp add: lg_Firework_update_def Let_def split_beta)
    moreover have "lg_core (fst (lg_update_particles d ((fst s)\<lparr>lg_lifecycle := EXPLOSION\<rparr>, snd s)))
        = lg_core ((fst s)\<lparr>lg_lifecycle := EXPLOSION\<rparr>)"
      by (simp add: lg_update_particles_core)
    ultimately show ?thesis using s by (simp add: lg_core_def)
  qed
qed

lemma explode_fst: "fst (Firework_explode e fw w) = fw\<lparr>explodeCalls := Suc (explodeCalls fw)\<rparr>"
  by (simp add: Firework_explode_def Let_def split_beta)

lemma update_exploded: "fw_lifecycle fw = EXPLOSION \<Longrightarrow> fst (Firework_update e fw w) = fw"
  by (simp add: Firework_update_def)

lemma update_ascent:
  "fw_lifecycle fw = ASCENT \<Longrightarrow>
   fst (Firework_update e fw w) = fw
   \<or> fst (Firework_update e fw w) = fw\<lparr>fw_lifecycle := EXPLOSION, hasExploded := True\<rparr>
   \<or> fst (Firework_update e fw w) =
        fw\<lparr>explodeCalls := Suc (explodeCalls fw), fw_lifecycle := EXPLOSION, hasExploded := True\<rparr>"
  by (simp add: Firework_update_def Let_def split_beta explode_fst)

lemma fw_updates_exploded:
  "fw_lifecycle fw = EXPLOSION \<Longrightarrow> fw_updates fw ins = replicate (length ins) fw"
  by (induction ins) (simp_all add: update_exploded)

lemma fw_run_shape:
  "fw_lifecycle fw = ASCENT \<Longrightarrow>
   \<exists>k c. k \<le> length ins \<and> c \<le> 1
     \<and> map fw_lifecycle (fw_updates fw ins) = replicate k ASCENT @ replicate (length ins - k) EXPLOSION
     \<and> map explodeCalls (fw_updates fw ins) =
         replicate k (explodeCalls fw) @ replicate (length ins - k) (explodeCalls fw + c)"
proof (induction ins arbitrary: fw)
  case Nil
  then show ?case by (intro exI [of _ 0]) simp
next
  case (Cons x ins)
  let ?f = "fst (Firework_update (fst x) fw (snd x))"
  consider (same) "?f = fw"
    | (gone) "?f = fw\<lparr>fw_lifecycle := EXPLOSION, hasExploded := True\<rparr>"
    | (boom) "?f = fw\<lparr>explodeCalls := Suc (explodeCalls fw), fw_lifecycle := EXPLOSION, hasExploded := True\<rparr>"
    using update_ascent [OF Cons.prems] by blast
  then show ?case
  proof cases
    case same
    obtain k c where "k \<le> length ins" "c \<le> 1"
      "map fw_lifecycle (fw_updates fw ins) = replicate k ASCENT @ replicate (length ins - k) EXPLOSION"
      "map explodeCalls (fw_updates fw ins) =
         replicate k (explodeCalls fw) @ replicate (length ins - k) (explodeCalls fw + c)"
      using Cons.IH [OF Cons.prems] by blast
    then show ?thesis using same Cons.prems
      by (intro exI [of _ "Suc k"] exI [of _ c]) (simp add: Let_def)
  next
    case gone
    then have "fw_updates ?f ins = replicate (length ins) ?f"
      by (simp add: fw_updates_exploded)
    then show ?thesis using gone
      by (intro exI [of _ 0] exI [of _ 0]) (simp add: Let_def replicate_app_Cons_same)
  next
    case boom
    then have "fw_updates ?f ins = replicate (length ins) ?f"
      by (simp add: fw_updates_exploded)
    then show ?thesis using boom
      by (intro exI [of _ 0] exI [of _ 1]) (simp add: Let_def replicate_app_Cons_same)
  qed
qed

lemma new_Firework_fresh:
  "fw_lifecycle (fst (new_Firework e ps vl t cfg w)) = ASCENT"
  "explodeCalls (fst (new_Firework e ps vl t cfg w)) = 0"
  "hasExploded (fst (new_Firework e ps vl t cfg w)) = False"
  "fw_type (fst (new_Firework e ps vl t cfg w)) = t"
  by (simp_all add: new_Firework_def Let_def split_beta)

lemma lg_new_Firework_fresh:
  "lg_lifecycle (fst (lg_new_Firework ps t cfg g)) = ASCENT"
  "lg_explodeCalls (fst (lg_new_Firework ps t cfg g)) = 0"
  "lg_type (fst (lg_new_Firework ps t cfg g)) = t"
  by (simp_all add: lg_new_Firework_def Let_def split_beta)

lemma lg_fw_updates_exploded:
  "lg_lifecycle fw = EXPLOSION \<Longrightarrow>
   map lg_lifecycle (lg_fw_updates fw ins) = replicate (length (lg_fw_updates fw ins)) EXPLOSION
   \<and> map lg_explodeCalls (lg_fw_updates fw ins)
       = replicate (length (lg_fw_updates fw ins)) (lg_explodeCalls fw)"
proof (induction ins arbitrary: fw)
  case Nil
  then show ?case by simp
next
  case (Cons x ins)
  obtain s where s: "lg_Firework_update (fst x) fw (snd x) = Some (Returns s)" "lg_core (fst s) = lg_core fw"
    using lg_update_exploded [OF Cons.prems] by blast
  then have "lg_lifecycle (fst s) = EXPLOSION" "lg_explodeCalls (fst s) = lg_explodeCalls fw"
    using Cons.prems by (simp_all add: lg_core_def)
  then show ?case using s Cons.IH [of "fst s"] by simp
qed

lemma lg_fw_run_shape:
  "lg_lifecycle fw = ASCENT \<Longrightarrow> lg_recognized (lg_type fw) \<Longrightarrow>
   \<exists>k. k \<le> length (lg_fw_updates fw ins)
     \<and> map lg_lifecycle (lg_fw_updates fw ins) =
         replicate k ASCENT @ replicate (length (lg_fw_updates fw ins) - k) EXPLOSION
     \<and> map lg_explodeCalls (lg_fw_updates fw ins) =
         replicate k (lg_explodeCalls fw)
         @ replicate (length (lg_fw_updates fw ins) - k) (Suc (lg_explodeCalls fw))"
proof (induction ins arbitrary: fw)
  case Nil
  then show ?case by simp
next
  case (Cons x ins)
  show ?case
  proof (cases "lg_Firework_update (fst x) fw (snd x)")
    case None
    then show ?thesis by simp
  next
    case (Some r)
    let ?f = "lg_state_of r"
    have t: "lg_type ?f = lg_type fw"
      using lg_update_ascent [OF Cons.prems Some] by simp
    consider (same) "lg_lifecycle ?f = ASCENT" "lg_explodeCalls ?f = lg_explodeCalls fw"
      | (boom) "lg_lifecycle ?f = EXPLOSION" "lg_explodeCalls ?f = Suc (lg_explodeCalls fw)"
      using lg_update_ascent [OF Cons.prems Some] by blast
    then show ?thesis
    proof cases
      case same
      obtain k where "k \<le> length (lg_fw_updates ?f ins)"
        "map lg_lifecycle (lg_fw_updates ?f ins) =
           replicate k ASCENT @ replicate (length (lg_fw_updates ?f ins) - k) EXPLOSION"
        "map lg_explodeCalls (lg_fw_updates ?f ins) =
           replicate k (lg_explodeCalls ?f)
           @ replicate (length (lg_fw_updates ?f ins) - k) (Suc (lg_explodeCalls ?f))"
        using Cons.IH [of ?f] same t Cons.prems by auto
      then show ?thesis using same Some
        by (intro exI [of _ "Suc k"]) simp
    next
      case boom
      then show ?thesis using Some lg_fw_updates_exploded [of ?f ins]
        by (intro exI [of _ 0]) (simp add: replicate_app_Cons_same)
    qed
  qed
qed

lemma createParticle_length:
  "length (particles (createParticle e cfg ps vl col sz rl opts w)) =
     (if length (particles w) < maxTotalParticles cfg then Suc (length (particles w))
      else length (particles w))"
  by (simp add: createParticle_def split_beta new_Particle_snd push_particle_def)

lemma for_range_count:
  assumes "\<And>i s. length (particles (body i s)) =
             (if length (particles s) < cap then Suc (length (particles s)) else length (particles s))"
  shows "length (particles (for_range is no_break body w)) =
           min (length (particles w) + length is) (max (length (particles w)) cap)"
proof (induction "is" arbitrary: w)
  case Nil
  then show ?case by simp
next
  case (Cons i "is")
  show ?case using Cons [of "body i w"] assms [of i w]
    by (auto simp add: no_break_def)
qed

lemma default_body_length:
  "length (particles (default_body e fw ep bf iv i w)) =
     (if length (particles w) < maxTotalParticles (fw_config fw) then Suc (length (particles w))
      else length (particles w))"
  by (simp add: default_body_def Let_def split_beta rnd_simps createParticle_length)

lemma unit_rand_range:
  assumes "unit_rand (rand w)"
  shows "min a b \<le> fst (random2 a b w)" "fst (random2 a b w) \<le> max a b"
proof -
  have u: "0 \<le> rand w (used w)" "rand w (used w) < 1"
    using assms by (simp_all add: unit_rand_def)
  have d: "0 \<le> max a b - min a b" by simp
  show "min a b \<le> fst (random2 a b w)"
    using u d by (simp add: random2_simps)
  have "rand w (used w) * (max a b - min a b) \<le> 1 * (max a b - min a b)"
    using u d by (intro mult_right_mono) simp_all
  then show "fst (random2 a b w) \<le> max a b"
    by (simp add: random2_simps)
qed

lemma random3D_xy_magSq:
  assumes "unit_rand (rand w)"
  shows "magSq (fst (random3D_xy w)) \<le> 1"
proof -
  define u where "u = rand w (Suc (used w))"
  define vz where "vz = u * 2 - 1"
  define B where "B = sqrt (1 - vz * vz)"
  define c where "c = cos (rand w (used w) * TWO_PI)"
  define s where "s = sin (rand w (used w) * TWO_PI)"
  have u: "0 \<le> u" "u < 1" using assms by (simp_all add: unit_rand_def u_def)
  have "\<bar>vz\<bar> \<le> 1" using u by (simp add: abs_le_iff vz_def)
  then have "\<bar>vz\<bar> * \<bar>vz\<bar> \<le> 1 * 1" by (intro mult_mono) simp_all
  then have nn: "0 \<le> 1 - vz * vz" by simp
  have BB: "B * B = 1 - vz * vz" using nn by (simp add: B_def)
  have cs: "c * c + s * s = 1"
    using sin_cos_squared_add2 [of "rand w (used w) * TWO_PI"]
    by (simp add: c_def s_def power2_eq_square)
  have "fst (random3D_xy w) = (B * c, B * s)"
    by (simp add: random3D_xy_def draw_unit_def Let_def B_def vz_def u_def c_def s_def)
  then have "magSq (fst (random3D_xy w)) = (B * B) * (c * c + s * s)"
    by (simp add: magSq_def algebra_simps)
  also have "\<dots> = 1 - vz * vz" using BB cs by simp
  finally show ?thesis by simp
qed

lemma grows_snd_rnd:
  "grows Q w w' \<Longrightarrow> grows Q w (snd (random2 a b w'))"
  "grows Q w w' \<Longrightarrow> grows Q w (snd (random1 m w'))"
  "grows Q w w' \<Longrightarrow> grows Q w (snd (random_of xs w'))"
  "grows Q w w' \<Longrightarrow> grows Q w (snd (random2D w'))"
  "grows Q w w' \<Longrightarrow> grows Q w (snd (random3D_xy w'))"
  by (simp_all add: rnd_simps grows_used)

lemma default_body_grows:
  assumes "unit_rand (rand s)"
  shows "grows (default_particle fw w) s
     (default_body e fw (pos (heap w (shell fw)))
        (fw_baseForce (fw_config fw))
        (vmult (vel (heap w (shell fw))) (1/10)) i s)"
proof -
  define b where "b = fw_baseForce (fw_config fw)"
  define s2 where "s2 = snd (random3D_xy s)"
  define d where "d = fst (random3D_xy s)"
  define m where "m = fst (random2 (b * (7/10)) (b * (13/10)) s2)"
  have r: "rand s2 = rand s" by (simp add: random3D_xy_snd s2_def)
  have mr: "min (b * (7/10)) (b * (13/10)) \<le> m" "m \<le> max (b * (7/10)) (b * (13/10))"
    using unit_rand_range [of s2] assms r by (simp_all add: m_def)
  have dr: "magSq d \<le> 1" using random3D_xy_magSq [OF assms] by (simp add: d_def)
  show ?thesis
    unfolding default_body_def Let_def split_beta
  proof (rule grows_trans [OF _ grows_createParticle], goal_cases)
    case 1
    show ?case by (intro grows_snd_rnd grows_refl)
  next
    case (2 p)
    then have "vel p = vadd (vmult d m) (vmult (vel (heap w (shell fw))) (1/10))"
      by (simp add: d_def m_def s2_def b_def createVector_def vx_def vy_def vmult_def)
    then have "\<exists>d m. vel p = vadd (vmult d m) (vmult (vel (heap w (shell fw))) (1/10))
             \<and> magSq d \<le> 1 \<and> min (b * (7/10)) (b * (13/10)) \<le> m
             \<and> m \<le> max (b * (7/10)) (b * (13/10))"
      using mr dr by blast
    then show ?case
      using 2 by (simp add: default_particle_def b_def)
  qed
qed

lemma upt2: "[0..<2] = [0, 1]"
  by (simp add: upt_rec)

lemma upt3: "[0..<3] = [0, 1, 2]"
  by (simp add: upt_rec)

lemma unit_rand_world0: "unit_rand (rand world0)"
  by (simp add: unit_rand_def world0_def)

lemma fw_peony_simps:
  "shell fw_peony = 0" "fw_lifecycle fw_peony = ASCENT" "hasExploded fw_peony = False"
  "explodeCalls fw_peony = 0" "explosionAltitude fw_peony = 240" "fw_type fw_peony = ''PEONY''"
  by (simp_all add: fw_peony_def new_Firework_def Let_def split_beta rnd_simps new_Particle_snd
        no_options_def or_else_def world0_def env_at_def)

lemma world_ascending_simps:
  "particles world_ascending = [0]" "next_ref world_ascending = 1"
  "vel (heap world_ascending 0) = (0, - 21)" "pos (heap world_ascending 0) = (500, 800)"
  by (simp_all add: world_ascending_def new_Firework_def Let_def split_beta rnd_simps new_Particle_snd
        new_Particle_fields no_options_def or_else_def world0_def env_at_def push_particle_def)

lemma grows_new_particles:
  assumes "grows Q w w'"
  shows "particles w' = particles w @ [next_ref w..<next_ref w']"
    and "list_all Q (new_particles w w')"
  using assms by (simp_all add: grows_def new_particles_def list_all_iff)

lemma default_body_console: "console (default_body e fw ep bf iv i s) = console s"
  by (simp add: default_body_def Let_def split_beta rnd_simps createParticle_def
        new_Particle_snd push_particle_def)

lemma random_of_in_set:
  assumes "unit_rand (rand w)" "xs \<noteq> []"
  shows "fst (random_of xs w) \<in> set xs"
proof -
  define u where "u = rand w (used w)"
  have u: "0 \<le> u" "u < 1" using assms(1) by (simp_all add: unit_rand_def u_def)
  have n: "0 < real (length xs)" using assms(2) by simp
  have "u * real (length xs) < 1 * real (length xs)"
    using u n by (intro mult_strict_right_mono) simp_all
  then have "\<lfloor>u * real (length xs)\<rfloor> < int (length xs)"
    by (simp add: floor_less_iff)
  moreover have "0 \<le> \<lfloor>u * real (length xs)\<rfloor>" using u by simp
  ultimately have "nat \<lfloor>u * real (length xs)\<rfloor> < length xs" by linarith
  then show ?thesis by (simp add: random_of_simps u_def)
qed

lemma validSubTypes_eval:
  "validSubTypes = [''PEONY'', ''CHRYSANTHEMUM'', ''PALM'', ''WILLOW'', ''STROBE'', ''CRACKLING'']"
  by (simp add: validSubTypes_def FIREWORK_TYPES_def)

lemma multi_break_body_grows:
  assumes "unit_rand (rand s)"
  shows "grows mini_shell_particle s (multi_break_body e fw ep bf iv i s)"
proof -
  define s4 where "s4 = snd (random2 (4/10) (9/10) (snd (new_Particle e ep
      (vadd (vmult (fromAngle (fst (random1 TWO_PI s)))
              (fst (random2 (bf * (6/10)) (bf * 1) (snd (random1 TWO_PI s)))))
            (vmult iv (15/10)))
      (RGBA 255 220 150 200) 3 ''MINI_SHELL'' no_options
      (snd (random2 (bf * (6/10)) (bf * 1) (snd (random1 TWO_PI s)))))))"
  have "rand s4 = rand s"
    by (simp add: s4_def rnd_simps new_Particle_snd)
  then have "fst (random_of validSubTypes s4) \<in> set validSubTypes"
    using random_of_in_set [of s4 validSubTypes] assms by (simp add: validSubTypes_eval)
  then have st: "fst (random_of validSubTypes s4) \<in> set FIREWORK_TYPES
      \<and> fst (random_of validSubTypes s4) \<noteq> ''RANDOM''
      \<and> fst (random_of validSubTypes s4) \<noteq> ''MULTI_BREAK''"
    by (simp add: validSubTypes_def)
  show ?thesis
    unfolding multi_break_body_def Let_def split_beta
    apply (rule grows_push)
     apply (simp add: rnd_simps new_Particle_snd grows_used grows_refl)
    using st
    apply (simp add: mini_shell_particle_def new_Particle_fields s4_def)
    done
qed

lemma explode_multi_break_grows:
  assumes "unit_rand (rand w)" "fw_type fw = ''MULTI_BREAK''"
  shows "grows mini_shell_particle w (snd (Firework_explode e fw w))"
proof -
  have "grows mini_shell_particle (w\<lparr>used := k\<rparr>)
          (for_range is no_break (multi_break_body e fw' ep bf iv) (w\<lparr>used := k\<rparr>))"
    for k "is" fw' ep bf iv
  proof (rule grows_for_range_rand)
    fix i :: nat and s :: world
    assume "rand s = rand (w\<lparr>used := k\<rparr>)"
    then have "unit_rand (rand s)" using assms(1) by simp
    then show "grows mini_shell_particle s (multi_break_body e fw' ep bf iv i s)"
      by (rule multi_break_body_grows)
  qed
  then have "grows mini_shell_particle w
          (for_range is no_break (multi_break_body e fw' ep bf iv) (w\<lparr>used := k\<rparr>))"
    for k "is" fw' ep bf iv
    using grows_trans [OF grows_used [OF grows_refl]] by blast
  then show ?thesis
    using assms(2) by (simp add: Firework_explode_def Let_def split_beta rnd_simps)
qed

lemma crackle_step_grows:
  "grows (\<lambda>q. role q = ''CRACKLE'') w (snd (crackle_step e p w))"
  by (auto simp add: crackle_step_def Let_def split_beta rnd_simps
        intro!: grows_used grows_refl grows_trans [OF grows_used [OF grows_refl] spawnCrackle_grows])

lemma Particle_update_grows:
  "grows (\<lambda>q. role q \<noteq> ''MINI_SHELL'') w (snd (Particle_update e p w))"
proof -
  have a: "grows (\<lambda>q. role q \<noteq> ''MINI_SHELL'') w (snd (explodeSecondary e p w))"
    by (rule grows_weaken [OF explodeSecondary_grows]) (auto simp add: secondary_role_def)
  have b: "grows (\<lambda>q. role q \<noteq> ''MINI_SHELL'') w (snd (crackle_step e p' w))" for p'
    by (rule grows_weaken [OF crackle_step_grows]) simp
  show ?thesis
    by (simp add: Particle_update_def Let_def split_beta a b grows_refl)
qed

lemma Particle_update_role: "role (fst (Particle_update e p w)) = role p"
  by (simp add: Particle_update_def Let_def split_beta explodeSecondary_fst steps_keep)

lemma update_other_role:
  "role p \<noteq> ''MINI_SHELL'' \<Longrightarrow> secondaryCalls (fst (Particle_update e p w)) = secondaryCalls p"
  by (simp add: Particle_update_def Let_def split_beta steps_keep)

lemma updates_other_role:
  "role p \<noteq> ''MINI_SHELL'' \<Longrightarrow>
   map secondaryCalls (updates p ins) = replicate (length ins) (secondaryCalls p)
   \<and> map role (updates p ins) = replicate (length ins) (role p)"
proof (induction ins arbitrary: p)
  case Nil
  show ?case by simp
next
  case (Cons ew ins)
  let ?q = "fst (Particle_update (fst ew) p (snd ew))"
  have q: "role ?q = role p" "secondaryCalls ?q = secondaryCalls p"
    using Cons.prems by (simp_all add: Particle_update_role update_other_role)
  then have "role ?q \<noteq> ''MINI_SHELL''" using Cons.prems by simp
  from Cons.IH [OF this] q show ?case by (simp add: Let_def)
qed

lemma constrain_mono: "x \<le> y \<Longrightarrow> constrain x 0 1 \<le> constrain y 0 1"
  by (simp add: constrain_def min_def max_def)

lemma constrain_range: "0 \<le> constrain x 0 1" "constrain x 0 1 \<le> 1"
  by (simp_all add: constrain_def min_def max_def)

lemma lerp_to_zero: "lerp a 0 c = a * (1 - c)"
  by (simp add: lerp_def algebra_simps)

lemma fade_level_mono:
  assumes "0 \<le> a" "0 < D" "t \<le> t'"
  shows "fade_level a T D t' \<le> fade_level a T D t"
proof -
  have "(t - T) / D \<le> (t' - T) / D" using assms by (simp add: divide_right_mono)
  then have "constrain ((t - T) / D) 0 1 \<le> constrain ((t' - T) / D) 0 1"
    by (rule constrain_mono)
  then have "a * (1 - constrain ((t' - T) / D) 0 1) \<le> a * (1 - constrain ((t - T) / D) 0 1)"
    using assms(1) by (intro mult_left_mono) simp_all
  then show ?thesis by (simp add: fade_level_def lerp_to_zero)
qed

lemma fade_level_le: "0 \<le> a \<Longrightarrow> fade_level a T D t \<le> a"
proof -
  assume a: "0 \<le> a"
  have "a * (1 - constrain ((t - T) / D) 0 1) \<le> a * 1"
    using a constrain_range [of "(t - T) / D"] by (intro mult_left_mono) simp_all
  then show ?thesis using a by (simp add: fade_level_def lerp_to_zero)
qed

lemma fade_level_nonneg: "0 \<le> fade_level a T D t"
  by (simp add: fade_level_def)

lemma fade_level_end: "0 < D \<Longrightarrow> T + D \<le> t \<Longrightarrow> fade_level a T D t = 0"
proof -
  assume d: "0 < D" and t: "T + D \<le> t"
  then have "1 \<le> (t - T) / D" by (simp add: le_divide_eq)
  then have "constrain ((t - T) / D) 0 1 = 1" by (simp add: constrain_def)
  then show ?thesis by (simp add: fade_level_def lerp_to_zero)
qed

lemma steps_fade_fields:
  "isFading (physics_step e p) = isFading p" "fadeStartTime (physics_step e p) = fadeStartTime p"
  "fadeDuration (physics_step e p) = fadeDuration p" "fadeStartAlpha (physics_step e p) = fadeStartAlpha p"
  "alpha (physics_step e p) = alpha p"
  "isFading (trail_step p) = isFading p" "fadeStartTime (trail_step p) = fadeStartTime p"
  "fadeDuration (trail_step p) = fadeDuration p" "fadeStartAlpha (trail_step p) = fadeStartAlpha p"
  "alpha (trail_step p) = alpha p"
  "isFading (strobe_step e p) = isFading p" "fadeStartTime (strobe_step e p) = fadeStartTime p"
  "fadeDuration (strobe_step e p) = fadeDuration p" "fadeStartAlpha (strobe_step e p) = fadeStartAlpha p"
  "alpha (strobe_step e p) = alpha p"
  "isFading (fst (crackle_step e p w)) = isFading p" "fadeStartTime (fst (crackle_step e p w)) = fadeStartTime p"
  "fadeDuration (fst (crackle_step e p w)) = fadeDuration p"
  "fadeStartAlpha (fst (crackle_step e p w)) = fadeStartAlpha p"
  "alpha (fst (crackle_step e p w)) = alpha p"
  "isFading (fluid_step e p) = isFading p" "fadeStartTime (fluid_step e p) = fadeStartTime p"
  "fadeDuration (fluid_step e p) = fadeDuration p" "fadeStartAlpha (fluid_step e p) = fadeStartAlpha p"
  "alpha (fluid_step e p) = alpha p"
  by (simp_all add: step_defs Let_def split_beta)

lemma fade_step_fading:
  "isFading p \<Longrightarrow>
   fade_step e p = p\<lparr>alpha := fade_level (fadeStartAlpha p) (fadeStartTime p) (fadeDuration p) (millis e / 1000)\<rparr>"
  by (simp add: fade_step_def fade_level_def Let_def)

lemma explodeSecondary_fade_fields:
  "isFading (fst (explodeSecondary e p w)) = isFading p"
  "fadeStartTime (fst (explodeSecondary e p w)) = fadeStartTime p"
  "fadeDuration (fst (explodeSecondary e p w)) = fadeDuration p"
  by (simp_all add: explodeSecondary_def Let_def split_beta split: option.splits)

lemma rhe_int: "round_half_even (of_int n) = n"
  by (simp add: round_half_even_def)

lemma rhe_bounds: "\<lfloor>x\<rfloor> \<le> round_half_even x" "round_half_even x \<le> \<lfloor>x\<rfloor> + 1"
  by (simp_all add: round_half_even_def)

lemma rhe_mono:
  assumes "x \<le> y"
  shows "round_half_even x \<le> round_half_even y"
proof (cases "\<lfloor>x\<rfloor> = \<lfloor>y\<rfloor>")
  case True
  have "x - of_int \<lfloor>y\<rfloor> \<le> y - of_int \<lfloor>y\<rfloor>" using assms by simp
  then show ?thesis unfolding round_half_even_def True by simp
next
  case False
  then have "\<lfloor>x\<rfloor> < \<lfloor>y\<rfloor>" using assms floor_mono [of x y] by simp
  then have "\<lfloor>x\<rfloor> + 1 \<le> \<lfloor>y\<rfloor>" by simp
  then show ?thesis using rhe_bounds(2) [of x] rhe_bounds(1) [of y] by linarith
qed

lemma rhe_minus: "round_half_even (- x) = - round_half_even x"
proof (cases "x = of_int \<lfloor>x\<rfloor>")
  case True
  have "round_half_even (of_int (- \<lfloor>x\<rfloor>)) = - round_half_even (of_int \<lfloor>x\<rfloor>)"
    by (simp only: rhe_int)
  then show ?thesis using True by simp
next
  case False
  define f where "f = \<lfloor>x\<rfloor>"
  define r where "r = x - of_int f"
  have f: "\<lfloor>- x\<rfloor> = - f - 1"
    using False by (simp add: floor_minus ceiling_altdef f_def)
  have r: "0 < r" "r < 1"
    using False by (simp_all add: r_def f_def) linarith+
  have x: "x - of_int f = r" "- x - of_int (- f - 1) = 1 - r"
    by (simp_all add: r_def)
  have e: "even (- f - 1) = odd f" by simp
  show ?thesis
    unfolding round_half_even_def f f_def [symmetric] x e
    using r by (cases "r < 1/2"; cases "1/2 < r"; cases "even f") simp_all
qed


lemma exponent_minus: "double_exponent (- x) = double_exponent x"
  by (simp add: double_exponent_def)

lemma double_minus: "double (- x) = - double x"
  by (simp add: double_def exponent_minus rhe_minus)

lemma double_zero: "double 0 = 0"
  by (simp add: double_def)

lemma rhe_nonneg: "0 \<le> x \<Longrightarrow> 0 \<le> round_half_even x"
  using rhe_mono [of 0 x] rhe_int [of 0] by simp

lemma double_nonneg: "0 \<le> x \<Longrightarrow> 0 \<le> double x"
  by (simp add: double_def rhe_nonneg)

lemma log_floor_bounds:
  assumes "0 < x"
  shows "2 powr of_int \<lfloor>log 2 x\<rfloor> \<le> x" "x < 2 powr (of_int \<lfloor>log 2 x\<rfloor> + 1)"
proof -
  have "2 powr of_int \<lfloor>log 2 x\<rfloor> \<le> 2 powr log 2 x"
    by (intro powr_mono) simp_all
  then show "2 powr of_int \<lfloor>log 2 x\<rfloor> \<le> x" using assms by simp
  have "2 powr log 2 x < 2 powr (of_int \<lfloor>log 2 x\<rfloor> + 1)"
    by (intro powr_less_mono) simp_all
  then show "x < 2 powr (of_int \<lfloor>log 2 x\<rfloor> + 1)" using assms by simp
qed

lemma scaled_upper:
  assumes "0 < x"
  shows "x / 2 powr of_int (double_exponent x) < 2 ^ 53"
proof -
  let ?L = "\<lfloor>log 2 x\<rfloor>"
  have "of_int ?L - 52 \<le> (of_int (double_exponent x) :: real)"
    using assms by (simp add: double_exponent_def)
  then have "(2::real) powr (of_int ?L - 52) \<le> 2 powr of_int (double_exponent x)"
    by (intro powr_mono) simp_all
  then have m: "2 ^ 53 * (2::real) powr (of_int ?L - 52) \<le> 2 ^ 53 * 2 powr of_int (double_exponent x)"
    by (intro mult_left_mono) simp_all
  have "(of_int ?L + 1 :: real) = 53 + (of_int ?L - 52)" by simp
  then have "(2::real) powr (of_int ?L + 1) = 2 powr 53 * 2 powr (of_int ?L - 52)"
    by (simp only: powr_add)
  then have "(2::real) powr (of_int ?L + 1) = 2 ^ 53 * 2 powr (of_int ?L - 52)" by simp
  then have "x < 2 ^ 53 * 2 powr (of_int ?L - 52)"
    using log_floor_bounds(2) [OF assms] by (simp only:)
  then have "x < 2 ^ 53 * 2 powr of_int (double_exponent x)"
    using m by (rule less_le_trans)
  then show ?thesis by (simp add: divide_less_eq)
qed

lemma scaled_lower:
  assumes "0 < x" and "- 1074 < double_exponent x"
  shows "2 ^ 52 \<le> x / 2 powr of_int (double_exponent x)"
proof -
  let ?L = "\<lfloor>log 2 x\<rfloor>"
  have e: "double_exponent x = ?L - 52"
    using assms by (simp add: double_exponent_def max_def split: if_splits)
  have "(of_int ?L :: real) = 52 + of_int (double_exponent x)" by (simp add: e)
  then have "(2::real) powr of_int ?L = 2 powr 52 * 2 powr of_int (double_exponent x)"
    by (simp only: powr_add)
  then have "2 ^ 52 * 2 powr of_int (double_exponent x) \<le> x"
    using log_floor_bounds(1) [OF assms(1)] by simp
  then show ?thesis by (simp add: le_divide_eq)
qed

lemma exponent_mono:
  assumes "0 < x" "x \<le> y"
  shows "double_exponent x \<le> double_exponent y"
proof -
  have "log 2 x \<le> log 2 y" using assms by simp
  then have "\<lfloor>log 2 x\<rfloor> \<le> \<lfloor>log 2 y\<rfloor>" by (rule floor_mono)
  then show ?thesis using assms by (simp add: double_exponent_def)
qed

lemma double_mono_pos:
  assumes "0 < x" "x \<le> y"
  shows "double x \<le> double y"
proof (cases "double_exponent x = double_exponent y")
  case True
  have "x / 2 powr of_int (double_exponent y) \<le> y / 2 powr of_int (double_exponent y)"
    using assms(2) by (simp add: divide_right_mono)
  then have "round_half_even (x / 2 powr of_int (double_exponent y))
      \<le> round_half_even (y / 2 powr of_int (double_exponent y))"
    by (rule rhe_mono)
  then show ?thesis using assms by (simp add: double_def True)
next
  case False
  let ?a = "double_exponent x" and ?b = "double_exponent y"
  have y: "0 < y" using assms by simp
  have lt: "?a + 1 \<le> ?b" using False exponent_mono [OF assms] by simp
  have "- 1074 \<le> ?a" by (simp add: double_exponent_def)
  then have n: "- 1074 < ?b" using lt by simp
  have "round_half_even (x / 2 powr of_int ?a) \<le> round_half_even (of_int (2 ^ 53))"
    using scaled_upper [OF assms(1)] by (intro rhe_mono) simp
  then have "round_half_even (x / 2 powr of_int ?a) \<le> 2 ^ 53" by (simp only: rhe_int)
  then have "(of_int (round_half_even (x / 2 powr of_int ?a)) :: real) \<le> 2 ^ 53"
    by (metis of_int_le_iff of_int_numeral of_int_power)
  then have 1: "double x \<le> 2 ^ 53 * 2 powr of_int ?a"
    using assms(1) by (simp add: double_def mult_right_mono)
  have "round_half_even (of_int (2 ^ 52)) \<le> round_half_even (y / 2 powr of_int ?b)"
    using scaled_lower [OF y n] by (intro rhe_mono) simp
  then have "2 ^ 52 \<le> round_half_even (y / 2 powr of_int ?b)" by (simp only: rhe_int)
  then have "(2 ^ 52 :: real) \<le> of_int (round_half_even (y / 2 powr of_int ?b))"
    by (metis of_int_le_iff of_int_numeral of_int_power)
  then have 2: "2 ^ 52 * 2 powr of_int ?b \<le> double y"
    using y by (simp add: double_def mult_right_mono)
  have "(of_int ?a + 1 :: real) \<le> of_int ?b" using lt by linarith
  then have "(2::real) powr (of_int ?a + 1) \<le> 2 powr of_int ?b" by (intro powr_mono) simp_all
  then have "2 * (2::real) powr of_int ?a \<le> 2 powr of_int ?b" by (simp add: powr_add)
  then have 3: "2 ^ 53 * (2::real) powr of_int ?a \<le> 2 ^ 52 * 2 powr of_int ?b" by simp
  show ?thesis using 1 2 3 by linarith
qed

lemma double_mono: "x \<le> y \<Longrightarrow> double x \<le> double y"
proof -
  assume a: "x \<le> y"
  consider "0 < x" | "x \<le> 0" "0 \<le> y" | "y < 0" by linarith
  then show ?thesis
  proof cases
    case 1
    then show ?thesis using a by (rule double_mono_pos)
  next
    case 2
    have "double x = - double (- x)" by (simp add: double_minus)
    moreover have "0 \<le> double (- x)" using 2(1) by (intro double_nonneg) simp
    ultimately show ?thesis using double_nonneg [OF 2(2)] by simp
  next
    case 3
    have "double (- y) \<le> double (- x)" using 3 a by (intro double_mono_pos) simp_all
    then show ?thesis by (simp add: double_minus)
  qed
qed

lemma double_eval:
  assumes "0 < x" and "2 ^ 52 \<le> x / 2 powr of_int e" and "x / 2 powr of_int e < 2 ^ 53"
      and "- 1074 \<le> e"
  shows "double x = of_int (round_half_even (x / 2 powr of_int e)) * 2 powr of_int e"
proof -
  have p: "0 < 2 powr (of_int e :: real)" by simp
  have a: "(2::real) powr (of_int (e + 52)) = 2 ^ 52 * 2 powr of_int e"
    and b: "(2::real) powr (of_int (e + 52) + 1) = 2 ^ 53 * 2 powr of_int e"
    by (simp_all add: powr_add)
  have "2 ^ 52 * 2 powr of_int e \<le> x" "x < 2 ^ 53 * 2 powr of_int e"
    using assms(2,3) p by (simp_all add: le_divide_eq divide_less_eq)
  then have "2 powr (of_int (e + 52)) \<le> x" "x < 2 powr (of_int (e + 52) + 1)"
    by (simp_all only: a b)
  then have "\<lfloor>log 2 x\<rfloor> = e + 52"
    using assms(1) by (simp add: floor_log_eq_powr_iff)
  then have "double_exponent x = e" using assms(1,4) by (simp add: double_exponent_def)
  then show ?thesis using assms(1) by (simp add: double_def)
qed

lemma double_sub:
  assumes "0 < x" and "x < 2 powr (- 1022)"
  shows "double x = of_int (round_half_even (x / 2 powr (- 1074))) * 2 powr (- 1074)"
proof -
  have a: "\<bar>x\<bar> = x" using assms(1) by simp
  have "log 2 x < - 1022" using assms by (simp add: log_less_iff)
  then have "\<lfloor>log 2 x\<rfloor> - 52 \<le> - 1074" by linarith
  then have "double_exponent x = - 1074"
    unfolding double_exponent_def a by (rule max_absorb2)
  then show ?thesis using assms(1) by (simp add: double_def)
qed

lemma double_idem_pos:
  assumes "0 < x"
  shows "double (double x) = double x"
proof -
  define e where "e = double_exponent x"
  define m where "m = round_half_even (x / 2 powr of_int e)"
  have y: "double x = of_int m * 2 powr of_int e"
    using assms by (simp add: double_def e_def m_def)
  have e: "- 1074 \<le> e" by (simp add: e_def double_exponent_def)
  have "m \<le> round_half_even (of_int (2 ^ 53))"
    unfolding m_def e_def using scaled_upper [OF assms] by (intro rhe_mono) simp
  then have m_le: "m \<le> 2 ^ 53" by (simp only: rhe_int)
  have m_ge: "0 \<le> m" unfolding m_def using assms by (intro rhe_nonneg) simp
  have q: "of_int k * 2 powr of_int e / 2 powr of_int e = (of_int k :: real)" for k by simp
  consider (zero) "m = 0" | (top) "m = 2 ^ 53" | (normal) "2 ^ 52 \<le> m" "m < 2 ^ 53"
    | (sub) "0 < m" "m < 2 ^ 52"
    using m_le m_ge by linarith
  then show ?thesis
  proof cases
    case zero
    then show ?thesis by (simp add: y double_zero)
  next
    case top
    have p: "(2::real) powr of_int (e + 1) = 2 * 2 powr of_int e" by (simp add: powr_add)
    have s: "of_int m * 2 powr of_int e / 2 powr of_int (e + 1) = (of_int (2 ^ 52) :: real)"
      unfolding p top by simp
    have pos: "(0::real) < of_int m * 2 powr of_int e" using top by simp
    have lo: "(2 ^ 52 :: real) \<le> of_int m * 2 powr of_int e / 2 powr of_int (e + 1)"
      and hi: "of_int m * 2 powr of_int e / 2 powr of_int (e + 1) < (2 ^ 53 :: real)"
      by (simp_all only: s, simp_all)
    have e1: "- 1074 \<le> e + 1" using e by simp
    have "double (of_int m * 2 powr of_int e)
        = of_int (round_half_even (of_int m * 2 powr of_int e / 2 powr of_int (e + 1))) * 2 powr of_int (e + 1)"
      using pos lo hi e1 by (rule double_eval)
    then have "double (of_int m * 2 powr of_int e) = of_int (2 ^ 52) * 2 powr of_int (e + 1)"
      by (simp only: s rhe_int)
    then show ?thesis unfolding y p top by simp
  next
    case normal
    have b: "(2 ^ 52 :: real) \<le> of_int m" "(of_int m :: real) < 2 ^ 53"
      using normal by (metis of_int_le_iff of_int_numeral of_int_power)
        (metis normal(2) of_int_less_iff of_int_numeral of_int_power)
    have pos: "(0::real) < of_int m * 2 powr of_int e" using b(1) by simp
    have lo: "(2 ^ 52 :: real) \<le> of_int m * 2 powr of_int e / 2 powr of_int e"
      and hi: "of_int m * 2 powr of_int e / 2 powr of_int e < (2 ^ 53 :: real)"
      using b by (simp_all only: q)
    have "double (of_int m * 2 powr of_int e)
        = of_int (round_half_even (of_int m * 2 powr of_int e / 2 powr of_int e)) * 2 powr of_int e"
      using pos lo hi e by (rule double_eval)
    then show ?thesis unfolding y by (simp only: q rhe_int)
  next
    case sub
    have "\<not> - 1074 < e"
    proof
      assume "- 1074 < e"
      then have "2 ^ 52 \<le> x / 2 powr of_int e"
        unfolding e_def by (intro scaled_lower [OF assms])
      then have "round_half_even (of_int (2 ^ 52)) \<le> m"
        unfolding m_def by (intro rhe_mono) simp
      then show False using sub(2) by (simp only: rhe_int)
    qed
    then have e': "e = - 1074" using e by simp
    have b: "(0 :: real) < of_int m" "(of_int m :: real) < 2 ^ 52"
      using sub(1) apply simp
      using sub(2) by (metis of_int_less_iff of_int_numeral of_int_power)
    have "(2::real) powr (- 1022) = 2 powr 52 * 2 powr (- 1074)"
      by (simp only: powr_add [symmetric]) simp
    then have t: "(2::real) powr (- 1022) = 2 ^ 52 * 2 powr (- 1074)" by simp
    have "of_int m * 2 powr (- 1074) < (2 ^ 52 :: real) * 2 powr (- 1074)"
      using b(2) by (intro mult_strict_right_mono) simp_all
    then have lt: "of_int m * 2 powr (- 1074) < (2::real) powr (- 1022)" by (simp only: t)
    have pos: "(0::real) < of_int m * 2 powr (- 1074)" using b(1) by simp
    have "of_int m * 2 powr (- 1074) / 2 powr (- 1074) = (of_int m :: real)" by simp
    then have "double (of_int m * 2 powr (- 1074)) = of_int m * 2 powr (- 1074)"
      using double_sub [OF pos lt] by (simp only: rhe_int)
    then show ?thesis unfolding y e' by simp
  qed
qed

lemma double_idem: "double (double x) = double x"
proof -
  consider "0 < x" | "x = 0" | "x < 0" by linarith
  then show ?thesis
  proof cases
    case 1
    then show ?thesis by (rule double_idem_pos)
  next
    case 2
    then show ?thesis by (simp add: double_zero)
  next
    case 3
    then have "double (double (- x)) = double (- x)" by (intro double_idem_pos) simp
    then show ?thesis by (simp add: double_minus)
  qed
qed

lemma double_one: "double 1 = 1"
  using double_eval [of 1 "- 52"] by (simp add: powr_minus_divide round_half_even_def)

lemma rounding_double: "rounding double"
  by (simp add: rounding_def mono_def double_mono double_zero double_minus double_one double_idem)

lemma powr_eval: "(2::real) powr (- numeral k) = 1 / 2 ^ numeral k"
  "(2::real) powr (numeral k) = 2 ^ numeral k"
  by (simp_all add: powr_minus_divide)

lemma double_values:
  "double (63/1000) = 1134907106097365/18014398509481984"
  "double (563/1000) = 2535526590209589/4503599627370496"
  "double (1/100) = 5764607523034235/576460752303423488"
  "double (1/10) = 3602879701896397/36028797018963968"
  "double (1/2) = 1/2" "double 1 = 1" "double 2 = 2" "double 255 = 255"
  "double (13/5) = 5854679515581645/2251799813685248"
  "double (9007199254740991/18014398509481984) = 9007199254740991/18014398509481984"
  "double (9007199254740991/9007199254740992) = 9007199254740991/9007199254740992"
  "double (2296835809958952705/9007199254740992) = 8972014882652159/35184372088832"
  "double (1/35184372088832) = 1/35184372088832"
  "double (10142106360838357/18014398509481984) = 2535526590209589/4503599627370496"
  using double_eval [of "63/1000" "- 56"] double_eval [of "563/1000" "- 53"]
    double_eval [of "1/100" "- 59"] double_eval [of "1/10" "- 56"]
    double_eval [of "1/2" "- 53"] double_eval [of 1 "- 52"] double_eval [of 2 "- 51"]
    double_eval [of 255 "- 45"] double_eval [of "13/5" "- 51"]
    double_eval [of "9007199254740991/18014398509481984" "- 54"]
    double_eval [of "9007199254740991/9007199254740992" "- 53"]
    double_eval [of "2296835809958952705/9007199254740992" "- 45"]
    double_eval [of "1/35184372088832" "- 97"]
    double_eval [of "10142106360838357/18014398509481984" "- 53"]
  by (simp_all add: powr_eval round_half_even_def)

lemma exact_update:
  "setFading_fl (\<lambda>x. x) e d p = setFading e d p"
  "fade_step_fl (\<lambda>x. x) e p = fade_step e p"
  "Particle_update_fl (\<lambda>x. x) e p w = Particle_update e p w"
proof -
  show 1: "setFading_fl (\<lambda>x. x) e d p = setFading e d p" for e d p
    by (simp add: setFading_fl_def setFading_def)
  show 2: "fade_step_fl (\<lambda>x. x) e p = fade_step e p" for e p
    by (simp add: fade_step_fl_def fade_step_def 1 lerp_def Let_def)
  show "Particle_update_fl (\<lambda>x. x) e p w = Particle_update e p w"
    by (simp add: Particle_update_fl_def Particle_update_def 2)
qed

lemma rounding_facts:
  assumes "rounding fl"
  shows "x \<le> y \<Longrightarrow> fl x \<le> fl y" "fl 0 = 0" "fl (- x) = - fl x"
    "0 \<le> x \<Longrightarrow> 0 \<le> fl x" "x \<le> 0 \<Longrightarrow> fl x \<le> 0" "fl 1 = 1" "fl (fl x) = fl x"
proof -
  show "fl 1 = 1" "fl (fl x) = fl x" using assms by (simp_all add: rounding_def)
  show m: "x \<le> y \<Longrightarrow> fl x \<le> fl y" for x y using assms by (simp add: rounding_def mono_def)
  show z: "fl 0 = 0" using assms by (simp add: rounding_def)
  show "fl (- x) = - fl x" using assms by (simp add: rounding_def)
  show "0 \<le> x \<Longrightarrow> 0 \<le> fl x" using m [of 0 x] z by simp
  show "x \<le> 0 \<Longrightarrow> fl x \<le> 0" using m [of x 0] z by simp
qed

lemma progress_mono:
  assumes "rounding fl" "0 < D" "millis e \<le> millis e'"
  shows "fade_progress fl T D e \<le> fade_progress fl T D e'"
proof -
  note m = rounding_facts(1) [OF assms(1)]
  have "fl (millis e / 1000) \<le> fl (millis e' / 1000)"
    using assms(3) by (intro m) (simp add: divide_right_mono)
  then have "fl (fl (millis e / 1000) - T) \<le> fl (fl (millis e' / 1000) - T)"
    by (intro m) simp
  then have "fl (fl (millis e / 1000) - T) / D \<le> fl (fl (millis e' / 1000) - T) / D"
    using assms(2) by (simp add: divide_right_mono)
  then show ?thesis unfolding fade_progress_def by (rule m)
qed

lemma progress_end:
  assumes "rounding fl" "0 < D" "fl D = D" "T + D \<le> fl (millis e / 1000)"
  shows "1 \<le> fade_progress fl T D e"
proof -
  note m = rounding_facts(1) [OF assms(1)]
  have "fl D \<le> fl (fl (millis e / 1000) - T)" using assms(4) by (intro m) simp
  then have "1 \<le> fl (fl (millis e / 1000) - T) / D"
    using assms(2,3) by (simp add: le_divide_eq)
  then have "fl 1 \<le> fl (fl (fl (millis e / 1000) - T) / D)" by (rule m)
  then show ?thesis by (simp add: fade_progress_def rounding_facts(6) [OF assms(1)])
qed

lemma lerp_fl_mono:
  assumes "rounding fl" "0 \<le> a" "fl a = a" "p \<le> p'"
  shows "fl (fl (p' * fl (0 - a)) + a) \<le> fl (fl (p * fl (0 - a)) + a)"
proof -
  note m = rounding_facts(1) [OF assms(1)]
  have n: "fl (0 - a) = - a" using rounding_facts(3) [OF assms(1), of a] assms(3) by simp
  have "p' * (- a) \<le> p * (- a)" using assms(2,4) by (simp add: mult_right_mono)
  then have "fl (p' * (- a)) \<le> fl (p * (- a))" by (rule m)
  then have "fl (p' * (- a)) + a \<le> fl (p * (- a)) + a" by simp
  then show ?thesis unfolding n by (rule m)
qed

lemma fade_level_fl_mono:
  assumes "rounding fl" "0 \<le> a" "fl a = a" "0 < D" "millis e \<le> millis e'"
  shows "fade_level_fl fl a T D e' \<le> fade_level_fl fl a T D e"
proof -
  have "constrain (fade_progress fl T D e) 0 1 \<le> constrain (fade_progress fl T D e') 0 1"
    using progress_mono [OF assms(1,4,5)] by (rule constrain_mono)
  from lerp_fl_mono [OF assms(1,2,3) this] show ?thesis
    by (simp add: fade_level_fl_def max.coboundedI2)
qed

lemma fade_level_fl_le:
  assumes "rounding fl" "0 \<le> a" "fl a = a"
  shows "fade_level_fl fl a T D e \<le> a"
proof -
  note m = rounding_facts(1) [OF assms(1)]
  have n: "fl (0 - a) = - a" using rounding_facts(3) [OF assms(1), of a] assms(3) by simp
  let ?p = "constrain (fade_progress fl T D e) 0 1"
  have "?p * (- a) \<le> 0" using constrain_range(1) [of "fade_progress fl T D e"] assms(2)
    by (simp add: mult_nonneg_nonpos)
  then have "fl (?p * (- a)) \<le> 0" by (rule rounding_facts(5) [OF assms(1)])
  then have "fl (?p * (- a)) + a \<le> a" by simp
  then have "fl (fl (?p * (- a)) + a) \<le> fl a" by (rule m)
  then show ?thesis using assms(2,3) n by (simp add: fade_level_fl_def)
qed

lemma fade_level_fl_nonneg: "0 \<le> fade_level_fl fl a T D e"
  by (simp add: fade_level_fl_def)

lemma fade_level_fl_end:
  assumes "rounding fl" "fl a = a" "1 \<le> fade_progress fl T D e"
  shows "fade_level_fl fl a T D e = 0"
proof -
  have n: "fl (0 - a) = - a" using rounding_facts(3) [OF assms(1), of a] assms(2) by simp
  have c: "constrain (fade_progress fl T D e) 0 1 = 1" using assms(3) by (simp add: constrain_def)
  have "fl (- a) = - a" using n by simp
  then show ?thesis
    by (simp add: fade_level_fl_def c n rounding_facts(2) [OF assms(1)])
qed

lemma fade_step_fl_fading:
  "isFading p \<Longrightarrow>
   fade_step_fl fl e p = p\<lparr>alpha := fade_level_fl fl (fadeStartAlpha p) (fadeStartTime p) (fadeDuration p) e\<rparr>"
  by (simp add: fade_step_fl_def fade_level_fl_def fade_progress_def Let_def)

lemma fade_step_fl_keep:
  "role (fade_step_fl fl e p) = role p" "delay (fade_step_fl fl e p) = delay p"
  "timeCreated (fade_step_fl fl e p) = timeCreated p"
  "secondaryCalls (fade_step_fl fl e p) = secondaryCalls p"
  by (simp_all add: fade_step_fl_def setFading_fl_def Let_def)

lemma normal_path_fl:
  "\<not> (role p = ''MINI_SHELL'' \<and> delay p > 0 \<and> fl (fl (millis e / 1000) - timeCreated p) \<ge> delay p) \<Longrightarrow>
   \<not> (role p = ''MINI_SHELL'' \<and> delay p \<le> 0) \<Longrightarrow>
   fst (Particle_update_fl fl e p w) =
     fluid_step e (fst (crackle_step e (strobe_step e (fade_step_fl fl e (trail_step (physics_step e p)))) w))"
  by (auto simp add: Particle_update_fl_def Let_def split_beta)

lemma fading_update_fl:
  assumes "rounding fl" "fading_inv_fl fl T D p e0" "millis e0 \<le> millis e"
  shows "fading_inv_fl fl T D (fst (Particle_update_fl fl e p w)) e
       \<and> isFading (fst (Particle_update_fl fl e p w))
       \<and> 0 \<le> alpha (fst (Particle_update_fl fl e p w))
       \<and> alpha (fst (Particle_update_fl fl e p w)) \<le> alpha p
       \<and> (1 \<le> fade_progress fl T D e \<longrightarrow> alpha (fst (Particle_update_fl fl e p w)) = 0)"
proof -
  let ?age = "fl (fl (millis e / 1000) - timeCreated p)"
  let ?q = "fst (Particle_update_fl fl e p w)"
  have i: "isFading p" "fadeStartTime p = T" "fadeDuration p = D" "0 < D" "0 \<le> alpha p"
    using assms(2) by (simp_all add: fading_inv_fl_def)
  consider (boom) "role p = ''MINI_SHELL''" "0 < delay p" "delay p \<le> ?age"
    | (gone) "role p = ''MINI_SHELL''" "delay p \<le> 0"
    | (normal) "\<not> (role p = ''MINI_SHELL'' \<and> delay p > 0 \<and> ?age \<ge> delay p)"
        "\<not> (role p = ''MINI_SHELL'' \<and> delay p \<le> 0)"
    by fastforce
  then show ?thesis
  proof cases
    case boom
    then have "?q = (fst (explodeSecondary e p w))\<lparr>alpha := 0, delay := 0\<rparr>"
      by (simp add: Particle_update_fl_def Let_def split_beta)
    then show ?thesis using i boom
      by (simp add: fading_inv_fl_def explodeSecondary_fade_fields explodeSecondary_fst)
  next
    case gone
    then have "?q = p\<lparr>alpha := 0\<rparr>" by (simp add: Particle_update_fl_def Let_def)
    then show ?thesis using i gone by (simp add: fading_inv_fl_def)
  next
    case normal
    then have r: "0 \<le> fadeStartAlpha p" "fl (fadeStartAlpha p) = fadeStartAlpha p"
        "fade_level_fl fl (fadeStartAlpha p) T D e0 \<le> alpha p"
      using assms(2) by (auto simp add: fading_inv_fl_def)
    let ?a = "fade_level_fl fl (fadeStartAlpha p) T D e"
    have f: "fade_step_fl fl e (trail_step (physics_step e p)) = (trail_step (physics_step e p))\<lparr>alpha := ?a\<rparr>"
      using i by (simp add: fade_step_fl_fading steps_fade_fields)
    have q: "alpha ?q = ?a" "isFading ?q" "fadeStartTime ?q = T" "fadeDuration ?q = D"
        "fadeStartAlpha ?q = fadeStartAlpha p"
      using i by (simp_all add: normal_path_fl [where fl = fl and e = e and p = p, OF normal] f steps_fade_fields)
    have le: "?a \<le> alpha p"
      using fade_level_fl_mono [OF assms(1) r(1,2) i(4) assms(3), of T] r(3) by simp
    have e0: "1 \<le> fade_progress fl T D e \<longrightarrow> ?a = 0"
      using fade_level_fl_end [OF assms(1) r(2)] by simp
    show ?thesis using q le e0 i r(1,2) fade_level_fl_nonneg [of fl "fadeStartAlpha p" T D e]
      by (simp add: fading_inv_fl_def)
  qed
qed

lemma fading_run_fl:
  assumes "rounding fl" "fading_inv_fl fl T D p e0" "sorted (map (\<lambda>ew. millis (fst ew)) ins)"
      and "\<forall>ew \<in> set ins. millis e0 \<le> millis (fst ew)" and "i < length ins"
  shows "isFading ((p # updates_fl fl p ins) ! Suc i)
       \<and> 0 \<le> alpha ((p # updates_fl fl p ins) ! Suc i)
       \<and> alpha ((p # updates_fl fl p ins) ! Suc i) \<le> alpha ((p # updates_fl fl p ins) ! i)
       \<and> (1 \<le> fade_progress fl T D (fst (ins ! i)) \<longrightarrow> alpha ((p # updates_fl fl p ins) ! Suc i) = 0)"
  using assms(2-)
proof (induction ins arbitrary: p e0 i)
  case Nil
  then show ?case by simp
next
  case (Cons x ins)
  let ?q = "fst (Particle_update_fl fl (fst x) p (snd x))"
  have tx: "millis e0 \<le> millis (fst x)" using Cons.prems(3) by simp
  note st = fading_update_fl [OF assms(1) Cons.prems(1) tx, of "snd x"]
  show ?case
  proof (cases i)
    case 0
    then show ?thesis using st by (simp add: Let_def)
  next
    case (Suc j)
    have s: "sorted (map (\<lambda>ew. millis (fst ew)) ins)" using Cons.prems(2) by simp
    have b: "\<forall>ew \<in> set ins. millis (fst x) \<le> millis (fst ew)"
      using Cons.prems(2) by simp
    have j: "j < length ins" using Cons.prems(4) Suc by simp
    have inv: "fading_inv_fl fl T D ?q (fst x)" using st by simp
    show ?thesis using Cons.IH [OF inv s b j] Suc by (simp add: Let_def)
  qed
qed

lemma setFading_fl_inv:
  assumes "rounding fl" "\<not> isFading q" "0 \<le> alpha q" "fl (alpha q) = alpha q" "0 < fl (1/100)"
  shows "fading_inv_fl fl (fadeStartTime (setFading_fl fl e d q)) (fadeDuration (setFading_fl fl e d q))
           (setFading_fl fl e d q) e0"
proof -
  have "0 < max (fl (1/100)) x" for x using assms(5) by (simp add: less_max_iff_disj)
  then have "0 < fadeDuration (setFading_fl fl e d q)"
    using assms(2) by (simp add: setFading_fl_def)
  then show ?thesis
    using assms(2,3,4) fade_level_fl_le [OF assms(1,3,4)]
    by (simp add: fading_inv_fl_def setFading_fl_def)
qed

lemma setFading_fl_duration:
  assumes "rounding fl" "\<not> isFading q" "d \<le> 0 \<or> fl d = d"
  shows "fl (fadeDuration (setFading_fl fl e d q)) = fadeDuration (setFading_fl fl e d q)"
proof -
  have "fl (max (fl x) (fl y)) = max (fl x) (fl y)" for x y
    by (simp add: max_def rounding_facts(7) [OF assms(1)])
  then show ?thesis using assms(2,3) by (auto simp add: setFading_fl_def)
qed

lemma double_small: "0 < double (1/100)"
  using double_eval [of "1/100" "- 59"] by (simp add: powr_eval round_half_even_def)

lemma fading0_simps:
  "isFading fading0" "role fading0 = ''EXPLOSION''" "fadeStartAlpha fading0 = 255"
  "fadeStartTime fading0 = 2" "fadeDuration fading0 = 1/2" "alpha fading0 = 255"
  by (simp_all add: fading0_def setFading_fl_def blank_particle_def env_at_def double_values)

lemma fading63_simps:
  "isFading fading63" "role fading63 = ''EXPLOSION''" "fadeStartAlpha fading63 = 255"
  "fadeStartTime fading63 = 1134907106097365/18014398509481984" "fadeDuration fading63 = 1/2"
  "alpha fading63 = 255"
  by (simp_all add: fading63_def setFading_fl_def blank_particle_def env_at_def double_values)

lemma fading_update_fl_fields:
  assumes "isFading p" "role p \<noteq> ''MINI_SHELL''"
  shows "alpha (fst (Particle_update_fl fl e p w)) =
           fade_level_fl fl (fadeStartAlpha p) (fadeStartTime p) (fadeDuration p) e"
  using assms by (simp add: normal_path_fl fade_step_fl_fading steps_fade_fields steps_keep)

lemma steps_motion_fields:
  "vel (trail_step p) = vel p" "pos (trail_step p) = pos p" "acc_p (trail_step p) = acc_p p"
  "vel (fade_step e p) = vel p" "pos (fade_step e p) = pos p" "acc_p (fade_step e p) = acc_p p"
  "vel (strobe_step e p) = vel p" "pos (strobe_step e p) = pos p" "acc_p (strobe_step e p) = acc_p p"
  "vel (fst (crackle_step e p w)) = vel p" "pos (fst (crackle_step e p w)) = pos p"
  "acc_p (fst (crackle_step e p w)) = acc_p p"
  "particleStyle (physics_step e p) = particleStyle p" "fluid (physics_step e p) = fluid p"
  "particleStyle (trail_step p) = particleStyle p" "fluid (trail_step p) = fluid p"
  "particleStyle (fade_step e p) = particleStyle p" "fluid (fade_step e p) = fluid p"
  "particleStyle (strobe_step e p) = particleStyle p" "fluid (strobe_step e p) = fluid p"
  "particleStyle (fst (crackle_step e p w)) = particleStyle p" "fluid (fst (crackle_step e p w)) = fluid p"
  by (simp_all add: step_defs Let_def split_beta)

lemma physics_step_fields:
  "vel (physics_step e p) = vadd (vel p) (acc_p p)"
  "pos (physics_step e p) = vadd (pos p) (vmult (vadd (vel p) (acc_p p)) (frame_dt e))"
  "acc_p (physics_step e p) = (0, 0)"
  by (simp_all add: physics_step_def Let_def vmult_def)

lemma update_motion:
  assumes "\<not> (role p = ''MINI_SHELL'' \<and> (delay p \<le> 0 \<or> delay p \<le> millis e / 1000 - timeCreated p))"
      and "\<not> (particleStyle p = ''FLUID'' \<and> fluid p)"
  shows "vel (fst (Particle_update e p w)) = vadd (vel p) (acc_p p)"
    and "pos (fst (Particle_update e p w)) = vadd (pos p) (vmult (vadd (vel p) (acc_p p)) (frame_dt e))"
    and "acc_p (fst (Particle_update e p w)) = (0, 0)"
proof -
  have n: "\<not> (role p = ''MINI_SHELL'' \<and> delay p > 0 \<and> millis e / 1000 - timeCreated p \<ge> delay p)"
      "\<not> (role p = ''MINI_SHELL'' \<and> delay p \<le> 0)"
    using assms(1) by auto
  let ?c = "fst (crackle_step e (strobe_step e (fade_step e (trail_step (physics_step e p)))) w)"
  have "\<not> (particleStyle ?c = ''FLUID'' \<and> fluid ?c)"
    using assms(2) by (simp add: steps_motion_fields)
  then have "fluid_step e ?c = ?c" by (auto simp add: fluid_step_def)
  then have a: "fst (Particle_update e p w) = ?c" by (simp add: normal_path [OF n])
  show "vel (fst (Particle_update e p w)) = vadd (vel p) (acc_p p)"
    and "pos (fst (Particle_update e p w)) = vadd (pos p) (vmult (vadd (vel p) (acc_p p)) (frame_dt e))"
    and "acc_p (fst (Particle_update e p w)) = (0, 0)"
    by (simp_all add: a steps_motion_fields physics_step_fields)
qed

lemma lg_update_motion:
  assumes "\<not> lg_fluid q"
  shows "lg_vel (fst (lg_Particle_update d q g)) = v3add (lg_vel q) (lg_acc q)"
    and "lg_pos (fst (lg_Particle_update d q g)) = v3add (lg_pos q) (v3add (lg_vel q) (lg_acc q))"
    and "lg_acc (fst (lg_Particle_update d q g)) = (0, 0, 0)"
  using assms by (simp_all add: lg_Particle_update_def Let_def v3mult_def v3x_def v3y_def v3z_def)

lemma vsub_vadd: "vsub (vadd a b) b = a"
  by (simp add: vsub_def vadd_def)

lemma mag_fromAngle: "mag (vmult (fromAngle t) f) = \<bar>f\<bar>"
proof -
  have cs: "cos t * cos t + sin t * sin t = 1"
    using sin_cos_squared_add2 [of t] by (simp add: power2_eq_square)
  have "magSq (vmult (fromAngle t) f) = (cos t * f) * (cos t * f) + (sin t * f) * (sin t * f)"
    by (simp add: magSq_def vmult_def fromAngle_def)
  also have "\<dots> = (f * f) * (cos t * cos t + sin t * sin t)"
    by (simp only: distrib_left mult.commute mult.left_commute)
  also have "\<dots> = f\<^sup>2" by (simp only: cs power2_eq_square mult_1_right)
  finally show ?thesis by (simp add: mag_def)
qed

lemma peony_body_length:
  "length (particles (peony_body e fw ep bf iv i w)) =
     (if length (particles w) < maxTotalParticles (fw_config fw) then Suc (length (particles w))
      else length (particles w))"
  by (simp add: peony_body_def Let_def split_beta rnd_simps createParticle_length)

lemma peony_body_grows_any:
  "grows (\<lambda>q. True) s (peony_body e fw ep bf iv i s)"
  unfolding peony_body_def Let_def split_beta
  by (rule grows_trans [OF _ grows_createParticle]) (simp_all add: grows_snd_rnd grows_refl)

lemma peony_body_grows:
  assumes "unit_rand (rand s)" "fw_type fw = ''PEONY''" "0 \<le> explosionSize (fw_config fw)"
  shows "grows (peony_particle fw w) s
     (peony_body e fw (pos (heap w (shell fw))) (fw_baseForce (fw_config fw))
        (vmult (vel (heap w (shell fw))) (1/10)) i s)"
proof -
  define b where "b = fw_baseForce (fw_config fw)"
  define s1 where "s1 = snd (random1 TWO_PI s)"
  define f where "f = fst (random2 (b * (8/10)) (b * (12/10)) s1)"
  have b0: "0 \<le> b" using assms(3) by (simp add: b_def fw_baseForce_def num_or_def)
  have r: "rand s1 = rand s" by (simp add: random1_simps s1_def)
  have "min (b * (8/10)) (b * (12/10)) \<le> f" "f \<le> max (b * (8/10)) (b * (12/10))"
    using unit_rand_range [of s1] assms(1) r by (simp_all add: f_def)
  then have fr: "b * (8/10) \<le> f" "f \<le> b * (12/10)" using b0 by (simp_all add: min_def max_def)
  have "0 \<le> b * (8/10)" using b0 by simp
  then have f0: "0 \<le> f" using fr(1) by linarith
  show ?thesis
    unfolding peony_body_def Let_def split_beta
  proof (rule grows_trans [OF _ grows_createParticle], goal_cases)
    case 1
    show ?case by (intro grows_snd_rnd grows_refl)
  next
    case (2 p)
    then have "vel p = vadd (vmult (fromAngle (fst (random1 TWO_PI s))) f) (vmult (vel (heap w (shell fw))) (1/10))"
      using assms(2) by (simp add: f_def s1_def b_def)
    then have "mag (vsub (vel p) (vmult (vel (heap w (shell fw))) (1/10))) = f"
      using f0 by (simp add: vsub_vadd mag_fromAngle)
    then show ?case
      using 2 fr by (simp add: peony_particle_def b_def)
  qed
qed

lemma numParticles_count:
  assumes "particleCount cfg = real n" "0 < n" "n \<le> 5000"
  shows "iterations (real_of_int (fw_numParticles cfg)) = n"
  using assms
  by (simp add: iterations_def fw_numParticles_def num_or_def MAX_PARTICLES_PER_FIREWORK_def min_def)

lemma real_config: "particleCount (default_config\<lparr>particleCount := 100\<rparr>) = real (100::nat)"
  by simp

lemma world_apex_simps:
  "particles world_apex = [0]" "next_ref world_apex = 1" "rand world_apex = (\<lambda>i. 1/2)"
  "pos (heap world_apex 0) = (500, 700)" "vel (heap world_apex 0) = (0, - (3/10))"
  by (simp_all add: world_apex_def world_ascending_simps world_ascending_def new_Firework_def
        Let_def split_beta rnd_simps new_Particle_snd push_particle_def world0_def)

lemma fw_peony100_simps:
  "shell fw_peony100 = 0" "fw_type fw_peony100 = ''PEONY''"
  "explosionSize (fw_config fw_peony100) = 400" "particleCount (fw_config fw_peony100) = 100"
  "fw_baseForce (fw_config fw_peony100) = 40"
  "maxTotalParticles (fw_config fw_peony100) = 30000"
  "fw_palette fw_peony100 = PALETTES ! 3"
  by (simp_all add: fw_peony100_def fw_peony_simps fw_baseForce_def default_config_def num_or_def
        MAX_TOTAL_PARTICLES_def fw_peony_def new_Firework_def Let_def split_beta rnd_simps
        new_Particle_snd world0_def PALETTES_def)

lemma world_windy_simps:
  "particles world_windy = [0]" "next_ref world_windy = 1" "used world_windy = 0"
  "rand world_windy = (\<lambda>i. if i = 1 then 999/1000 else 0)"
  "pos (heap world_windy 0) = (500, 700)" "vel (heap world_windy 0) = (2, - (3/10))"
  by (simp_all add: world_windy_def world_apex_simps)

lemma first_peony_particle:
  "next_ref (peony_body (env_at 40) (fw_peony100\<lparr>explodeCalls := Suc (explodeCalls fw_peony100)\<rparr>)
      (500, 700) 40 (2/10, - (3/100)) 0 world_windy) = 2
   \<and> pos (heap (peony_body (env_at 40) (fw_peony100\<lparr>explodeCalls := Suc (explodeCalls fw_peony100)\<rparr>)
      (500, 700) 40 (2/10, - (3/100)) 0 world_windy) 1) = (500, 700)
   \<and> vel (heap (peony_body (env_at 40) (fw_peony100\<lparr>explodeCalls := Suc (explodeCalls fw_peony100)\<rparr>)
      (500, 700) 40 (2/10, - (3/100)) 0 world_windy) 1) = (48184/1000, - (3/100))"
  by (simp add: peony_body_def Let_def split_beta rnd_simps createParticle_def new_Particle_snd
        new_Particle_fields push_particle_def world_windy_simps fw_peony100_simps
        TWO_PI_def fromAngle_def vmult_def vadd_def or_else_def no_options_def)

lemma update_no_apex:
  assumes "fw_lifecycle fw = ASCENT" "\<not> apex_condition fw w" "shell fw \<in> set (particles w)"
  shows "Firework_update e fw w = (fw, w)"
  using assms by (simp add: Firework_update_def)

lemma update_shell_gone:
  assumes "fw_lifecycle fw = ASCENT" "\<not> apex_condition fw w" "shell fw \<notin> set (particles w)"
  shows "Firework_update e fw w =
           (fw\<lparr>fw_lifecycle := EXPLOSION, hasExploded := True\<rparr>,
            console_log ''Shell particle disappeared before explosion.'' w)"
  using assms by (simp add: Firework_update_def)

lemma update_at_apex:
  assumes "fw_lifecycle fw = ASCENT" "\<not> hasExploded fw" "apex_condition fw w"
  shows "fst (Firework_update e fw w) =
           fw\<lparr>explodeCalls := Suc (explodeCalls fw), fw_lifecycle := EXPLOSION, hasExploded := True\<rparr>"
    and "particles (snd (Firework_update e fw w)) = particles (snd (Firework_explode e fw w))"
    and "console (snd (Firework_update e fw w)) = console (snd (Firework_explode e fw w))"
  using assms by (simp_all add: Firework_update_def Let_def split_beta explode_fst)

lemma fw_updates_append:
  "fw_updates fw (pre @ rest) = fw_updates fw pre @ fw_updates (last (fw # fw_updates fw pre)) rest"
  by (induction pre arbitrary: fw) (simp_all add: Let_def)

lemma fw_updates_waiting:
  assumes "fw_lifecycle fw = ASCENT"
      and "\<forall>ew \<in> set pre. \<not> apex_condition fw (snd ew) \<and> shell fw \<in> set (particles (snd ew))"
  shows "fw_updates fw pre = replicate (length pre) fw"
  using assms by (induction pre) (simp_all add: update_no_apex)

lemma world_faded_simps:
  "particles world_faded = []" "vel (heap world_faded 0) = (0, - (1996/100))"
  "pos (heap world_faded 0) = (500, 747)"
  by (simp_all add: world_faded_def)

lemma launched_facts:
  "particles launched = [0]" "next_ref launched = 1" "console launched = []"
  "sys_config launched = calm_config" "gravity_y launched = 8/100"
  "length (fireworks launched) = 1"
  "shell (fireworks launched ! 0) = 0" "fw_lifecycle (fireworks launched ! 0) = ASCENT"
  "hasExploded (fireworks launched ! 0) = False" "explosionAltitude (fireworks launched ! 0) = 240"
  "explodeCalls (fireworks launched ! 0) = 0" "fw_type (fireworks launched ! 0) = ''PEONY''"
  "role (heap launched 0) = ''SHELL''" "vel (heap launched 0) = (0, - 21)"
  "pos (heap launched 0) = (500, 800)" "acc_p (heap launched 0) = (0, 0)"
  "alpha (heap launched 0) = 200" "isFading (heap launched 0) = False"
  "lifespan (heap launched 0) = 2" "timeCreated (heap launched 0) = 0"
  "fadeRate (heap launched 0) = 1" "fluid (heap launched 0) = False"
  "particleStyle (heap launched 0) = ''CLASSIC''"
  by (simp_all add: launched_def manualLaunch_def FireworkSystem_launch_def calm_config_def
        default_config_def MAX_TOTAL_PARTICLES_def world0_def new_Firework_def new_Particle_def
        Let_def split_beta rnd_simps push_particle_def frame_def createVector_def no_options_def
        or_else_def)

lemma launched_more:
  "wind (sys_config launched) = 0" "airDrag (sys_config launched) = 0"
  "\<not> autoLaunch (sys_config launched)"
  "fireworks launched = [fireworks launched ! 0]"
proof -
  show "wind (sys_config launched) = 0" "airDrag (sys_config launched) = 0"
    "\<not> autoLaunch (sys_config launched)"
    by (simp_all add: launched_facts calm_config_def)
  show "fireworks launched = [fireworks launched ! 0]"
    using launched_facts(6) by (cases "fireworks launched") simp_all
qed

lemma calm_particle_update:
  assumes "role p = ''SHELL''" "fluid p = False"
  shows "Particle_update e p w = (fade_step e (trail_step (physics_step e p)), w)"
  using assms
  by (simp add: Particle_update_def Let_def split_beta strobe_step_def crackle_step_def
        fluid_step_def steps_keep steps_motion_fields)

lemma getWind_calm: "wind (sys_config w) = 0 \<Longrightarrow> getWind e x w = (0, 0)"
  by (simp add: getWind_def createVector_def Let_def)

lemma applyDrag_zero: "applyDrag 0 p = p"
  by (simp add: applyDrag_def)

lemma applyForce_zero: "applyForce (0, 0) p = p"
  by (simp add: applyForce_def vadd_def)

lemma calm_draw_particle:
  assumes "particles w = [0]" "wind (sys_config w) = 0" "airDrag (sys_config w) = 0"
      and "role (heap w 0) = ''SHELL''" "fluid (heap w 0) = False"
  shows "draw_particle e 0 w =
           (if alpha (shell_step (gravity_y w) e (heap w 0)) \<le> 0
            then w\<lparr>heap := (heap w)(0 := shell_step (gravity_y w) e (heap w 0)), particles := []\<rparr>
            else w\<lparr>heap := (heap w)(0 := shell_step (gravity_y w) e (heap w 0))\<rparr>)"
proof -
  have r: "role (applyForce (0, gravity_y w) (heap w 0)) = ''SHELL''"
      "fluid (applyForce (0, gravity_y w) (heap w 0)) = False"
    using assms(4,5) by (simp_all add: applyForce_def)
  show ?thesis
    using assms(1,2,3)
    by (simp add: draw_particle_def Let_def createVector_def getWind_calm applyDrag_zero
          applyForce_zero calm_particle_update [OF r] shell_step_def isDone_def splice1_def)
qed

lemma calm_draw_visible:
  assumes "particles w = [0]" "fireworks w = [fw]"
      and "wind (sys_config w) = 0" "airDrag (sys_config w) = 0" "\<not> autoLaunch (sys_config w)"
      and "shell fw = 0" "fw_lifecycle fw = ASCENT"
      and "role (heap w 0) = ''SHELL''" "fluid (heap w 0) = False"
      and "0 < alpha (shell_step (gravity_y w) e (heap w 0))"
      and "vy (vel (shell_step (gravity_y w) e (heap w 0))) < - (5/10)"
      and "explosionAltitude fw < vy (pos (shell_step (gravity_y w) e (heap w 0)))"
  shows "draw e w = w\<lparr>heap := (heap w)(0 := shell_step (gravity_y w) e (heap w 0))\<rparr>"
proof -
  let ?w2 = "w\<lparr>heap := (heap w)(0 := shell_step (gravity_y w) e (heap w 0))\<rparr>"
  have u: "FireworkSystem_update e w = w"
    using assms(5) by (simp add: FireworkSystem_update_def)
  have d: "draw_particle e 0 w = ?w2"
    using calm_draw_particle [OF assms(1,3,4,8,9)] assms(10) by simp
  have a: "\<not> apex_condition fw ?w2"
    using assms(6,11,12) by (simp add: apex_condition_def)
  have f: "Firework_update e fw ?w2 = (fw, ?w2)"
    using a assms(1,6,7) by (simp add: update_no_apex)
  have df: "draw_firework e 0 ?w2 = ?w2"
    using assms(2,7) by (simp add: draw_firework_def f Firework_done_def)
  show ?thesis
    using assms(1,2) by (simp add: draw_def u Let_def d df no_break_def)
qed

lemma calm_draw_faded:
  assumes "particles w = [0]" "fireworks w = [fw]"
      and "wind (sys_config w) = 0" "airDrag (sys_config w) = 0" "\<not> autoLaunch (sys_config w)"
      and "shell fw = 0" "fw_lifecycle fw = ASCENT"
      and "role (heap w 0) = ''SHELL''" "fluid (heap w 0) = False"
      and "alpha (shell_step (gravity_y w) e (heap w 0)) \<le> 0"
      and "vy (vel (shell_step (gravity_y w) e (heap w 0))) < - (5/10)"
      and "explosionAltitude fw < vy (pos (shell_step (gravity_y w) e (heap w 0)))"
  shows "draw e w = w\<lparr>heap := (heap w)(0 := shell_step (gravity_y w) e (heap w 0)), particles := [],
                      fireworks := [],
                      console := console w @ [''Shell particle disappeared before explosion.'']\<rparr>"
proof -
  let ?w2 = "w\<lparr>heap := (heap w)(0 := shell_step (gravity_y w) e (heap w 0)), particles := []\<rparr>"
  have u: "FireworkSystem_update e w = w"
    using assms(5) by (simp add: FireworkSystem_update_def)
  have d: "draw_particle e 0 w = ?w2"
    using calm_draw_particle [OF assms(1,3,4,8,9)] assms(10) by simp
  have a: "\<not> apex_condition fw ?w2"
    using assms(6,11,12) by (simp add: apex_condition_def)
  have f: "Firework_update e fw ?w2 =
      (fw\<lparr>fw_lifecycle := EXPLOSION, hasExploded := True\<rparr>,
       console_log ''Shell particle disappeared before explosion.'' ?w2)"
    using a assms(7) by (simp add: update_shell_gone)
  have df: "draw_firework e 0 ?w2 =
      ?w2\<lparr>fireworks := [], console := console w @ [''Shell particle disappeared before explosion.'']\<rparr>"
    using assms(2) by (simp add: draw_firework_def f Firework_done_def console_log_def splice1_def)
  show ?thesis
    using assms(1,2) by (simp add: draw_def u Let_def d df no_break_def)
qed

lemma frame_simps: "millis (frame k) / 1000 = real k / 60" "frame_dt (frame k) = 1 / 60"
  by (simp_all add: frame_def frame_dt_def)

lemma shell_step_keep:
  "role (shell_step g e p) = role p" "fluid (shell_step g e p) = fluid p"
  "timeCreated (shell_step g e p) = timeCreated p" "lifespan (shell_step g e p) = lifespan p"
  "fadeRate (shell_step g e p) = fadeRate p"
  by (simp_all add: shell_step_def step_defs Let_def)

lemma shell_step_motion:
  "vel (shell_step g e p) = vadd (vel p) (vadd (acc_p p) (0, g))"
  "pos (shell_step g e p) = vadd (pos p) (vmult (vadd (vel p) (vadd (acc_p p) (0, g))) (frame_dt e))"
  "acc_p (shell_step g e p) = (0, 0)"
  by (simp_all add: shell_step_def steps_motion_fields physics_step_fields applyForce_def)

lemma steps_life:
  "lifespan (physics_step e p) = lifespan p" "lifespan (trail_step p) = lifespan p"
  "fadeRate (physics_step e p) = fadeRate p" "fadeRate (trail_step p) = fadeRate p"
  by (simp_all add: step_defs Let_def)

lemma shell_step_fading:
  assumes "isFading p"
  shows "alpha (shell_step g e p) =
           fade_level (fadeStartAlpha p) (fadeStartTime p) (fadeDuration p) (millis e / 1000)"
    and "isFading (shell_step g e p)"
    and "fadeStartAlpha (shell_step g e p) = fadeStartAlpha p"
    and "fadeStartTime (shell_step g e p) = fadeStartTime p"
    and "fadeDuration (shell_step g e p) = fadeDuration p"
  using assms
  by (simp_all add: shell_step_def fade_step_fading steps_fade_fields applyForce_def)

lemma shell_step_young:
  assumes "\<not> isFading p" "millis e / 1000 - timeCreated p < lifespan p"
  shows "alpha (shell_step g e p) = alpha p" and "\<not> isFading (shell_step g e p)"
  using assms
  by (simp_all add: shell_step_def fade_step_def steps_fade_fields steps_keep steps_life
        applyForce_def Let_def)

lemma shell_step_expires:
  assumes "\<not> isFading p" "role p = ''SHELL''" "lifespan p \<le> millis e / 1000 - timeCreated p"
  shows "alpha (shell_step g e p) = alpha p" and "isFading (shell_step g e p)"
    and "fadeStartAlpha (shell_step g e p) = alpha p"
    and "fadeStartTime (shell_step g e p) = millis e / 1000"
    and "fadeDuration (shell_step g e p) = max (1/100) ((5/10) / max (1/10) (fadeRate p))"
  using assms
  by (simp_all add: shell_step_def fade_step_def setFading_def steps_fade_fields steps_keep
        steps_life applyForce_def Let_def)

lemma fade_level_pos:
  assumes "0 < a" "0 < D" "t < T + D"
  shows "0 < fade_level a T D t"
proof -
  have "(t - T) / D < 1" using assms(2,3) by (simp add: divide_less_eq)
  then have "constrain ((t - T) / D) 0 1 < 1" by (simp add: constrain_def)
  then have "0 < a * (1 - constrain ((t - T) / D) 0 1)" using assms(1) by simp
  then show ?thesis by (simp add: fade_level_def lerp_to_zero)
qed

lemma fade_level_start: "0 \<le> a \<Longrightarrow> fade_level a T D T = a"
  by (simp add: fade_level_def lerp_to_zero constrain_def)

lemma flying_step:
  assumes "flying k p" and g: "g = 8/100"
  shows "flying (Suc k) (shell_step g (frame (Suc k)) p)"
proof -
  let ?q = "shell_step g (frame (Suc k)) p"
  have p: "role p = ''SHELL''" "\<not> fluid p" "timeCreated p = 0" "lifespan p = 2" "fadeRate p = 1"
      "acc_p p = (0, 0)" "vel p = (0, 8/100 * real k - 21)" "800 - 21/60 * real k \<le> vy (pos p)"
    using assms by (simp_all add: flying_def)
  have k: "role ?q = ''SHELL''" "\<not> fluid ?q" "timeCreated ?q = 0" "lifespan ?q = 2" "fadeRate ?q = 1"
    by (simp_all add: shell_step_keep p)
  have v: "vel ?q = (0, 8/100 * real (Suc k) - 21)"
    by (simp add: shell_step_motion p g vadd_def algebra_simps)
  have e: "vy (pos ?q) = vy (pos p) + (8/100 * real (Suc k) - 21) * (1/60)"
    by (simp add: shell_step_motion p g vadd_def vmult_def vy_def frame_simps algebra_simps)
  have z: "0 \<le> real k" and r: "real (Suc k) = real k + 1" by simp_all
  have "800 - 21/60 * real (Suc k) \<le> vy (pos p) + (8/100 * real (Suc k) - 21) * (1/60)"
    using p(8) z unfolding r by argo
  then have x: "800 - 21/60 * real (Suc k) \<le> vy (pos ?q)"
    by (simp only: e)
  have f: "if Suc k < 120 then \<not> isFading ?q \<and> alpha ?q = 200
         else isFading ?q \<and> fadeStartAlpha ?q = 200 \<and> fadeStartTime ?q = 2
              \<and> fadeDuration ?q = 1/2 \<and> alpha ?q = fade_level 200 2 (1/2) (real (Suc k) / 60)"
  proof (cases "Suc k < 120")
    case True
    then have n: "\<not> isFading p" "alpha p = 200" using assms by (simp_all add: flying_def)
    have "millis (frame (Suc k)) / 1000 - timeCreated p < lifespan p"
      using True by (simp add: frame_simps p)
    from shell_step_young [OF n(1) this] True show ?thesis by (simp add: n)
  next
    case False
    show ?thesis
    proof (cases "k < 120")
      case True
      then have e: "Suc k = 120" using False by simp
      have n: "\<not> isFading p" "alpha p = 200" using True assms by (simp_all add: flying_def)
      have "lifespan p \<le> millis (frame (Suc k)) / 1000 - timeCreated p"
        by (simp add: frame_simps p e)
      from shell_step_expires [OF n(1) p(1) this, of g] show ?thesis
        by (simp add: n p e frame_simps fade_level_start)
    next
      case F: False
      then have n: "isFading p" "fadeStartAlpha p = 200" "fadeStartTime p = 2" "fadeDuration p = 1/2"
        using assms by (simp_all add: flying_def)
      from shell_step_fading [OF n(1), of g "frame (Suc k)"] False show ?thesis
        by (simp add: n frame_simps)
    qed
  qed
  show ?thesis
    unfolding flying_def using k p(6) v x f by (simp only: shell_step_motion) simp
qed

lemma flying_shell_at: "flying k (shell_at k)"
proof (induction k)
  case 0
  show ?case by (simp add: flying_def launched_facts vy_def)
next
  case (Suc k)
  from flying_step [OF Suc launched_facts(5)] show ?case by (simp only: shell_at.simps)
qed

lemma show_flying:
  "k < 150 \<Longrightarrow> show_world k = launched\<lparr>heap := (heap launched)(0 := shell_at k)\<rparr>"
proof (induction k)
  case 0
  show ?case by simp
next
  case (Suc k)
  let ?w = "launched\<lparr>heap := (heap launched)(0 := shell_at k)\<rparr>"
  have "k < 150" using Suc.prems by simp
  then have ih: "show_world k = ?w" by (rule Suc.IH)
  have s: "shell_step (gravity_y ?w) (frame (Suc k)) (heap ?w 0) = shell_at (Suc k)"
    by simp
  have p: "flying k (shell_at k)" and q: "flying (Suc k) (shell_at (Suc k))"
    by (rule flying_shell_at)+
  have a: "0 < alpha (shell_at (Suc k))"
  proof (cases "Suc k < 120")
    case True
    then show ?thesis using q by (simp add: flying_def)
  next
    case False
    have "real (Suc k) < 150" using Suc.prems by simp
    then have "real (Suc k) / 60 < 2 + 1/2" by simp
    then have "0 < fade_level 200 2 (1/2) (real (Suc k) / 60)"
      by (intro fade_level_pos) simp_all
    then show ?thesis using q False by (simp add: flying_def)
  qed
  have b: "real (Suc k) < 150" using Suc.prems by simp
  have "vy (vel (shell_at (Suc k))) = 8/100 * real (Suc k) - 21"
    using q by (simp add: flying_def vy_def)
  then have v: "vy (vel (shell_at (Suc k))) < - (5/10)"
    using b by argo
  have "800 - 21/60 * real (Suc k) \<le> vy (pos (shell_at (Suc k)))"
    using q by (simp add: flying_def)
  then have x: "240 < vy (pos (shell_at (Suc k)))"
    using b by argo
  have "draw (frame (Suc k)) ?w =
      ?w\<lparr>heap := (heap ?w)(0 := shell_step (gravity_y ?w) (frame (Suc k)) (heap ?w 0))\<rparr>"
  proof (rule calm_draw_visible [where fw = "fireworks launched ! 0"])
    show "particles ?w = [0]" by (simp add: launched_facts)
    show "fireworks ?w = [fireworks launched ! 0]" using launched_more(4) by simp
    show "wind (sys_config ?w) = 0" "airDrag (sys_config ?w) = 0" "\<not> autoLaunch (sys_config ?w)"
      by (simp_all add: launched_more)
    show "shell (fireworks launched ! 0) = 0" "fw_lifecycle (fireworks launched ! 0) = ASCENT"
      by (simp_all add: launched_facts)
    show "role (heap ?w 0) = ''SHELL''" "fluid (heap ?w 0) = False"
      using p by (simp_all add: flying_def)
    show "0 < alpha (shell_step (gravity_y ?w) (frame (Suc k)) (heap ?w 0))"
      using a by (simp only: s)
    show "vy (vel (shell_step (gravity_y ?w) (frame (Suc k)) (heap ?w 0))) < - (5/10)"
      using v by (simp only: s)
    show "explosionAltitude (fireworks launched ! 0)
            < vy (pos (shell_step (gravity_y ?w) (frame (Suc k)) (heap ?w 0)))"
      using x by (simp only: s launched_facts)
  qed
  then have "draw (frame (Suc k)) ?w = launched\<lparr>heap := (heap launched)(0 := shell_at (Suc k))\<rparr>"
    by (simp only: s) simp
  then show ?case by (simp only: show_world.simps ih)
qed

lemma show_last:
  assumes k: "k = 149"
  shows "show_world (Suc k) = launched\<lparr>heap := (heap launched)(0 := shell_at (Suc k)),
      particles := [], fireworks := [],
      console := [''Shell particle disappeared before explosion.'']\<rparr>"
proof -
  let ?w = "launched\<lparr>heap := (heap launched)(0 := shell_at k)\<rparr>"
  have "k < 150" using k by simp
  then have ih: "show_world k = ?w" by (rule show_flying)
  have s: "shell_step (gravity_y ?w) (frame (Suc k)) (heap ?w 0) = shell_at (Suc k)"
    by simp
  have p: "flying k (shell_at k)" and q: "flying (Suc k) (shell_at (Suc k))"
    by (rule flying_shell_at)+
  have a: "alpha (shell_at (Suc k)) \<le> 0"
  proof -
    have "fade_level 200 2 (1/2) (real (Suc k) / 60) = 0"
      using k by (intro fade_level_end) simp_all
    then show ?thesis using q k by (simp add: flying_def)
  qed
  have v: "vy (vel (shell_at (Suc k))) < - (5/10)"
    using q k by (simp add: flying_def vy_def)
  have x: "240 < vy (pos (shell_at (Suc k)))"
  proof -
    have "800 - 21/60 * real (Suc k) \<le> vy (pos (shell_at (Suc k)))"
      using q by (simp add: flying_def)
    then show ?thesis using k by simp
  qed
  have "draw (frame (Suc k)) ?w =
      ?w\<lparr>heap := (heap ?w)(0 := shell_step (gravity_y ?w) (frame (Suc k)) (heap ?w 0)),
         particles := [], fireworks := [],
         console := console ?w @ [''Shell particle disappeared before explosion.'']\<rparr>"
  proof (rule calm_draw_faded [where fw = "fireworks launched ! 0"])
    show "particles ?w = [0]" by (simp add: launched_facts)
    show "fireworks ?w = [fireworks launched ! 0]" using launched_more(4) by simp
    show "wind (sys_config ?w) = 0" "airDrag (sys_config ?w) = 0" "\<not> autoLaunch (sys_config ?w)"
      by (simp_all add: launched_more)
    show "shell (fireworks launched ! 0) = 0" "fw_lifecycle (fireworks launched ! 0) = ASCENT"
      by (simp_all add: launched_facts)
    show "role (heap ?w 0) = ''SHELL''" "fluid (heap ?w 0) = False"
      using p by (simp_all add: flying_def)
    show "alpha (shell_step (gravity_y ?w) (frame (Suc k)) (heap ?w 0)) \<le> 0"
      using a by (simp only: s)
    show "vy (vel (shell_step (gravity_y ?w) (frame (Suc k)) (heap ?w 0))) < - (5/10)"
      using v by (simp only: s)
    show "explosionAltitude (fireworks launched ! 0)
            < vy (pos (shell_step (gravity_y ?w) (frame (Suc k)) (heap ?w 0)))"
      using x by (simp only: s launched_facts)
  qed
  then have "draw (frame (Suc k)) ?w =
      launched\<lparr>heap := (heap launched)(0 := shell_at (Suc k)), particles := [],
        fireworks := [], console := [''Shell particle disappeared before explosion.'']\<rparr>"
    by (simp only: s) (simp add: launched_facts)
  then show ?thesis
    by (simp only: show_world.simps ih)
qed

lemma show_faded:
  "show_world 150 = launched\<lparr>heap := (heap launched)(0 := shell_at 150), particles := [],
      fireworks := [], console := [''Shell particle disappeared before explosion.'']\<rparr>"
proof -
  have n: "Suc 149 = 150" by simp
  show ?thesis using show_last [OF refl] by (simp only: n)
qed

lemma multi_break_body_length:
  "length (particles (multi_break_body e fw ep bf iv i w)) = Suc (length (particles w))"
  by (simp add: multi_break_body_def Let_def split_beta rnd_simps new_Particle_snd push_particle_def)

lemma multi_break_body_console:
  "console (multi_break_body e fw ep bf iv i w) = console w"
  by (simp add: multi_break_body_def Let_def split_beta rnd_simps new_Particle_snd push_particle_def)

lemma for_range_adds:
  assumes "\<And>i s. length (particles (body i s)) = Suc (length (particles s))"
  shows "length (particles (for_range is no_break body w)) = length (particles w) + length is"
proof (induction "is" arbitrary: w)
  case Nil
  show ?case by simp
next
  case (Cons i "is")
  show ?case using Cons [of "body i w"] assms [of i w] by (simp add: no_break_def)
qed

lemma for_range_console:
  assumes "\<And>i s. console (body i s) = console s"
  shows "console (for_range is brk body w) = console w"
  by (rule for_range_induct [where P = "\<lambda>s. console s = console w"]) (simp_all add: assms)

lemma explode_multi_break_length:
  assumes "fw_type fw = ''MULTI_BREAK''"
  shows "length (particles (snd (Firework_explode e fw w))) =
           length (particles w) + nat \<lfloor>fst (random2 2 5 w)\<rfloor>"
    and "console (snd (Firework_explode e fw w)) = console w"
  using assms
  by (simp_all add: Firework_explode_def Let_def split_beta for_range_adds for_range_console
        multi_break_body_length multi_break_body_console rnd_simps)

lemma world_full_simps:
  "length (particles world_full) = 30000" "console world_full = []"
  "vel (heap world_full 0) = (0, - (3/10))" "rand world_full (used world_full) = 1/2"
  by (simp_all add: world_full_def world_apex_simps world_apex_def world_ascending_def
        new_Firework_def Let_def split_beta rnd_simps new_Particle_snd push_particle_def world0_def)

lemma fw_multi_simps:
  "fw_type fw_multi = ''MULTI_BREAK''" "shell fw_multi = 0" "fw_lifecycle fw_multi = ASCENT"
  "hasExploded fw_multi = False" "maxTotalParticles (fw_config fw_multi) = 30000"
proof -
  show "fw_type fw_multi = ''MULTI_BREAK''" "shell fw_multi = 0" "fw_lifecycle fw_multi = ASCENT"
    "hasExploded fw_multi = False"
    by (simp_all add: fw_multi_def fw_peony_simps)
  show "maxTotalParticles (fw_config fw_multi) = 30000"
    by (simp add: fw_multi_def fw_peony_def new_Firework_def Let_def split_beta
        rnd_simps new_Particle_snd default_config_def MAX_TOTAL_PARTICLES_def)
qed

lemma lg_apex_update:
  "\<exists>s. lg_Firework_update 20 lg_fw_apex rng0 = Some (Returns s)
       \<and> lg_lifecycle (fst s) = EXPLOSION \<and> lg_explodeCalls (fst s) = 1
       \<and> map lg_alpha (lg_particles (fst s)) = [225, 225]
       \<and> \<not> lg_done (fst s)"
  by (simp add: lg_Firework_update_def lg_fw_apex_def lg_new_Firework_def lg_default_config_def
      rng0_def lg_new_Particle_def lg_random2_def lg_random1_def lg_draw_def lg_applyForce_def
      lg_Particle_update_def lg_explode_def lg_random_body_def lg_random3D_def lg_createParticle_def
      lg_update_particles_def lg_done_def iterations_def no_break_def
      v3add_def v3mult_def v3x_def v3y_def v3z_def Let_def split_beta upt2 upt3 lerpColor_def)

lemma spawns_refl: "spawns c w w"
  by (simp add: spawns_def)

lemma spawns_trans: "spawns c w w1 \<Longrightarrow> spawns c w1 w2 \<Longrightarrow> spawns c w w2"
  by (auto simp add: spawns_def)

lemma refs_ok_used: "refs_ok c (w\<lparr>used := k\<rparr>) = refs_ok c w"
  by (simp add: refs_ok_def)

lemma spawns_used: "spawns c w (w\<lparr>used := k\<rparr>)"
  by (simp add: spawns_def refs_ok_used)

lemma spawns_console: "spawns c w (console_log s w)"
  by (simp add: spawns_def refs_ok_def console_log_def)

lemma spawns_from_used: "spawns c (w\<lparr>used := k\<rparr>) w' \<Longrightarrow> spawns c w w'"
  by (rule spawns_trans [OF spawns_used])

lemma spawns_push:
  assumes "length (particles w) < c" "cap_ok c p"
  shows "spawns c w (push_particle p w)"
  using assms by (auto simp add: spawns_def refs_ok_def push_particle_def less_Suc_eq)

lemma spawns_for_range:
  assumes "\<And>i s. \<not> brk i s \<Longrightarrow> spawns c s (body i s)"
  shows "spawns c w (for_range is brk body w)"
  by (rule for_range_induct [where P = "spawns c w"])
     (auto intro: spawns_refl spawns_trans assms)

lemma spawns_loop_used:
  assumes "\<And>i s. \<not> brk i s \<Longrightarrow> spawns c s (body i s)"
  shows "spawns c w (for_range is brk body (w\<lparr>used := k\<rparr>))"
  by (rule spawns_from_used [OF spawns_for_range]) (rule assms)

lemma spawns_createParticle:
  assumes "maxTotalParticles cfg = c"
  shows "spawns c w (createParticle e cfg ps vl col sz rl opts w)"
proof (cases "length (particles w) < c")
  case True
  have "spawns c (snd (new_Particle e ps vl col sz rl opts w))
      (push_particle ((fst (new_Particle e ps vl col sz rl opts w))
         \<lparr>particleStyle := particleType cfg, configRef := Some cfg\<rparr>)
         (snd (new_Particle e ps vl col sz rl opts w)))"
    using True assms by (intro spawns_push) (simp_all add: new_Particle_snd cap_ok_def)
  then have "spawns c w (push_particle ((fst (new_Particle e ps vl col sz rl opts w))
         \<lparr>particleStyle := particleType cfg, configRef := Some cfg\<rparr>)
         (snd (new_Particle e ps vl col sz rl opts w)))"
    by (simp only: new_Particle_snd) (rule spawns_from_used)
  then show ?thesis using True assms by (simp add: createParticle_def split_beta)
next
  case False
  then show ?thesis using assms by (simp add: createParticle_def spawns_refl)
qed

lemma spawns_createParticle_used:
  "maxTotalParticles cfg = c \<Longrightarrow>
   spawns c w (createParticle e cfg ps vl col sz rl opts (w\<lparr>used := k\<rparr>))"
  by (rule spawns_from_used [OF spawns_createParticle])

lemma bodies_spawn:
  assumes "maxTotalParticles (fw_config fw) = c"
  shows "spawns c w (peony_body e fw ep bf iv i w)"
    and "spawns c w (palm_body e fw ep bf iv bv i w)"
    and "spawns c w (willow_body e fw ep bf iv i w)"
    and "spawns c w (strobe_body e fw ep bf iv i w)"
    and "spawns c w (crackling_body e fw ep bf iv i w)"
    and "spawns c w (default_body e fw ep bf iv i w)"
  using assms
  by (simp_all add: peony_body_def palm_body_def willow_body_def strobe_body_def
        crackling_body_def default_body_def Let_def split_beta rnd_simps
        spawns_createParticle_used)

lemma secondary_bodies_spawn:
  assumes "maxTotalParticles cfg = c"
  shows "spawns c w (secondary_peony_body e cfg ep bf iv pal i w)"
    and "spawns c w (secondary_crackling_body e cfg ep bf iv pal i w)"
    and "spawns c w (secondary_strobe_body e cfg ep bf iv i w)"
  using assms
  by (simp_all add: secondary_peony_body_def secondary_crackling_body_def
        secondary_strobe_body_def Let_def split_beta rnd_simps spawns_createParticle_used)

lemma palm_branch_spawns:
  assumes "maxTotalParticles (fw_config fw) = c"
  shows "spawns c w (palm_branch e fw ep bf iv n m i w)"
proof -
  have "spawns c w (for_range is no_break (palm_body e fw ep bf iv bv) (w\<lparr>used := k\<rparr>))"
    for "is" bv k
    by (rule spawns_loop_used) (rule bodies_spawn(2) [OF assms])
  then show ?thesis
    by (simp add: palm_branch_def Let_def split_beta rnd_simps)
qed

lemma explode_spawns:
  assumes "fw_type fw \<noteq> ''MULTI_BREAK''"
  shows "spawns (maxTotalParticles (fw_config fw)) w (snd (Firework_explode e fw w))"
proof -
  let ?c = "maxTotalParticles (fw_config fw)"
  let ?fw = "fw\<lparr>explodeCalls := Suc (explodeCalls fw)\<rparr>"
  have f: "maxTotalParticles (fw_config ?fw) = ?c" by simp
  note b = bodies_spawn [OF f] palm_branch_spawns [OF f]
  have 1: "spawns ?c w (for_range is no_break (peony_body e ?fw ep bf iv) w)" for "is" ep bf iv
    by (rule spawns_for_range) (rule b)
  have 2: "spawns ?c w (for_range is no_break (palm_branch e ?fw ep bf iv n m) (w\<lparr>used := k\<rparr>))"
    for "is" ep bf iv n m k
    by (rule spawns_loop_used) (rule b)
  have 3: "spawns ?c w (for_range is no_break (willow_body e ?fw ep bf iv) w)" for "is" ep bf iv
    by (rule spawns_for_range) (rule b)
  have 4: "spawns ?c w (for_range is no_break (strobe_body e ?fw ep bf iv) w)" for "is" ep bf iv
    by (rule spawns_for_range) (rule b)
  have 5: "spawns ?c w (for_range is no_break (crackling_body e ?fw ep bf iv) w)" for "is" ep bf iv
    by (rule spawns_for_range) (rule b)
  have 6: "spawns ?c w (for_range is no_break (default_body e ?fw ep bf iv) (console_log s w))"
    for "is" ep bf iv s
    by (rule spawns_trans [OF spawns_console spawns_for_range]) (rule b)
  show ?thesis
    using assms
    by (simp add: Firework_explode_def Let_def split_beta rnd_simps 1 2 3 4 5 6)
qed

lemma crackle_body_spawns:
  assumes "length (particles w) < c" "cap_ok c p"
  shows "spawns c w (crackle_body e p cfg i w)"
proof -
  have "spawns c (w\<lparr>used := k\<rparr>) (push_particle (q\<lparr>particleStyle := particleStyle p, configRef := configRef p\<rparr>)
      (w\<lparr>used := k\<rparr>))" for k q
    using assms by (intro spawns_push) (simp_all add: cap_ok_def)
  then have "spawns c w (push_particle (q\<lparr>particleStyle := particleStyle p, configRef := configRef p\<rparr>)
      (w\<lparr>used := k\<rparr>))" for k q
    by (rule spawns_from_used)
  then show ?thesis
    by (simp add: crackle_body_def Let_def split_beta rnd_simps new_Particle_snd)
qed

lemma spawnCrackle_spawns:
  assumes "configRef p = Some cfg" and "maxTotalParticles cfg = C"
  shows "spawns C w (spawnCrackle e p w)"
proof -
  have c: "cap_ok C p" using assms by (simp add: cap_ok_def)
  have "spawns C w
      (for_range is (\<lambda>i s. C \<le> length (particles s)) (crackle_body e p cfg) (w\<lparr>used := k\<rparr>))"
    for "is" k
    by (rule spawns_loop_used) (simp add: crackle_body_spawns c)
  then show ?thesis
    using assms by (simp add: spawnCrackle_def Let_def split_beta rnd_simps)
qed

lemma spawnCrackle_none: "configRef p = None \<Longrightarrow> spawnCrackle e p w = w"
  by (simp add: spawnCrackle_def)

lemma crackle_step_spawns:
  assumes "cap_ok C p"
  shows "spawns C w (snd (crackle_step e p w))"
proof (cases "configRef p")
  case None
  then show ?thesis
    by (simp add: crackle_step_def Let_def split_beta rnd_simps spawnCrackle_none spawns_used
          spawns_refl)
next
  case (Some cfg)
  then have m: "maxTotalParticles cfg = C" using assms by (simp add: cap_ok_def)
  have a: "spawns C w (spawnCrackle e p (w\<lparr>used := k\<rparr>))" for k
    by (rule spawns_from_used [OF spawnCrackle_spawns [OF Some m]])
  show ?thesis
    by (simp add: crackle_step_def Let_def split_beta rnd_simps a spawns_used spawns_refl)
qed

lemma explodeSecondary_spawns:
  assumes "cap_ok C p"
  shows "spawns C w (snd (explodeSecondary e p w))"
proof (cases "configRef p")
  case None
  then show ?thesis by (simp add: explodeSecondary_def Let_def spawns_console)
next
  case (Some cfg)
  then have m: "maxTotalParticles cfg = C" using assms by (simp add: cap_ok_def)
  note b = secondary_bodies_spawn [OF m]
  have 1: "spawns C w (for_range is brk (secondary_peony_body e cfg ep bf iv pal) w)"
    for "is" brk ep bf iv pal
    by (rule spawns_for_range) (rule b)
  have 2: "spawns C w (for_range is brk (secondary_crackling_body e cfg ep bf iv pal) w)"
    for "is" brk ep bf iv pal
    by (rule spawns_for_range) (rule b)
  have 3: "spawns C w (for_range is brk (secondary_strobe_body e cfg ep bf iv) w)"
    for "is" brk ep bf iv
    by (rule spawns_for_range) (rule b)
  have 4: "spawns C w (for_range is brk (secondary_peony_body e cfg ep bf iv pal) (w\<lparr>used := k\<rparr>))"
    for "is" brk ep bf iv pal k
    by (rule spawns_loop_used) (rule b)
  have 5: "spawns C w (for_range is brk (secondary_crackling_body e cfg ep bf iv pal) (w\<lparr>used := k\<rparr>))"
    for "is" brk ep bf iv pal k
    by (rule spawns_loop_used) (rule b)
  have 6: "spawns C w (for_range is brk (secondary_strobe_body e cfg ep bf iv) (w\<lparr>used := k\<rparr>))"
    for "is" brk ep bf iv k
    by (rule spawns_loop_used) (rule b)
  show ?thesis
    using Some
    by (simp add: explodeSecondary_def Let_def split_beta rnd_simps 1 2 3 4 5 6
          split: option.split)
qed

lemma steps_config:
  "configRef (physics_step e p) = configRef p" "configRef (trail_step p) = configRef p"
  "configRef (fade_step e p) = configRef p" "configRef (strobe_step e p) = configRef p"
  "configRef (fst (crackle_step e p w)) = configRef p" "configRef (fluid_step e p) = configRef p"
  "configRef (fst (explodeSecondary e p w)) = configRef p"
  "configRef (applyForce f p) = configRef p" "configRef (applyDrag d p) = configRef p"
  "configRef (setFading e d p) = configRef p"
  by (simp_all add: step_defs Let_def split_beta explodeSecondary_def applyDrag_def
        split: option.split)

lemma cap_ok_steps:
  "cap_ok c (physics_step e p) = cap_ok c p" "cap_ok c (trail_step p) = cap_ok c p"
  "cap_ok c (fade_step e p) = cap_ok c p" "cap_ok c (strobe_step e p) = cap_ok c p"
  "cap_ok c (applyForce f p) = cap_ok c p" "cap_ok c (applyDrag d p) = cap_ok c p"
  "cap_ok c (setFading e d p) = cap_ok c p"
  "cap_ok c (fst (Particle_update e p w)) = cap_ok c p"
  by (simp_all add: cap_ok_def steps_config Particle_update_def Let_def split_beta)

lemma Particle_update_spawns:
  assumes "cap_ok C p"
  shows "spawns C w (snd (Particle_update e p w))"
  using assms
  by (simp add: Particle_update_def Let_def split_beta spawns_refl explodeSecondary_spawns
        crackle_step_spawns cap_ok_steps)

lemma stage_ok_spawns:
  assumes "stage_ok c w" "spawns c w w'"
  shows "stage_ok c w'"
  using assms by (auto simp add: stage_ok_def spawns_def)

lemma new_Firework_world:
  "snd (new_Firework e ps vl t cfg w) =
     push_particle ((fst (new_Particle e ps vl (RGBA 255 255 0 200) 4 ''SHELL'' no_options w))
                      \<lparr>configRef := Some cfg\<rparr>)
       (w\<lparr>used := used (snd (new_Firework e ps vl t cfg w))\<rparr>)"
  "fw_config (fst (new_Firework e ps vl t cfg w)) = cfg"
  "fw_type (fst (new_Firework e ps vl t cfg w)) = t"
  by (simp_all add: new_Firework_def Let_def split_beta rnd_simps new_Particle_snd push_particle_def)

lemma launch_ok:
  assumes "stage_ok c w"
  shows "stage_ok c (FireworkSystem_launch e ps (Some (fireworkType (sys_config w))) (w\<lparr>used := k\<rparr>))"
proof (cases "c \<le> length (particles w)")
  case True
  then have "FireworkSystem_launch e ps (Some (fireworkType (sys_config w))) (w\<lparr>used := k\<rparr>) =
      console_log ''Max particle limit reached. Skipping launch.'' (w\<lparr>used := k\<rparr>)"
    using assms(1) by (simp add: FireworkSystem_launch_def stage_ok_def)
  then show ?thesis
    using stage_ok_spawns [OF assms(1) spawns_trans [OF spawns_used spawns_console]] by simp
next
  case False
  let ?cfg = "sys_config w"
  let ?t = "fireworkType (sys_config w)"
  have c: "maxTotalParticles ?cfg = c" and t: "?t \<noteq> ''MULTI_BREAK''" "?t \<noteq> ''RANDOM''"
    using assms by (simp_all add: stage_ok_def)
  have s: "spawns c w (snd (new_Firework e' ps' vl t' ?cfg (w\<lparr>used := k'\<rparr>)))" for e' ps' vl t' k'
  proof -
    have "spawns c (w\<lparr>used := j\<rparr>) (push_particle (q\<lparr>configRef := Some ?cfg\<rparr>) (w\<lparr>used := j\<rparr>))" for q j
      using False c by (intro spawns_push) (simp_all add: cap_ok_def)
    then have "spawns c w (push_particle (q\<lparr>configRef := Some ?cfg\<rparr>) (w\<lparr>used := j\<rparr>))" for q j
      by (rule spawns_from_used)
    then show ?thesis by (subst new_Firework_world(1)) simp
  qed
  have "stage_ok c ((snd (new_Firework e' ps' vl t' ?cfg (w\<lparr>used := k'\<rparr>)))
      \<lparr>fireworks := fireworks (snd (new_Firework e' ps' vl t' ?cfg (w\<lparr>used := k'\<rparr>)))
          @ [fst (new_Firework e' ps' vl t' ?cfg (w\<lparr>used := k'\<rparr>))]\<rparr>)"
    if "t' \<noteq> ''MULTI_BREAK''" for e' ps' vl k' t'
    using stage_ok_spawns [OF assms(1) s [of e' ps' vl t' k']] c that
    by (simp add: stage_ok_def refs_ok_def new_Firework_world(2,3))
  then show ?thesis
    using False c t
    by (simp add: FireworkSystem_launch_def Let_def split_beta rnd_simps)
qed

lemma manualLaunch_ok: "stage_ok c w \<Longrightarrow> stage_ok c (manualLaunch e x w)"
  using launch_ok [of c w e _ "used w"]
  by (simp add: manualLaunch_def)

lemma system_update_ok: "stage_ok c w \<Longrightarrow> stage_ok c (FireworkSystem_update e w)"
proof -
  assume a: "stage_ok c w"
  have "stage_ok c (launchRandom e w)"
    using launch_ok [OF a] a
    by (simp add: launchRandom_def Let_def split_beta rnd_simps stage_ok_def)
  then have "stage_ok c ((launchRandom e w)\<lparr>lastLaunch := t\<rparr>)" for t
    by (simp add: stage_ok_def refs_ok_def)
  then show ?thesis using a by (simp add: FireworkSystem_update_def)
qed

lemma for_range_down:
  assumes "P n s" and "\<And>i s. P (Suc i) s \<Longrightarrow> P i (body i s)"
  shows "P 0 (for_range (rev [0..<n]) no_break body s)"
  using assms(1)
proof (induction n arbitrary: s)
  case 0
  then show ?case by simp
next
  case (Suc n)
  have "P n (body n s)" using Suc.prems by (rule assms(2))
  then have "P 0 (for_range (rev [0..<n]) no_break body (body n s))" by (rule Suc.IH)
  moreover have "\<not> no_break n s" by (simp add: no_break_def)
  ultimately show ?case by simp
qed

lemma splice1_facts:
  "set (splice1 i xs) \<subseteq> set xs" "i < length xs \<Longrightarrow> length (splice1 i xs) = length xs - 1"
  "length (splice1 i xs) \<le> length xs"
proof -
  show "set (splice1 i xs) \<subseteq> set xs"
    unfolding splice1_def using set_take_subset [of i xs] set_drop_subset [of "Suc i" xs] by auto
  show "i < length xs \<Longrightarrow> length (splice1 i xs) = length xs - 1"
    by (auto simp add: splice1_def min_def)
  show "length (splice1 i xs) \<le> length xs"
    by (auto simp add: splice1_def min_def)
qed

lemma draw_particle_ok:
  assumes "stage_ok c s" and "Suc i \<le> length (particles s)"
  shows "stage_ok c (draw_particle e i s) \<and> i \<le> length (particles (draw_particle e i s))"
proof -
  define r where "r = particles s ! i"
  define p3 where "p3 = applyDrag (airDrag (sys_config s))
      (applyForce (getWind e (pos (applyForce (createVector 0 (gravity_y s)) (heap s r))) s)
        (applyForce (createVector 0 (gravity_y s)) (heap s r)))"
  define p4 where "p4 = fst (Particle_update e p3 s)"
  define s1 where "s1 = snd (Particle_update e p3 s)"
  define s2 where "s2 = s1\<lparr>heap := (heap s1)(r := p4)\<rparr>"
  have "r \<in> set (particles s)" using assms(2) by (simp add: r_def)
  then have "cap_ok c (heap s r)" using assms(1) by (simp add: stage_ok_def refs_ok_def)
  then have c3: "cap_ok c p3" by (simp add: p3_def cap_ok_steps)
  then have c4: "cap_ok c p4" by (simp add: p4_def cap_ok_steps)
  have sp: "spawns c s s1" unfolding s1_def using c3 by (rule Particle_update_spawns)
  then have ok1: "stage_ok c s1" using assms(1) by (rule stage_ok_spawns [rotated])
  have len: "length (particles s) \<le> length (particles s1)" using sp by (simp add: spawns_def)
  have ok2: "stage_ok c s2"
    using ok1 c4 by (simp add: s2_def stage_ok_def refs_ok_def)
  have ok3: "stage_ok c (s2\<lparr>particles := splice1 i (particles s2)\<rparr>)"
    using ok2 splice1_facts(1) [of i "particles s2"] splice1_facts(3) [of i "particles s2"]
    by (auto simp add: stage_ok_def refs_ok_def)
  have l2: "i \<le> length (particles s2)" "i \<le> length (splice1 i (particles s2))"
    using len assms(2) by (simp_all add: s2_def splice1_facts(2))
  have d: "draw_particle e i s = (if isDone p4 then s2\<lparr>particles := splice1 i (particles s2)\<rparr> else s2)"
    by (simp add: draw_particle_def Let_def split_beta r_def p3_def p4_def s1_def s2_def)
  show ?thesis using ok2 ok3 l2 by (simp add: d)
qed

lemma Firework_update_ok:
  assumes "stage_ok c s" and "fw_type fw \<noteq> ''MULTI_BREAK''" and "maxTotalParticles (fw_config fw) = c"
  shows "stage_ok c (snd (Firework_update e fw s))"
    and "fireworks (snd (Firework_update e fw s)) = fireworks s"
    and "fw_type (fst (Firework_update e fw s)) = fw_type fw"
    and "fw_config (fst (Firework_update e fw s)) = fw_config fw"
proof -
  define x where "x = snd (Firework_explode e fw s)"
  have sp: "spawns c s x"
    unfolding x_def using explode_spawns [OF assms(2), of s e] by (simp only: assms(3))
  then have ok: "stage_ok c x" using assms(1) by (rule stage_ok_spawns [rotated])
  have f: "fireworks x = fireworks s" using sp by (simp add: spawns_def)
  have ok': "stage_ok c (x\<lparr>heap := (heap x)(r := setFading e d (heap x r))\<rparr>)" for r d
    using ok by (simp add: stage_ok_def refs_ok_def cap_ok_steps)
  have okc: "stage_ok c (console_log m y)" if "stage_ok c y" for m y
    using that by (simp add: stage_ok_def refs_ok_def console_log_def)
  show "stage_ok c (snd (Firework_update e fw s))"
    using assms(1) ok' okc
    by (simp add: Firework_update_def Let_def split_beta explode_fst x_def)
  show "fireworks (snd (Firework_update e fw s)) = fireworks s"
    using f by (simp add: Firework_update_def Let_def split_beta explode_fst x_def console_log_def)
  show "fw_type (fst (Firework_update e fw s)) = fw_type fw"
    and "fw_config (fst (Firework_update e fw s)) = fw_config fw"
    by (simp_all add: Firework_update_def Let_def split_beta explode_fst)
qed

lemma draw_firework_ok:
  assumes "stage_ok c s" and "Suc i \<le> length (fireworks s)"
  shows "stage_ok c (draw_firework e i s) \<and> i \<le> length (fireworks (draw_firework e i s))"
proof -
  define fw where "fw = fireworks s ! i"
  define fw' where "fw' = fst (Firework_update e fw s)"
  define s1 where "s1 = snd (Firework_update e fw s)"
  define s2 where "s2 = s1\<lparr>fireworks := (fireworks s1)[i := fw']\<rparr>"
  have "fw \<in> set (fireworks s)" using assms(2) by (simp add: fw_def)
  then have a: "fw_type fw \<noteq> ''MULTI_BREAK''" "maxTotalParticles (fw_config fw) = c"
    using assms(1) by (simp_all add: stage_ok_def list_all_iff)
  note u = Firework_update_ok [OF assms(1) a, of e, folded fw'_def s1_def]
  have ok2: "stage_ok c s2"
    using u a set_update_subset_insert [of "fireworks s1" i fw']
    by (auto simp add: s2_def stage_ok_def refs_ok_def list_all_iff)
  have ok3: "stage_ok c (s2\<lparr>fireworks := splice1 i (fireworks s2)\<rparr>)"
    using ok2 splice1_facts(1) [of i "fireworks s2"]
    by (auto simp add: stage_ok_def refs_ok_def list_all_iff)
  have l2: "i \<le> length (fireworks s2)" "i \<le> length (splice1 i (fireworks s2))"
    using u(2) assms(2) by (simp_all add: s2_def splice1_facts(2))
  have d: "draw_firework e i s = (if Firework_done fw' then s2\<lparr>fireworks := splice1 i (fireworks s2)\<rparr> else s2)"
    by (simp add: draw_firework_def Let_def split_beta fw_def fw'_def s1_def s2_def)
  show ?thesis using ok2 ok3 l2 by (simp add: d)
qed

lemma draw_ok:
  assumes "stage_ok c w"
  shows "stage_ok c (draw e w)"
proof -
  define w1 where "w1 = FireworkSystem_update e w"
  define w2 where "w2 = for_range (rev [0..<length (particles w1)]) no_break (draw_particle e) w1"
  have 1: "stage_ok c w1" unfolding w1_def using assms by (rule system_update_ok)
  have "stage_ok c w2 \<and> 0 \<le> length (particles w2)"
    unfolding w2_def
  proof (rule for_range_down [where P = "\<lambda>k s. stage_ok c s \<and> k \<le> length (particles s)"])
    show "stage_ok c w1 \<and> length (particles w1) \<le> length (particles w1)" using 1 by simp
  next
    fix i s
    assume "stage_ok c s \<and> Suc i \<le> length (particles s)"
    then show "stage_ok c (draw_particle e i s) \<and> i \<le> length (particles (draw_particle e i s))"
      using draw_particle_ok by blast
  qed
  then have 2: "stage_ok c w2" by simp
  have "stage_ok c (for_range (rev [0..<length (fireworks w2)]) no_break (draw_firework e) w2)
      \<and> 0 \<le> length (fireworks (for_range (rev [0..<length (fireworks w2)]) no_break (draw_firework e) w2))"
  proof (rule for_range_down [where P = "\<lambda>k s. stage_ok c s \<and> k \<le> length (fireworks s)"])
    show "stage_ok c w2 \<and> length (fireworks w2) \<le> length (fireworks w2)" using 2 by simp
  next
    fix i s
    assume "stage_ok c s \<and> Suc i \<le> length (fireworks s)"
    then show "stage_ok c (draw_firework e i s) \<and> i \<le> length (fireworks (draw_firework e i s))"
      using draw_firework_ok by blast
  qed
  then show ?thesis by (simp add: draw_def Let_def w1_def w2_def)
qed

lemma run_ok:
  assumes "stage_ok c w"
  shows "list_all (stage_ok c) (run evs w)"
  using assms
proof (induction evs arbitrary: w)
  case Nil
  show ?case by simp
next
  case (Cons ev evs)
  have "stage_ok c (react ev w)"
    using Cons.prems by (cases ev) (simp_all add: draw_ok manualLaunch_ok)
  then show ?case using Cons.IH by simp
qed

lemma world_crowded_ok: "stage_ok 30000 world_crowded"
proof -
  have c: "cap_ok 30000 (heap world_crowded r)" for r
    by (simp add: world_crowded_def world_full_def world_apex_def world_ascending_def
          new_Firework_def Let_def split_beta rnd_simps new_Particle_snd push_particle_def
          world0_def cap_ok_def blank_particle_def default_config_def MAX_TOTAL_PARTICLES_def)
  have f: "fireworks world_crowded = []" "particles world_crowded = [0..<30000]"
      "next_ref world_crowded = 30000" "sys_config world_crowded = calm_config"
    by (simp_all add: world_crowded_def world_full_def world_apex_def world_ascending_def
          new_Firework_def Let_def split_beta rnd_simps new_Particle_snd push_particle_def
          world0_def)
  show ?thesis
    by (simp add: stage_ok_def refs_ok_def c f calm_config_def default_config_def
          MAX_TOTAL_PARTICLES_def)
qed

lemma lg_update_raises:
  assumes "lg_lifecycle fw = ASCENT" "\<not> lg_recognized (lg_type fw)" "\<not> lg_fluid (lg_shell fw)"
      and "0 \<le> v3y (lg_vel (lg_shell fw)) + v3y (lg_acc (lg_shell fw)) + lg_gravity (lg_fconfig fw)"
  shows "map_option lg_state_of (lg_Firework_update d fw g) =
           Some (fw\<lparr>lg_shell := fst (lg_Particle_update d
                       (lg_applyForce (0, lg_gravity (lg_fconfig fw), 0) (lg_shell fw)) g),
                    lg_explodeCalls := Suc (lg_explodeCalls fw)\<rparr>)"
proof -
  let ?sh = "lg_applyForce (0, lg_gravity (lg_fconfig fw), 0) (lg_shell fw)"
  have f: "\<not> lg_fluid ?sh" using assms(3) by (simp add: lg_applyForce_def)
  have "v3y (lg_vel (fst (lg_Particle_update d ?sh g))) =
      v3y (lg_vel (lg_shell fw)) + v3y (lg_acc (lg_shell fw)) + lg_gravity (lg_fconfig fw)"
    by (simp only: lg_update_motion(1) [OF f])
       (simp add: lg_applyForce_def v3add_def v3y_def v3x_def v3z_def)
  then have "0 \<le> v3y (lg_vel (fst (lg_Particle_update d ?sh g)))" using assms(4) by simp
  then show ?thesis
    using assms(1,2)
    by (simp add: lg_Firework_update_def Let_def split_beta lg_explode_unrecognized)
qed

lemma lg_fw_willow_apex_simps:
  "lg_lifecycle lg_fw_willow_apex = ASCENT" "lg_type lg_fw_willow_apex = ''WILLOW''"
  "lg_explodeCalls lg_fw_willow_apex = 0" "\<not> lg_fluid (lg_shell lg_fw_willow_apex)"
  "lg_vel (lg_shell lg_fw_willow_apex) = (0, - (5/100), 0)"
  "lg_acc (lg_shell lg_fw_willow_apex) = (0, 0, 0)"
  "lg_gravity (lg_fconfig lg_fw_willow_apex) = 8/100"
  by (simp_all add: lg_fw_willow_apex_def lg_fw_willow_def lg_new_Firework_def lg_new_Particle_def
        lg_default_config_def Let_def split_beta)

section \<open>The claims\<close>



text \<open>
  Claim C3, as amended. Take a Firework as its constructor returns it and update it any
  number of times, each call finding any clock and any world. The lifecycle is
  \<^verbatim>\<open>ASCENT\<close> after the first \<open>k\<close> calls and \<^verbatim>\<open>EXPLOSION\<close> after every later one, so it
  changes at most once and never back; and \<^verbatim>\<open>explode\<close> has been invoked 0 times while
  ascending and the same \<open>c \<le> 1\<close> times after every later call. The same holds in the
  earlier \<^verbatim>\<open>fireworks.js\<close> for a Firework whose tag is one of the four in its table, which
  are the only tags \<^verbatim>\<open>launchRandom\<close> and \<^verbatim>\<open>manualLaunch\<close> pass; there the count after
  the transition is exactly 1.
\<close>

theorem lifecycle_transitions_once:
  assumes "lg_recognized t'"
  shows "(\<exists>k c. k \<le> length ins \<and> c \<le> 1
            \<and> map fw_lifecycle (fw_updates (fst (new_Firework e ps vl t cfg w)) ins) =
                replicate k ASCENT @ replicate (length ins - k) EXPLOSION
            \<and> map explodeCalls (fw_updates (fst (new_Firework e ps vl t cfg w)) ins) =
                replicate k 0 @ replicate (length ins - k) c)
       \<and> (\<exists>k. k \<le> length (lg_fw_updates (fst (lg_new_Firework ps' t' cfg' g)) ins')
            \<and> map lg_lifecycle (lg_fw_updates (fst (lg_new_Firework ps' t' cfg' g)) ins') =
                replicate k ASCENT
                @ replicate (length (lg_fw_updates (fst (lg_new_Firework ps' t' cfg' g)) ins') - k) EXPLOSION
            \<and> map lg_explodeCalls (lg_fw_updates (fst (lg_new_Firework ps' t' cfg' g)) ins') =
                replicate k 0
                @ replicate (length (lg_fw_updates (fst (lg_new_Firework ps' t' cfg' g)) ins') - k) 1)"
proof -
  have a: "\<exists>k c. k \<le> length ins \<and> c \<le> 1
            \<and> map fw_lifecycle (fw_updates (fst (new_Firework e ps vl t cfg w)) ins) =
                replicate k ASCENT @ replicate (length ins - k) EXPLOSION
            \<and> map explodeCalls (fw_updates (fst (new_Firework e ps vl t cfg w)) ins) =
                replicate k 0 @ replicate (length ins - k) c"
    using fw_run_shape [of "fst (new_Firework e ps vl t cfg w)" ins]
    by (simp add: new_Firework_fresh)
  have b: "\<exists>k. k \<le> length (lg_fw_updates (fst (lg_new_Firework ps' t' cfg' g)) ins')
            \<and> map lg_lifecycle (lg_fw_updates (fst (lg_new_Firework ps' t' cfg' g)) ins') =
                replicate k ASCENT
                @ replicate (length (lg_fw_updates (fst (lg_new_Firework ps' t' cfg' g)) ins') - k) EXPLOSION
            \<and> map lg_explodeCalls (lg_fw_updates (fst (lg_new_Firework ps' t' cfg' g)) ins') =
                replicate k 0
                @ replicate (length (lg_fw_updates (fst (lg_new_Firework ps' t' cfg' g)) ins') - k) 1"
    using lg_fw_run_shape [of "fst (lg_new_Firework ps' t' cfg' g)" ins'] assms
    by (simp add: lg_new_Firework_fresh)
  show ?thesis using a b by blast
qed

text \<open>
  A run of three calls: the shell still rising, then at its apex, then once more.
\<close>

theorem lifecycle_transitions_once_witness:
  "lg_recognized ''PEONY''
   \<and> (\<exists>k c. k \<le> length peony_run \<and> c \<le> 1
         \<and> map fw_lifecycle (fw_updates fw_peony peony_run)
             = replicate k ASCENT @ replicate (length peony_run - k) EXPLOSION
         \<and> map explodeCalls (fw_updates fw_peony peony_run)
             = replicate k 0 @ replicate (length peony_run - k) c)
   \<and> map fw_lifecycle (fw_updates fw_peony peony_run) = [ASCENT, EXPLOSION, EXPLOSION]
   \<and> map explodeCalls (fw_updates fw_peony peony_run) = [0, 1, 1]"
proof -
  have r: "lg_recognized ''PEONY''" by (simp add: lg_recognized_def)
  have t: "\<exists>k c. k \<le> length peony_run \<and> c \<le> 1
         \<and> map fw_lifecycle (fw_updates fw_peony peony_run)
             = replicate k ASCENT @ replicate (length peony_run - k) EXPLOSION
         \<and> map explodeCalls (fw_updates fw_peony peony_run)
             = replicate k 0 @ replicate (length peony_run - k) c"
    unfolding fw_peony_def
    by (rule conjunct1 [OF lifecycle_transitions_once [OF r]])
  have "fst (Firework_update (env_at 20) fw_peony world_ascending) = fw_peony"
    by (simp add: Firework_update_def apex_condition_def fw_peony_simps world_ascending_simps vy_def)
  moreover have "fst (Firework_update (env_at 40) fw_peony world_apex) =
      fw_peony\<lparr>explodeCalls := 1, fw_lifecycle := EXPLOSION, hasExploded := True\<rparr>"
    by (simp add: Firework_update_def apex_condition_def fw_peony_simps world_apex_def
          world_ascending_simps vy_def Let_def split_beta explode_fst)
  ultimately have "map fw_lifecycle (fw_updates fw_peony peony_run) = [ASCENT, EXPLOSION, EXPLOSION]
   \<and> map explodeCalls (fw_updates fw_peony peony_run) = [0, 1, 1]"
    by (simp add: peony_run_def Let_def update_exploded fw_peony_simps)
  then show ?thesis using r t by blast
qed

text \<open>
  In the earlier \<^verbatim>\<open>fireworks.js\<close> the claim fails for a Firework whose tag is not in the
  table: \<^verbatim>\<open>explode\<close> raises on the missing entry before \<^verbatim>\<open>lifecycle\<close> is assigned, so
  the Firework is still ascending at the next call of \<^verbatim>\<open>update\<close>, which invokes
  \<^verbatim>\<open>explode\<close> again. A Firework of tag \<^verbatim>\<open>WILLOW\<close> with its shell at the top of its
  flight, updated twice: two invocations, and no transition.
\<close>

theorem lg_explode_invoked_again:
  "lg_type lg_fw_willow_apex = ''WILLOW'' \<and> lg_lifecycle lg_fw_willow_apex = ASCENT
   \<and> lg_explodeCalls lg_fw_willow_apex = 0
   \<and> map lg_explodeCalls (lg_fw_updates lg_fw_willow_apex [(20, rng0), (20, rng0)]) = [1, 2]
   \<and> map lg_lifecycle (lg_fw_updates lg_fw_willow_apex [(20, rng0), (20, rng0)]) = [ASCENT, ASCENT]"
proof -
  note s = lg_fw_willow_apex_simps
  have n: "\<not> lg_recognized (lg_type lg_fw_willow_apex)"
    by (simp add: s lg_recognized_def)
  define sh1 where "sh1 = fst (lg_Particle_update 20
      (lg_applyForce (0, lg_gravity (lg_fconfig lg_fw_willow_apex), 0) (lg_shell lg_fw_willow_apex)) rng0)"
  define f1 where "f1 = lg_fw_willow_apex\<lparr>lg_shell := sh1, lg_explodeCalls := Suc (lg_explodeCalls lg_fw_willow_apex)\<rparr>"
  have u1: "map_option lg_state_of (lg_Firework_update 20 lg_fw_willow_apex rng0) = Some f1"
    unfolding f1_def sh1_def
    by (rule lg_update_raises) (simp_all add: s lg_recognized_def v3y_def)
  have a: "\<not> lg_fluid (lg_applyForce (0, lg_gravity (lg_fconfig lg_fw_willow_apex), 0)
      (lg_shell lg_fw_willow_apex))"
    by (simp add: lg_applyForce_def s)
  have sh: "lg_vel sh1 = (0, 3/100, 0)" "lg_acc sh1 = (0, 0, 0)" "\<not> lg_fluid sh1"
    unfolding sh1_def
    by (simp only: lg_update_motion [OF a], simp add: lg_applyForce_def v3add_def v3x_def v3y_def v3z_def s)
       (simp only: lg_update_motion [OF a], simp add: lg_Particle_update_def Let_def split_beta a)
  have f: "lg_lifecycle f1 = ASCENT" "\<not> lg_recognized (lg_type f1)" "\<not> lg_fluid (lg_shell f1)"
      "0 \<le> v3y (lg_vel (lg_shell f1)) + v3y (lg_acc (lg_shell f1)) + lg_gravity (lg_fconfig f1)"
      "lg_explodeCalls f1 = 1"
    using n by (simp_all add: f1_def s sh v3y_def)
  obtain f2 where u2: "map_option lg_state_of (lg_Firework_update 20 f1 rng0) = Some f2"
      and f2: "lg_explodeCalls f2 = 2" "lg_lifecycle f2 = ASCENT"
    using lg_update_raises [OF f(1-4), of 20 rng0] f(1,5) by simp
  have "lg_fw_updates lg_fw_willow_apex [(20, rng0), (20, rng0)] = [f1, f2]"
    using u1 u2 by (auto simp add: map_option_case split: option.splits)
  then show ?thesis using f f2 by (simp add: s)
qed

text \<open>
  Claim C8, as amended. In \<^verbatim>\<open>quantum-fireworks-main/fireworks.js\<close>, \<^verbatim>\<open>explode\<close> on a
  Firework whose tag is none of the seven the \<^verbatim>\<open>switch\<close> has a case for takes the
  \<^verbatim>\<open>default\<close> branch: it logs one warning, and appends to the global array one
  particle per pass of a loop of \<^verbatim>\<open>numParticles\<close> passes until the cap is reached,
  each of them a particle of the generic spherical burst (\<open>default_particle\<close>); it
  returns normally, as every call of the total function \<open>Firework_explode\<close> does.
\<close>

theorem unrecognized_type_default_burst:
  assumes "fw_type fw \<notin> set recognized_types" and "unit_rand (rand w)"
  shows "fst (Firework_explode e fw w) = fw\<lparr>explodeCalls := Suc (explodeCalls fw)\<rparr>
       \<and> particles (snd (Firework_explode e fw w)) =
           particles w @ [next_ref w..<next_ref (snd (Firework_explode e fw w))]
       \<and> length (particles (snd (Firework_explode e fw w))) =
           min (length (particles w) + iterations (real_of_int (fw_numParticles (fw_config fw))))
               (max (length (particles w)) (maxTotalParticles (fw_config fw)))
       \<and> list_all (default_particle fw w) (new_particles w (snd (Firework_explode e fw w)))
       \<and> console (snd (Firework_explode e fw w)) = console w @ [''Unknown or fallback firework type:'']"
proof -
  let ?fw = "fw\<lparr>explodeCalls := Suc (explodeCalls fw)\<rparr>"
  let ?w0 = "console_log ''Unknown or fallback firework type:'' w"
  let ?body = "default_body e ?fw (pos (heap w (shell fw))) (fw_baseForce (fw_config fw))
                 (vmult (vel (heap w (shell fw))) (1/10))"
  let ?n = "iterations (real_of_int (fw_numParticles (fw_config fw)))"
  have eq: "snd (Firework_explode e fw w) = for_range [0..<?n] no_break ?body ?w0"
    using assms(1) by (simp add: Firework_explode_def recognized_types_def Let_def)
  have g0: "grows (default_particle fw w) w ?w0"
    by (rule grows_console [OF grows_refl])
  have r0: "rand ?w0 = rand w" by (simp add: console_log_def)
  have dp: "default_particle ?fw w = default_particle fw w"
    by (rule ext) (simp add: default_particle_def)
  have "grows (default_particle fw w) ?w0 (for_range [0..<?n] no_break ?body ?w0)"
  proof (rule grows_for_range_rand)
    fix i :: nat and s :: world
    assume "rand s = rand ?w0"
    then have "unit_rand (rand s)" using assms(2) r0 by simp
    then show "grows (default_particle fw w) s (?body i s)"
      using default_body_grows [of s ?fw w e i] dp by simp
  qed
  then have "grows (default_particle fw w) w (for_range [0..<?n] no_break ?body ?w0)"
    by (rule grows_trans [OF g0])
  then have g: "grows (default_particle fw w) w (snd (Firework_explode e fw w))"
    by (simp only: eq)
  have len: "length (particles (for_range [0..<?n] no_break ?body ?w0)) =
      min (length (particles ?w0) + length [0..<?n])
          (max (length (particles ?w0)) (maxTotalParticles (fw_config fw)))"
    by (rule for_range_count) (simp add: default_body_length)
  have con: "console (for_range [0..<?n] no_break ?body ?w0) = console ?w0"
    by (rule for_range_induct [where P = "\<lambda>s. console s = console ?w0"])
       (simp_all add: default_body_console)
  have l2: "length (particles (snd (Firework_explode e fw w))) =
           min (length (particles w) + ?n) (max (length (particles w)) (maxTotalParticles (fw_config fw)))"
    using len by (simp add: eq console_log_def)
  have c2: "console (snd (Firework_explode e fw w)) = console w @ [''Unknown or fallback firework type:'']"
    using con by (simp add: eq console_log_def)
  show ?thesis
    using grows_new_particles [OF g] l2 c2 explode_fst [of e fw w]
    by blast
qed

theorem unrecognized_type_default_burst_witness:
  "fw_type fw_comet \<notin> set recognized_types
   \<and> unit_rand (rand world_apex)
   \<and> length (particles (snd (Firework_explode (env_at 40) fw_comet world_apex))) = 1501
   \<and> list_all (default_particle fw_comet world_apex)
        (new_particles world_apex (snd (Firework_explode (env_at 40) fw_comet world_apex)))
   \<and> console (snd (Firework_explode (env_at 40) fw_comet world_apex))
       = [''Unknown or fallback firework type:'']"
proof -
  have h: "fw_type fw_comet \<notin> set recognized_types"
    by (simp add: recognized_types_def fw_comet_def)
  have u: "unit_rand (rand world_apex)"
    by (simp add: unit_rand_def world_apex_def world_ascending_def new_Firework_def Let_def
          split_beta rnd_simps new_Particle_snd push_particle_def world0_def)
  have n: "iterations (real_of_int (fw_numParticles (fw_config fw_comet))) = 1500"
    by (simp add: fw_comet_def fw_peony_def new_Firework_def Let_def split_beta iterations_def
          fw_numParticles_def default_config_def num_or_def MAX_PARTICLES_PER_FIREWORK_def)
  have c: "maxTotalParticles (fw_config fw_comet) = 30000"
    by (simp add: fw_comet_def fw_peony_def new_Firework_def Let_def split_beta default_config_def
          MAX_TOTAL_PARTICLES_def)
  have p: "length (particles world_apex) = 1" "console world_apex = []"
    by (simp_all add: world_apex_def world_ascending_simps world_ascending_def new_Firework_def
          Let_def split_beta rnd_simps new_Particle_snd push_particle_def world0_def)
  note T = unrecognized_type_default_burst [OF h u, of "env_at 40"]
  have "length (particles (snd (Firework_explode (env_at 40) fw_comet world_apex))) =
          min (length (particles world_apex) + iterations (real_of_int (fw_numParticles (fw_config fw_comet))))
              (max (length (particles world_apex)) (maxTotalParticles (fw_config fw_comet)))"
    using T by blast
  then have L: "length (particles (snd (Firework_explode (env_at 40) fw_comet world_apex))) = 1501"
    by (simp add: n c p)
  have "console (snd (Firework_explode (env_at 40) fw_comet world_apex)) =
          console world_apex @ [''Unknown or fallback firework type:'']"
    using T by blast
  then have C: "console (snd (Firework_explode (env_at 40) fw_comet world_apex)) =
          [''Unknown or fallback firework type:'']"
    by (simp add: p)
  have D: "list_all (default_particle fw_comet world_apex)
        (new_particles world_apex (snd (Firework_explode (env_at 40) fw_comet world_apex)))"
    using T by blast
  show ?thesis using h u L C D by blast
qed

text \<open>
  Counterexample to claim C8 as stated: the earlier \<^verbatim>\<open>fireworks.js\<close> has no default
  branch. Its \<^verbatim>\<open>explode\<close> looks the tag up in a table of four generators and calls
  the entry; for a tag outside the table, here \<^verbatim>\<open>WILLOW\<close>, the call raises a
  TypeError.
\<close>

theorem lg_explode_raises:
  "lg_type lg_fw_willow = ''WILLOW''
   \<and> lg_explode lg_fw_willow rng0 =
       Some (Raises TypeError (lg_fw_willow\<lparr>lg_explodeCalls := Suc (lg_explodeCalls lg_fw_willow)\<rparr>, rng0))"
  by (simp add: lg_explode_def lg_fw_willow_def lg_new_Firework_def Let_def split_beta)

text \<open>
  Claim C9, as amended. In \<^verbatim>\<open>quantum-fireworks-main/fireworks.js\<close>, \<^verbatim>\<open>done\<close> is the
  lifecycle being \<^verbatim>\<open>EXPLOSION\<close>: it is false for a new Firework; once true, an update
  leaves the Firework as it is whatever the world, and so whatever the state of the
  particles; and an update that invokes \<^verbatim>\<open>explode\<close> finds it false and leaves it
  true. In the earlier \<^verbatim>\<open>fireworks.js\<close>, \<^verbatim>\<open>done\<close> asks in addition that every
  particle the Firework spawned has alpha at most 0.
\<close>

theorem done_is_exploded:
  "Firework_done fw = (fw_lifecycle fw = EXPLOSION)
   \<and> \<not> Firework_done (fst (new_Firework e0 ps vl t cfg w0))
   \<and> (Firework_done fw \<longrightarrow> fst (Firework_update e fw w) = fw)
   \<and> (explodeCalls (fst (Firework_update e fw w)) \<noteq> explodeCalls fw \<longrightarrow>
        \<not> Firework_done fw \<and> Firework_done (fst (Firework_update e fw w)))
   \<and> lg_done lfw = (lg_lifecycle lfw = EXPLOSION \<and> list_all (\<lambda>p. lg_alpha p \<le> 0) (lg_particles lfw))"
proof -
  have a: "explodeCalls (fst (Firework_update e fw w)) \<noteq> explodeCalls fw \<longrightarrow>
        \<not> Firework_done fw \<and> Firework_done (fst (Firework_update e fw w))"
  proof (cases "fw_lifecycle fw")
    case ASCENT
    then show ?thesis using update_ascent [OF ASCENT, of e w]
      by (auto simp add: Firework_done_def)
  next
    case EXPLOSION
    then show ?thesis by (simp add: update_exploded)
  qed
  show ?thesis using a
    by (simp add: Firework_done_def new_Firework_fresh update_exploded lg_done_def)
qed

theorem done_is_exploded_witness:
  "explodeCalls (fst (Firework_update (env_at 40) fw_peony world_apex)) \<noteq> explodeCalls fw_peony
   \<and> \<not> Firework_done fw_peony
   \<and> Firework_done (fst (Firework_update (env_at 40) fw_peony world_apex))"
proof -
  have "fst (Firework_update (env_at 40) fw_peony world_apex) =
      fw_peony\<lparr>explodeCalls := 1, fw_lifecycle := EXPLOSION, hasExploded := True\<rparr>"
    by (simp add: Firework_update_def apex_condition_def fw_peony_simps world_apex_def
          world_ascending_simps vy_def Let_def split_beta explode_fst)
  then have "explodeCalls (fst (Firework_update (env_at 40) fw_peony world_apex)) \<noteq> explodeCalls fw_peony"
    by (simp add: fw_peony_simps)
  then show ?thesis
    using done_is_exploded [of fw_peony _ _ _ _ _ _ "env_at 40" world_apex] by blast
qed

text \<open>
  Counterexample to claim C9 as stated: a Firework of the earlier \<^verbatim>\<open>fireworks.js\<close>
  whose shell reaches its apex in this frame. The update invokes \<^verbatim>\<open>explode\<close> and sets
  the lifecycle to \<^verbatim>\<open>EXPLOSION\<close>; the two particles of the burst have alpha 225 after
  their three physics steps, so \<^verbatim>\<open>done\<close> is false in the frame of the explosion.
\<close>

theorem lg_done_waits_for_particles:
  "map lg_lifecycle (lg_fw_updates lg_fw_apex [(20, rng0)]) = [EXPLOSION]
   \<and> map lg_explodeCalls (lg_fw_updates lg_fw_apex [(20, rng0)]) = [1]
   \<and> map (map lg_alpha \<circ> lg_particles) (lg_fw_updates lg_fw_apex [(20, rng0)]) = [[225, 225]]
   \<and> map lg_done (lg_fw_updates lg_fw_apex [(20, rng0)]) = [False]"
  using lg_apex_update
proof (elim exE conjE)
  fix s
  assume s: "lg_Firework_update 20 lg_fw_apex rng0 = Some (Returns s)"
    and f: "lg_lifecycle (fst s) = EXPLOSION" "lg_explodeCalls (fst s) = 1"
      "map lg_alpha (lg_particles (fst s)) = [225, 225]" "\<not> lg_done (fst s)"
  have "lg_fw_updates lg_fw_apex [(20, rng0)] = [fst s]"
    by (simp add: s)
  then show ?thesis using f by simp
qed

text \<open>
  Claim C10. Every particle that a \<^verbatim>\<open>MULTI_BREAK\<close> explosion creates is a mini-shell
  whose \<^verbatim>\<open>subType\<close> is a firework type other than \<^verbatim>\<open>RANDOM\<close> and
  \<^verbatim>\<open>MULTI_BREAK\<close>; every particle that a secondary explosion creates has role
  \<^verbatim>\<open>EXPLOSION\<close>, \<^verbatim>\<open>STROBE\<close> or \<^verbatim>\<open>CRACKLE_SOURCE\<close>; no call of
  \<^verbatim>\<open>Particle.update\<close> creates a mini-shell, and none changes the role of the particle
  it updates. A particle \<open>q\<close> of any role other than \<^verbatim>\<open>MINI_SHELL\<close> runs no secondary
  explosion, in one call of \<^verbatim>\<open>update\<close> or in any number of them, and that holds of every
  particle a secondary explosion creates. So a mini-shell is only ever created by a
  Firework's own explosion, and what a mini-shell creates never explodes again: the
  cascade has depth two.
\<close>

theorem multi_break_depth_two:
  assumes "unit_rand (rand w)" and "fw_type fw = ''MULTI_BREAK''" and "role q \<noteq> ''MINI_SHELL''"
  shows "list_all mini_shell_particle (new_particles w (snd (Firework_explode e fw w)))
       \<and> list_all (\<lambda>q. secondary_role (role q)) (new_particles w' (snd (explodeSecondary e' p w')))
       \<and> list_all (\<lambda>q. role q \<noteq> ''MINI_SHELL'') (new_particles w' (snd (Particle_update e' p w')))
       \<and> role (fst (Particle_update e' p w')) = role p
       \<and> secondaryCalls (fst (Particle_update e' q w')) = secondaryCalls q
       \<and> map secondaryCalls (updates q ins) = replicate (length ins) (secondaryCalls q)
       \<and> map role (updates q ins) = replicate (length ins) (role q)
       \<and> list_all (\<lambda>q. map secondaryCalls (updates q ins) = replicate (length ins) (secondaryCalls q))
            (new_particles w' (snd (explodeSecondary e' p w')))"
proof -
  have s: "list_all (\<lambda>q. secondary_role (role q)) (new_particles w' (snd (explodeSecondary e' p w')))"
    by (rule grows_new_particles(2) [OF explodeSecondary_grows])
  have "secondary_role (role x) \<Longrightarrow>
      map secondaryCalls (updates x ins) = replicate (length ins) (secondaryCalls x)" for x
    using updates_other_role [of x ins] by (auto simp add: secondary_role_def)
  then have n: "list_all (\<lambda>q. map secondaryCalls (updates q ins) = replicate (length ins) (secondaryCalls q))
            (new_particles w' (snd (explodeSecondary e' p w')))"
    using s by (simp add: list_all_iff)
  show ?thesis
    using grows_new_particles(2) [OF explode_multi_break_grows [OF assms(1,2)]] s
      grows_new_particles(2) [OF Particle_update_grows]
      Particle_update_role update_other_role [OF assms(3)] updates_other_role [OF assms(3)] n
    by blast
qed

text \<open>
  A multi-break Firework at its apex, a mini-shell past its delay, and an ordinary
  particle updated three times.
\<close>

theorem multi_break_depth_two_witness:
  "unit_rand (rand world_apex) \<and> fw_type fw_multi = ''MULTI_BREAK''
   \<and> role blank_particle \<noteq> ''MINI_SHELL''
   \<and> list_all mini_shell_particle (new_particles world_apex (snd (Firework_explode (env_at 40) fw_multi world_apex)))
   \<and> list_all (\<lambda>q. secondary_role (role q))
        (new_particles world0 (snd (explodeSecondary (env_at 500) mini_shell0 world0)))
   \<and> role (fst (Particle_update (env_at 500) mini_shell0 world0)) = ''MINI_SHELL''
   \<and> secondaryCalls (fst (Particle_update (env_at 500) blank_particle world0)) = 0
   \<and> map secondaryCalls (updates blank_particle fade_run) = [0, 0, 0]
   \<and> map role (updates blank_particle fade_run) = [''EXPLOSION'', ''EXPLOSION'', ''EXPLOSION'']"
proof -
  have u: "unit_rand (rand world_apex)"
    by (simp add: unit_rand_def world_apex_def world_ascending_def new_Firework_def Let_def
          split_beta rnd_simps new_Particle_snd push_particle_def world0_def)
  have t: "fw_type fw_multi = ''MULTI_BREAK''"
    by (simp add: fw_multi_def)
  have r: "role mini_shell0 = ''MINI_SHELL''"
    by (simp add: mini_shell0_def blank_particle_def)
  have b: "role blank_particle \<noteq> ''MINI_SHELL''" "role blank_particle = ''EXPLOSION''"
      "secondaryCalls blank_particle = 0"
    by (simp_all add: blank_particle_def)
  have l: "length fade_run = 3" by (simp add: fade_run_def)
  note T = multi_break_depth_two [where e = "env_at 40" and w' = world0 and e' = "env_at 500"
      and p = mini_shell0 and ins = fade_run, OF u t b(1)]
  show ?thesis
    using T u t r b l by (simp add: numeral_3_eq_3)
qed

text \<open>
  Claim C2, as amended. In double-precision arithmetic, let fading start on a particle
  that is not fading and whose alpha is not negative (\<^verbatim>\<open>setFading\<close>, with no duration or
  with one), and let any number of update calls follow, under clock readings that do not
  decrease. Then \<^verbatim>\<open>isFading\<close> holds at the start and after every call; after every call
  alpha is at least 0 and at most what it was before the call; and alpha is exactly 0
  after every call whose \<^verbatim>\<open>currentTime\<close> is at least the exact sum of the stored
  \<^verbatim>\<open>fadeStartTime\<close> and \<^verbatim>\<open>fadeDuration\<close>, and more generally after every call at which the
  computed quotient \<^verbatim>\<open>(currentTime - fadeStartTime) / fadeDuration\<close> is at least 1. The
  stored alpha and a given duration are binary64 values, as every JavaScript number is.
\<close>

theorem fade_is_monotone:
  assumes "\<not> isFading q" and "0 \<le> alpha q" and "double (alpha q) = alpha q"
      and "d \<le> 0 \<or> double d = d"
      and "sorted (map (\<lambda>ew. millis (fst ew)) ins)" and "i < length ins"
  shows "isFading (setFading_fl double e d q) \<and> alpha (setFading_fl double e d q) = alpha q
       \<and> isFading ((setFading_fl double e d q # updates_fl double (setFading_fl double e d q) ins) ! Suc i)
       \<and> 0 \<le> alpha ((setFading_fl double e d q # updates_fl double (setFading_fl double e d q) ins) ! Suc i)
       \<and> alpha ((setFading_fl double e d q # updates_fl double (setFading_fl double e d q) ins) ! Suc i)
           \<le> alpha ((setFading_fl double e d q # updates_fl double (setFading_fl double e d q) ins) ! i)
       \<and> (fadeStartTime (setFading_fl double e d q) + fadeDuration (setFading_fl double e d q)
              \<le> double (millis (fst (ins ! i)) / 1000)
            \<longrightarrow> alpha ((setFading_fl double e d q # updates_fl double (setFading_fl double e d q) ins) ! Suc i) = 0)
       \<and> (1 \<le> fade_progress double (fadeStartTime (setFading_fl double e d q))
                 (fadeDuration (setFading_fl double e d q)) (fst (ins ! i))
            \<longrightarrow> alpha ((setFading_fl double e d q # updates_fl double (setFading_fl double e d q) ins) ! Suc i) = 0)"
proof -
  let ?s = "setFading_fl double e d q"
  obtain x rest where ins: "ins = x # rest" using assms(6) by (cases ins) auto
  have b: "\<forall>ew \<in> set ins. millis (fst x) \<le> millis (fst ew)"
    using assms(5) ins by auto
  have s: "isFading ?s" "alpha ?s = alpha q"
    using assms(1) by (simp_all add: setFading_fl_def)
  note inv = setFading_fl_inv [OF rounding_double assms(1,2,3) double_small, of e d "fst x"]
  have D: "0 < fadeDuration ?s" using inv by (simp add: fading_inv_fl_def)
  have x: "fadeStartTime ?s + fadeDuration ?s \<le> double (millis (fst (ins ! i)) / 1000)
        \<longrightarrow> 1 \<le> fade_progress double (fadeStartTime ?s) (fadeDuration ?s) (fst (ins ! i))"
    using progress_end [OF rounding_double D setFading_fl_duration [OF rounding_double assms(1,4)]]
    by simp
  show ?thesis
    using fading_run_fl [OF rounding_double inv assms(5) b assms(6)] s x by simp
qed

text \<open>
  A fade of half a second from alpha 255, started at 2 s: alpha is 0 after the update
  at 2.6 s.
\<close>

theorem fade_is_monotone_witness:
  "\<not> isFading blank_particle \<and> 0 \<le> alpha blank_particle
   \<and> double (alpha blank_particle) = alpha blank_particle \<and> (- 1 :: real) \<le> 0
   \<and> sorted (map (\<lambda>ew. millis (fst ew)) fade_run) \<and> 1 < length fade_run
   \<and> fadeStartTime fading0 + fadeDuration fading0 \<le> double (millis (fst (fade_run ! 1)) / 1000)
   \<and> isFading ((fading0 # updates_fl double fading0 fade_run) ! 2)
   \<and> alpha ((fading0 # updates_fl double fading0 fade_run) ! 2)
       \<le> alpha ((fading0 # updates_fl double fading0 fade_run) ! 1)
   \<and> alpha ((fading0 # updates_fl double fading0 fade_run) ! 2) = 0"
proof -
  have h: "\<not> isFading blank_particle" "0 \<le> alpha blank_particle"
      "double (alpha blank_particle) = alpha blank_particle" "(- 1 :: real) \<le> 0 \<or> double (- 1) = - 1"
      "sorted (map (\<lambda>ew. millis (fst ew)) fade_run)" "1 < length fade_run"
    by (simp_all add: blank_particle_def fade_run_def env_at_def double_values)
  have t: "fadeStartTime fading0 + fadeDuration fading0 \<le> double (millis (fst (fade_run ! 1)) / 1000)"
    by (simp add: fading0_simps fade_run_def env_at_def double_values)
  note T = fade_is_monotone [OF h, of "env_at 2000", folded fading0_def]
  have a: "isFading ((fading0 # updates_fl double fading0 fade_run) ! 2)
     \<and> alpha ((fading0 # updates_fl double fading0 fade_run) ! 2)
         \<le> alpha ((fading0 # updates_fl double fading0 fade_run) ! 1)
     \<and> alpha ((fading0 # updates_fl double fading0 fade_run) ! 2) = 0"
    using T t by (simp add: numeral_2_eq_2)
  show ?thesis using h(1,2,3,5,6) t a by simp
qed

text \<open>
  The claim fails for an update that comes exactly one fade duration after the start by
  the millisecond clock. The fade starts at 63 ms and lasts 0.5 s; the update is at
  563 ms, and \<^verbatim>\<open>fadeStartTime + fadeDuration\<close>, evaluated as the program would, equals its
  \<^verbatim>\<open>currentTime\<close>. The stored \<^verbatim>\<open>fadeStartTime\<close> is the binary64 value next to 0.063, the
  exact difference to \<^verbatim>\<open>currentTime\<close> falls short of 0.5 by \<open>2 ^ -54\<close>, the quotient is
  \<open>1 - 2 ^ -53\<close>, and alpha is left at \<open>2 ^ -45\<close>: the particle is not done.
\<close>

theorem fade_residue_at_duration:
  "isFading fading63 \<and> fadeDuration fading63 = 1/2
   \<and> millis (env_at 63) + 1000 * fadeDuration fading63 = millis (env_at 563)
   \<and> double (fadeStartTime fading63 + fadeDuration fading63) = double (millis (env_at 563) / 1000)
   \<and> fade_progress double (fadeStartTime fading63) (fadeDuration fading63) (env_at 563)
       = 1 - 1 / 2 ^ 53
   \<and> alpha (fst (Particle_update_fl double (env_at 563) fading63 world0)) = 1 / 2 ^ 45
   \<and> \<not> isDone (fst (Particle_update_fl double (env_at 563) fading63 world0))"
proof -
  have p: "fade_progress double (1134907106097365/18014398509481984) (1/2) (env_at 563)
       = 9007199254740991/9007199254740992"
    by (simp add: fade_progress_def env_at_def double_values)
  have n: "double (- 255) = - 255" by (simp only: double_minus double_values)
  have m: "double (- (2296835809958952705/9007199254740992)) = - (8972014882652159/35184372088832)"
    by (simp only: double_minus double_values)
  have a: "alpha (fst (Particle_update_fl double (env_at 563) fading63 world0)) = 1/35184372088832"
    by (simp add: fading_update_fl_fields fading63_simps fade_level_fl_def p constrain_def n m double_values)
  have s: "double (fadeStartTime fading63 + fadeDuration fading63) = double (millis (env_at 563) / 1000)"
    by (simp add: fading63_simps env_at_def double_values)
  show ?thesis using a s p by (simp add: fading63_simps isDone_def env_at_def)
qed

text \<open>
  Claim C5, as amended. One call of \<^verbatim>\<open>update\<close> on a particle that reaches the physics
  step (it is not a mini-shell at or past its delay) and is not in fluid mode adds the
  accumulated acceleration to the velocity as it is, not scaled by \<^verbatim>\<open>dt\<close>; adds the new
  velocity times \<^verbatim>\<open>dt\<close> to the position, where \<^verbatim>\<open>dt\<close> is \<^verbatim>\<open>deltaTime / 1000\<close> for a
  \<^verbatim>\<open>deltaTime\<close> between 0 and 250 ms and 1/60 otherwise; and resets the acceleration to
  zero. In the earlier \<^verbatim>\<open>fireworks.js\<close> the position advances by the new velocity
  itself, with no \<^verbatim>\<open>dt\<close> at all.
\<close>

theorem update_physics_step:
  assumes "\<not> (role p = ''MINI_SHELL'' \<and> (delay p \<le> 0 \<or> delay p \<le> millis e / 1000 - timeCreated p))"
      and "\<not> (particleStyle p = ''FLUID'' \<and> fluid p)" and "\<not> lg_fluid q"
  shows "vel (fst (Particle_update e p w)) = vadd (vel p) (acc_p p)
       \<and> pos (fst (Particle_update e p w)) = vadd (pos p) (vmult (vadd (vel p) (acc_p p)) (frame_dt e))
       \<and> acc_p (fst (Particle_update e p w)) = (0, 0)
       \<and> frame_dt e = (if deltaTime e > 0 \<and> deltaTime e < 250 then deltaTime e / 1000 else 1 / 60)
       \<and> lg_vel (fst (lg_Particle_update d q g)) = v3add (lg_vel q) (lg_acc q)
       \<and> lg_pos (fst (lg_Particle_update d q g)) = v3add (lg_pos q) (v3add (lg_vel q) (lg_acc q))
       \<and> lg_acc (fst (lg_Particle_update d q g)) = (0, 0, 0)"
  using update_motion [OF assms(1,2)] lg_update_motion [OF assms(3)]
  by (simp add: frame_dt_def)

theorem update_physics_step_witness:
  "\<not> (role rising = ''MINI_SHELL''
        \<and> (delay rising \<le> 0 \<or> delay rising \<le> millis (env_at 20) / 1000 - timeCreated rising))
   \<and> \<not> (particleStyle rising = ''FLUID'' \<and> fluid rising)
   \<and> \<not> lg_fluid (lg_shell lg_fw_apex)
   \<and> vel (fst (Particle_update (env_at 20) rising world0)) = (0, - (992/100))
   \<and> pos (fst (Particle_update (env_at 20) rising world0)) = (500, 400 - 992/5000)
   \<and> acc_p (fst (Particle_update (env_at 20) rising world0)) = (0, 0)
   \<and> lg_vel (fst (lg_Particle_update 20 (lg_shell lg_fw_apex) rng0)) = (0, - (5/100), 0)
   \<and> lg_pos (fst (lg_Particle_update 20 (lg_shell lg_fw_apex) rng0)) = (500, 300 - 5/100, 0)"
proof -
  have h: "\<not> (role rising = ''MINI_SHELL''
        \<and> (delay rising \<le> 0 \<or> delay rising \<le> millis (env_at 20) / 1000 - timeCreated rising))"
      "\<not> (particleStyle rising = ''FLUID'' \<and> fluid rising)"
      "\<not> lg_fluid (lg_shell lg_fw_apex)"
    by (simp_all add: rising_def blank_particle_def lg_fw_apex_def lg_new_Firework_def
          lg_new_Particle_def Let_def split_beta)
  have v: "vel rising = (0, - 10)" "acc_p rising = (0, 8/100)" "pos rising = (500, 400)"
      "lg_vel (lg_shell lg_fw_apex) = (0, - (5/100), 0)" "lg_acc (lg_shell lg_fw_apex) = (0, 0, 0)"
      "lg_pos (lg_shell lg_fw_apex) = (500, 300, 0)"
    by (simp_all add: rising_def blank_particle_def lg_fw_apex_def lg_new_Firework_def
          lg_new_Particle_def Let_def split_beta)
  show ?thesis
    using update_physics_step [OF h, of world0 20 rng0] h
    by (simp add: v vadd_def vmult_def v3add_def v3x_def v3y_def v3z_def env_at_def)
qed

text \<open>
  Counterexample to claim C5 as stated: a particle with velocity \<open>(0, -10)\<close> and
  accumulated acceleration \<open>(0, 0.08)\<close>, updated in a frame of 20 ms (\<^verbatim>\<open>dt\<close> = 0.02).
  Its new velocity is \<open>(0, -9.92)\<close>, the old one plus the acceleration; an increment of
  acceleration times \<^verbatim>\<open>dt\<close> would give \<open>(0, -9.9984)\<close>.
\<close>

theorem velocity_step_not_scaled:
  "frame_dt (env_at 20) = 1/50
   \<and> vel (fst (Particle_update (env_at 20) rising world0)) = (0, - (992/100))
   \<and> vadd (vel rising) (vmult (acc_p rising) (frame_dt (env_at 20))) = (0, - (99984/10000))
   \<and> vel (fst (Particle_update (env_at 20) rising world0))
       \<noteq> vadd (vel rising) (vmult (acc_p rising) (frame_dt (env_at 20)))"
proof -
  have "\<not> (role rising = ''MINI_SHELL''
        \<and> (delay rising \<le> 0 \<or> delay rising \<le> millis (env_at 20) / 1000 - timeCreated rising))"
       "\<not> (particleStyle rising = ''FLUID'' \<and> fluid rising)"
    by (simp_all add: rising_def blank_particle_def)
  then have "vel (fst (Particle_update (env_at 20) rising world0)) = vadd (vel rising) (acc_p rising)"
    by (rule update_motion)
  then show ?thesis
    by (simp add: rising_def blank_particle_def vadd_def vmult_def frame_dt_def env_at_def)
qed

text \<open>
  Claim C6, as amended. A \<^verbatim>\<open>PEONY\<close> explosion with a configured particle count \<open>n\<close>
  between 1 and 5000 and an explosion size \<open>S \<ge> 0\<close> appends \<open>n\<close> particles to the
  global array, or as many as fit under the cap; each starts at the shell's position at
  explosion time; and the velocity of each is a burst vector of length between
  \<open>0.8 S / 10\<close> and \<open>1.2 S / 10\<close> plus a tenth of the shell's velocity (an \<open>S\<close> of 0 counts
  as 400). The speed itself is not confined to that range.
\<close>

theorem peony_burst:
  assumes "fw_type fw = ''PEONY''" and "unit_rand (rand w)" and "0 \<le> explosionSize (fw_config fw)"
      and "particleCount (fw_config fw) = real n" and "0 < n" and "n \<le> 5000"
  shows "particles (snd (Firework_explode e fw w)) =
           particles w @ [next_ref w..<next_ref (snd (Firework_explode e fw w))]
       \<and> length (particles (snd (Firework_explode e fw w))) =
           min (length (particles w) + n) (max (length (particles w)) (maxTotalParticles (fw_config fw)))
       \<and> list_all (peony_particle fw w) (new_particles w (snd (Firework_explode e fw w)))"
proof -
  let ?fw = "fw\<lparr>explodeCalls := Suc (explodeCalls fw)\<rparr>"
  let ?body = "peony_body e ?fw (pos (heap w (shell fw))) (fw_baseForce (fw_config fw))
                 (vmult (vel (heap w (shell fw))) (1/10))"
  let ?n = "iterations (real_of_int (fw_numParticles (fw_config fw)))"
  have eq: "snd (Firework_explode e fw w) = for_range [0..<?n] no_break ?body w"
    using assms(1) by (simp add: Firework_explode_def Let_def)
  have n: "?n = n" using numParticles_count [OF assms(4,5,6)] .
  have pp: "peony_particle ?fw w = peony_particle fw w"
    by (rule ext) (simp add: peony_particle_def)
  have "grows (peony_particle fw w) w (for_range [0..<?n] no_break ?body w)"
  proof (rule grows_for_range_rand)
    fix i :: nat and s :: world
    assume "rand s = rand w"
    then have "unit_rand (rand s)" using assms(2) by simp
    then show "grows (peony_particle fw w) s (?body i s)"
      using peony_body_grows [of s ?fw w e i] assms(1,3) pp by simp
  qed
  then have g: "grows (peony_particle fw w) w (snd (Firework_explode e fw w))"
    by (simp only: eq)
  have "length (particles (for_range [0..<?n] no_break ?body w)) =
      min (length (particles w) + length [0..<?n])
          (max (length (particles w)) (maxTotalParticles (fw_config fw)))"
    by (rule for_range_count) (simp add: peony_body_length)
  then have l: "length (particles (snd (Firework_explode e fw w))) =
           min (length (particles w) + n) (max (length (particles w)) (maxTotalParticles (fw_config fw)))"
    by (simp add: eq n)
  show ?thesis using grows_new_particles [OF g] l by blast
qed

text \<open>
  The scenario of the specification: 100 particles, burst speeds between 32 and 48.
\<close>

theorem peony_burst_witness:
  "fw_type fw_peony100 = ''PEONY'' \<and> unit_rand (rand world_apex)
   \<and> explosionSize (fw_config fw_peony100) = 400
   \<and> particleCount (fw_config fw_peony100) = 100
   \<and> fw_baseForce (fw_config fw_peony100) * (8/10) = 32
   \<and> fw_baseForce (fw_config fw_peony100) * (12/10) = 48
   \<and> length (particles (snd (Firework_explode (env_at 40) fw_peony100 world_apex))) = 101
   \<and> list_all (peony_particle fw_peony100 world_apex)
        (new_particles world_apex (snd (Firework_explode (env_at 40) fw_peony100 world_apex)))"
proof -
  have h: "fw_type fw_peony100 = ''PEONY''" "unit_rand (rand world_apex)"
      "0 \<le> explosionSize (fw_config fw_peony100)"
      "particleCount (fw_config fw_peony100) = real (100::nat)" "0 < (100::nat)" "(100::nat) \<le> 5000"
    by (simp_all add: fw_peony100_simps world_apex_simps unit_rand_def)
  have c: "explosionSize (fw_config fw_peony100) = 400" "particleCount (fw_config fw_peony100) = 100"
    by (simp_all add: fw_peony100_simps)
  note T = peony_burst [OF h, of "env_at 40"]
  have "length (particles (snd (Firework_explode (env_at 40) fw_peony100 world_apex))) =
          min (length (particles world_apex) + 100)
              (max (length (particles world_apex)) (maxTotalParticles (fw_config fw_peony100)))"
    using T by blast
  then have L: "length (particles (snd (Firework_explode (env_at 40) fw_peony100 world_apex))) = 101"
    by (simp add: world_apex_simps fw_peony100_simps)
  have D: "list_all (peony_particle fw_peony100 world_apex)
        (new_particles world_apex (snd (Firework_explode (env_at 40) fw_peony100 world_apex)))"
    using T by blast
  show ?thesis using h(1,2) c L D by (simp add: fw_peony100_simps)
qed

text \<open>
  Counterexample to claim C6 as stated, in the scenario of the specification: the shell
  explodes while it drifts at \<open>(2, -0.3)\<close>; the first particle of the burst gets the
  direction \<open>(1, 0)\<close> and the magnitude 47.984, within \<open>[32, 48]\<close>, and with the inherited
  \<open>(0.2, -0.03)\<close> its velocity is \<open>(48.184, -0.03)\<close>, a speed above 48.
\<close>

theorem peony_speed_exceeds_range:
  "fw_type fw_peony100 = ''PEONY'' \<and> particleCount (fw_config fw_peony100) = 100
   \<and> explosionSize (fw_config fw_peony100) = 400
   \<and> next_ref world_windy = 1
   \<and> 1 < next_ref (snd (Firework_explode (env_at 40) fw_peony100 world_windy))
   \<and> pos (heap (snd (Firework_explode (env_at 40) fw_peony100 world_windy)) 1) = pos (heap world_windy 0)
   \<and> vel (heap (snd (Firework_explode (env_at 40) fw_peony100 world_windy)) 1) = (48184/1000, - (3/100))
   \<and> 48 < mag (vel (heap (snd (Firework_explode (env_at 40) fw_peony100 world_windy)) 1))"
proof -
  let ?fw = "fw_peony100\<lparr>explodeCalls := Suc (explodeCalls fw_peony100)\<rparr>"
  let ?body = "peony_body (env_at 40) ?fw (500, 700) 40 (2/10, - (3/100))"
  let ?w1 = "?body 0 world_windy"
  let ?w' = "snd (Firework_explode (env_at 40) fw_peony100 world_windy)"
  have n: "iterations (real_of_int (fw_numParticles (fw_config fw_peony100))) = 100"
    using numParticles_count [of "fw_config fw_peony100" 100] by (simp add: fw_peony100_simps)
  have "?w' = for_range [0..<100] no_break ?body world_windy"
    by (simp add: Firework_explode_def Let_def fw_peony100_simps n world_windy_simps vmult_def)
  also have "\<dots> = for_range [1..<100] no_break ?body ?w1"
    by (simp add: upt_conv_Cons no_break_def del: upt_Suc)
  finally have eq: "?w' = for_range [1..<100] no_break ?body ?w1" .
  have "grows (\<lambda>q. True) ?w1 (for_range [1..<100] no_break ?body ?w1)"
    by (rule grows_for_range) (rule peony_body_grows_any)
  then have g: "grows (\<lambda>q. True) ?w1 ?w'" by (simp only: eq)
  have f: "next_ref ?w1 = 2" "pos (heap ?w1 1) = (500, 700)" "vel (heap ?w1 1) = (48184/1000, - (3/100))"
    using first_peony_particle by simp_all
  have h: "heap ?w' 1 = heap ?w1 1" "next_ref ?w1 \<le> next_ref ?w'"
    using g f(1) by (simp_all add: grows_def)
  have "48\<^sup>2 < magSq (48184/1000, - (3/100))" by (simp add: magSq_def power2_eq_square)
  then have m: "48 < mag (48184/1000, - (3/100))"
    unfolding mag_def by (rule real_less_rsqrt)
  show ?thesis using h f m by (simp add: fw_peony100_simps world_windy_simps)
qed

text \<open>
  Claim C7, as amended. Take a Firework that is ascending and has not exploded, and a
  run of \<^verbatim>\<open>update\<close> calls. As long as the shell's vertical velocity is below \<open>-0.5\<close>
  and its height above the explosion altitude, and the shell is in the global array,
  \<^verbatim>\<open>update\<close> changes nothing. At the first call that finds the velocity at least
  \<open>-0.5\<close> or the height at or below the explosion altitude, \<^verbatim>\<open>explode\<close> is invoked,
  once, the lifecycle becomes \<^verbatim>\<open>EXPLOSION\<close>, where it stays, and the shell is set to
  fade over 0.1 s. But if instead a call finds neither condition true and the shell no
  longer in the global array (it has faded out), the lifecycle becomes \<^verbatim>\<open>EXPLOSION\<close>
  all the same and \<^verbatim>\<open>explode\<close> is never invoked: such a shell does not detonate.
\<close>

theorem explosion_at_first_apex_frame:
  assumes "fw_lifecycle fw = ASCENT" and "\<not> hasExploded fw"
      and "\<forall>ew \<in> set pre. \<not> apex_condition fw (snd ew) \<and> shell fw \<in> set (particles (snd ew))"
      and "apex_condition fw w"
      and "\<not> apex_condition fw w'" and "shell fw \<notin> set (particles w')"
  shows "map explodeCalls (fw_updates fw (pre @ (e, w) # post)) =
           replicate (length pre) (explodeCalls fw) @ replicate (Suc (length post)) (Suc (explodeCalls fw))
       \<and> map fw_lifecycle (fw_updates fw (pre @ (e, w) # post)) =
           replicate (length pre) ASCENT @ replicate (Suc (length post)) EXPLOSION
       \<and> snd (Firework_update e fw w) =
           (snd (Firework_explode e fw w))\<lparr>heap := (heap (snd (Firework_explode e fw w)))
              (shell fw := setFading e (1/10) (heap (snd (Firework_explode e fw w)) (shell fw)))\<rparr>
       \<and> map explodeCalls (fw_updates fw (pre @ (e', w') # post)) =
           replicate (length pre + Suc (length post)) (explodeCalls fw)
       \<and> map fw_lifecycle (fw_updates fw (pre @ (e', w') # post)) =
           replicate (length pre) ASCENT @ replicate (Suc (length post)) EXPLOSION"
proof -
  have p: "fw_updates fw pre = replicate (length pre) fw"
    using fw_updates_waiting [OF assms(1,3)] .
  then have l: "last (fw # fw_updates fw pre) = fw" by simp
  let ?f = "fw\<lparr>explodeCalls := Suc (explodeCalls fw), fw_lifecycle := EXPLOSION, hasExploded := True\<rparr>"
  let ?g = "fw\<lparr>fw_lifecycle := EXPLOSION, hasExploded := True\<rparr>"
  have a: "fw_updates fw ((e, w) # post) = ?f # replicate (length post) ?f"
    using update_at_apex(1) [OF assms(1,2,4)] by (simp add: Let_def fw_updates_exploded)
  have b: "fw_updates fw ((e', w') # post) = ?g # replicate (length post) ?g"
    using update_shell_gone [OF assms(1,5,6)] by (simp add: Let_def fw_updates_exploded)
  have c: "snd (Firework_update e fw w) =
           (snd (Firework_explode e fw w))\<lparr>heap := (heap (snd (Firework_explode e fw w)))
              (shell fw := setFading e (1/10) (heap (snd (Firework_explode e fw w)) (shell fw)))\<rparr>"
    using assms(1,2,4) by (simp add: Firework_update_def Let_def split_beta explode_fst)
  have ra: "fw_updates fw (pre @ (e, w) # post) = replicate (length pre) fw @ ?f # replicate (length post) ?f"
    by (simp only: fw_updates_append [of fw pre] l a) (simp only: p)
  have rb: "fw_updates fw (pre @ (e', w') # post) = replicate (length pre) fw @ ?g # replicate (length post) ?g"
    by (simp only: fw_updates_append [of fw pre] l b) (simp only: p)
  show ?thesis
    using c assms(1) by (simp add: ra rb replicate_add replicate_append_same del: fw_updates.simps)
qed

text \<open>
  The PEONY shell of the examples: rising, then at its apex; and rising, then faded out.
\<close>

theorem explosion_at_first_apex_frame_witness:
  "fw_lifecycle fw_peony = ASCENT \<and> \<not> hasExploded fw_peony
   \<and> \<not> apex_condition fw_peony world_ascending \<and> shell fw_peony \<in> set (particles world_ascending)
   \<and> apex_condition fw_peony world_apex
   \<and> \<not> apex_condition fw_peony world_faded \<and> shell fw_peony \<notin> set (particles world_faded)
   \<and> map explodeCalls (fw_updates fw_peony
         [(env_at 20, world_ascending), (env_at 40, world_apex), (env_at 60, world_apex)]) = [0, 1, 1]
   \<and> map fw_lifecycle (fw_updates fw_peony
         [(env_at 20, world_ascending), (env_at 40, world_apex), (env_at 60, world_apex)])
       = [ASCENT, EXPLOSION, EXPLOSION]
   \<and> map explodeCalls (fw_updates fw_peony
         [(env_at 20, world_ascending), (env_at 40, world_faded), (env_at 60, world_apex)]) = [0, 0, 0]
   \<and> map fw_lifecycle (fw_updates fw_peony
         [(env_at 20, world_ascending), (env_at 40, world_faded), (env_at 60, world_apex)])
       = [ASCENT, EXPLOSION, EXPLOSION]"
proof -
  have h1: "fw_lifecycle fw_peony = ASCENT" and h2: "\<not> hasExploded fw_peony"
    by (simp_all add: fw_peony_simps)
  have a: "\<not> apex_condition fw_peony world_ascending" "shell fw_peony \<in> set (particles world_ascending)"
    by (simp_all add: apex_condition_def fw_peony_simps world_ascending_simps vy_def)
  then have h3: "\<forall>ew \<in> set [(env_at 20, world_ascending)].
      \<not> apex_condition fw_peony (snd ew) \<and> shell fw_peony \<in> set (particles (snd ew))"
    by simp
  have h4: "apex_condition fw_peony world_apex"
    by (simp add: apex_condition_def fw_peony_simps world_apex_simps vy_def)
  have h5: "\<not> apex_condition fw_peony world_faded"
    and h6: "shell fw_peony \<notin> set (particles world_faded)"
    by (simp_all add: apex_condition_def fw_peony_simps world_faded_simps vy_def)
  note T = explosion_at_first_apex_frame [OF h1 h2 h3 h4 h5 h6,
      of "env_at 40" "[(env_at 60, world_apex)]" "env_at 40"]
  have t1: "map explodeCalls (fw_updates fw_peony
         [(env_at 20, world_ascending), (env_at 40, world_apex), (env_at 60, world_apex)]) = [0, 1, 1]"
    using conjunct1 [OF T] by (simp add: fw_peony_simps del: fw_updates.simps)
  have t2: "map fw_lifecycle (fw_updates fw_peony
         [(env_at 20, world_ascending), (env_at 40, world_apex), (env_at 60, world_apex)])
       = [ASCENT, EXPLOSION, EXPLOSION]"
    using conjunct1 [OF conjunct2 [OF T]] by (simp del: fw_updates.simps)
  have t3: "map explodeCalls (fw_updates fw_peony
         [(env_at 20, world_ascending), (env_at 40, world_faded), (env_at 60, world_apex)]) = [0, 0, 0]"
    using conjunct1 [OF conjunct2 [OF conjunct2 [OF conjunct2 [OF T]]]]
    by (simp add: fw_peony_simps del: fw_updates.simps)
  have t4: "map fw_lifecycle (fw_updates fw_peony
         [(env_at 20, world_ascending), (env_at 40, world_faded), (env_at 60, world_apex)])
       = [ASCENT, EXPLOSION, EXPLOSION]"
    using conjunct2 [OF conjunct2 [OF conjunct2 [OF conjunct2 [OF T]]]]
    by (simp del: fw_updates.simps)
  show ?thesis using h1 h2 a h4 h5 h6 t1 t2 t3 t4 by blast
qed

text \<open>
  Counterexample to claim C7 as stated (every launched shell eventually detonates):
  the calm show. The shell leaves \<open>y = 800\<close> with vertical velocity \<open>-21\<close> and gains
  0.08 per frame, so after 2.5 s at 60 frames per second its velocity is \<open>-9\<close>, still
  below \<open>-0.5\<close>, and it has risen by less than 53, where its explosion altitude
  \<open>y = 240\<close> is 560 away. Its lifespan of 2 s is over and it has faded: frame 150
  removes it from the global array, and the same frame marks the Firework as exploded
  and removes it, with a warning. No particle was ever created.
\<close>

theorem shell_fades_without_detonating:
  "particles launched = [0] \<and> length (fireworks launched) = 1
   \<and> fw_lifecycle (fireworks launched ! 0) = ASCENT \<and> explodeCalls (fireworks launched ! 0) = 0
   \<and> explosionAltitude (fireworks launched ! 0) = 240
   \<and> fireworks (show_world 149) = fireworks launched \<and> particles (show_world 149) = [0]
   \<and> vel (heap (show_world 150) 0) = (0, - 9) \<and> 240 < vy (pos (heap (show_world 150) 0))
   \<and> alpha (heap (show_world 150) 0) = 0
   \<and> fireworks (show_world 150) = [] \<and> particles (show_world 150) = []
   \<and> next_ref (show_world 150) = next_ref launched
   \<and> console (show_world 150) = [''Shell particle disappeared before explosion.'']"
proof -
  have a: "show_world 149 = launched\<lparr>heap := (heap launched)(0 := shell_at 149)\<rparr>"
    by (rule show_flying) simp
  have f: "flying 150 (shell_at 150)" by (rule flying_shell_at)
  have v: "vel (shell_at 150) = (0, - 9)" using f by (simp add: flying_def)
  have "800 - 21/60 * real (150::nat) \<le> vy (pos (shell_at 150))"
    using f by (simp only: flying_def)
  then have p: "240 < vy (pos (shell_at 150))" by simp
  have "fade_level 200 2 (1/2) (real (150::nat) / 60) = 0"
    by (intro fade_level_end) simp_all
  then have z: "alpha (shell_at 150) = 0" using f by (simp add: flying_def)
  show ?thesis
    using p by (simp add: a show_faded launched_facts v z del: show_world.simps shell_at.simps)
qed

text \<open>
  Claim C1, as amended. On a stage without multi-break Fireworks (\<open>stage_ok\<close>), whatever
  frames and clicks follow, the global array never holds more than
  \<^verbatim>\<open>maxTotalParticles\<close> particles. When the cap is reached: a manual launch leaves the
  array as it is and logs a warning; \<^verbatim>\<open>FireworkSystem.update\<close> launches nothing and
  \<^verbatim>\<open>createParticle\<close> creates nothing, and neither changes anything at all, so they
  log nothing; an explosion of any type but \<^verbatim>\<open>MULTI_BREAK\<close>, and an update of any
  particle (crackles, secondary explosions), leave the array as it is.
\<close>

theorem guarded_spawns_keep_cap:
  assumes "stage_ok c w"
  shows "list_all (\<lambda>w'. length (particles w') \<le> c) (run evs w)
       \<and> (c \<le> length (particles w) \<longrightarrow>
            particles (manualLaunch e x w) = particles w
            \<and> console (manualLaunch e x w) = console w @ [''Max particle limit reached. Skipping launch.''])
       \<and> (c \<le> length (particles w) \<longrightarrow> FireworkSystem_update e w = w)
       \<and> (maxTotalParticles cfg \<le> length (particles w1) \<longrightarrow>
            createParticle e cfg ps vl col sz rl opts w1 = w1)
       \<and> (fw_type fw \<noteq> ''MULTI_BREAK'' \<and> maxTotalParticles (fw_config fw) \<le> length (particles w1) \<longrightarrow>
            particles (snd (Firework_explode e fw w1)) = particles w1)
       \<and> (cap_ok c' p \<and> c' \<le> length (particles w1) \<longrightarrow>
            particles (snd (Particle_update e p w1)) = particles w1)"
proof -
  have "list_all (stage_ok c) (run evs w)" using assms by (rule run_ok)
  then have 1: "list_all (\<lambda>w'. length (particles w') \<le> c) (run evs w)"
    by (simp add: list_all_iff stage_ok_def)
  have m: "maxTotalParticles (sys_config w) = c" using assms by (simp add: stage_ok_def)
  have 2: "c \<le> length (particles w) \<longrightarrow>
            particles (manualLaunch e x w) = particles w
            \<and> console (manualLaunch e x w) = console w @ [''Max particle limit reached. Skipping launch.'']"
    using m by (simp add: manualLaunch_def FireworkSystem_launch_def console_log_def)
  have 3: "maxTotalParticles cfg \<le> length (particles w1) \<longrightarrow>
            createParticle e cfg ps vl col sz rl opts w1 = w1"
    by (simp add: createParticle_def)
  have 6: "c \<le> length (particles w) \<longrightarrow> FireworkSystem_update e w = w"
    using m by (simp add: FireworkSystem_update_def)
  have 4: "fw_type fw \<noteq> ''MULTI_BREAK'' \<and> maxTotalParticles (fw_config fw) \<le> length (particles w1) \<longrightarrow>
            particles (snd (Firework_explode e fw w1)) = particles w1"
    using explode_spawns [of fw w1 e] by (simp add: spawns_def)
  have 5: "cap_ok c' p \<and> c' \<le> length (particles w1) \<longrightarrow>
            particles (snd (Particle_update e p w1)) = particles w1"
    using Particle_update_spawns [of c' p w1 e] by (simp add: spawns_def)
  show ?thesis using 1 2 3 4 5 6 by blast
qed

text \<open>
  A stage with 30000 live particles, the cap: a click, then two frames.
\<close>

theorem guarded_spawns_keep_cap_witness:
  "stage_ok 30000 world_crowded \<and> length (particles world_crowded) = 30000
   \<and> list_all (\<lambda>w'. length (particles w') \<le> 30000)
        (run [Click (frame 1) 500, Frame (frame 1), Frame (frame 2)] world_crowded)
   \<and> particles (manualLaunch (frame 1) 500 world_crowded) = particles world_crowded
   \<and> console (manualLaunch (frame 1) 500 world_crowded) = [''Max particle limit reached. Skipping launch.'']
   \<and> fw_type fw_peony \<noteq> ''MULTI_BREAK''
   \<and> maxTotalParticles (fw_config fw_peony) = 30000
   \<and> particles (snd (Firework_explode (frame 1) fw_peony world_crowded)) = particles world_crowded"
proof -
  have l: "length (particles world_crowded) = 30000" "console world_crowded = []"
    by (simp_all add: world_crowded_def world_full_simps)
  have f: "fw_type fw_peony \<noteq> ''MULTI_BREAK''" "maxTotalParticles (fw_config fw_peony) = 30000"
    using fw_multi_simps(5) by (simp_all add: fw_peony_simps fw_multi_def)
  note T = guarded_spawns_keep_cap [OF world_crowded_ok,
      of "[Click (frame 1) 500, Frame (frame 1), Frame (frame 2)]" "frame 1" 500
         _ world_crowded _ _ _ _ _ _ fw_peony]
  have 1: "list_all (\<lambda>w'. length (particles w') \<le> 30000)
        (run [Click (frame 1) 500, Frame (frame 1), Frame (frame 2)] world_crowded)"
    using T by blast
  have 2: "particles (manualLaunch (frame 1) 500 world_crowded) = particles world_crowded
      \<and> console (manualLaunch (frame 1) 500 world_crowded) = [''Max particle limit reached. Skipping launch.'']"
    using T l by simp
  have 3: "particles (snd (Firework_explode (frame 1) fw_peony world_crowded)) = particles world_crowded"
    using T l f by simp
  show ?thesis using world_crowded_ok l(1) 1 2 3 f by blast
qed

text \<open>
  Counterexample to claim C1 as stated, with the global array at the cap of 30000. A
  \<^verbatim>\<open>createParticle\<close> call, and a frame in which an automatic launch is due, change
  nothing, the console included: the rejected requests are not logged. And the
  \<^verbatim>\<open>MULTI_BREAK\<close> branch of \<^verbatim>\<open>Firework.explode\<close>, the one spawn path that does not
  test the cap, takes the array past it: the multi-break shell is at its apex, every
  random draw is 0.5, and \<^verbatim>\<open>update\<close> leaves 30003 particles and logs nothing.
\<close>

theorem multi_break_exceeds_cap:
  "maxTotalParticles (fw_config fw_multi) = 30000
   \<and> length (particles world_full) = 30000
   \<and> fw_lifecycle fw_multi = ASCENT \<and> apex_condition fw_multi world_full
   \<and> length (particles (snd (Firework_update (env_at 40) fw_multi world_full))) = 30003
   \<and> console (snd (Firework_update (env_at 40) fw_multi world_full)) = []
   \<and> createParticle (env_at 40) (fw_config fw_multi) (500, 700) (0, 0) (Gray 255) 3
        ''EXPLOSION'' no_options world_full = world_full
   \<and> autoLaunch (sys_config world_full)
   \<and> 1000 / launchFrequency (sys_config world_full) < millis (env_at 4000) - lastLaunch world_full
   \<and> FireworkSystem_update (env_at 4000) world_full = world_full"
proof -
  have a: "apex_condition fw_multi world_full"
    by (simp add: apex_condition_def fw_multi_simps world_full_simps vy_def)
  have l: "fw_lifecycle fw_multi = ASCENT" and h: "\<not> hasExploded fw_multi"
    by (simp_all add: fw_multi_simps)
  have "nat \<lfloor>fst (random2 2 5 world_full)\<rfloor> = 3"
    by (simp add: rnd_simps world_full_simps)
  then have n: "length (particles (snd (Firework_update (env_at 40) fw_multi world_full))) = 30003"
    by (simp add: update_at_apex(2) [OF l h a] explode_multi_break_length fw_multi_simps
          world_full_simps)
  have c: "console (snd (Firework_update (env_at 40) fw_multi world_full)) = []"
    by (simp add: update_at_apex(3) [OF l h a] explode_multi_break_length fw_multi_simps
          world_full_simps)
  have p: "createParticle (env_at 40) (fw_config fw_multi) (500, 700) (0, 0) (Gray 255) 3
        ''EXPLOSION'' no_options world_full = world_full"
    by (simp add: createParticle_def fw_multi_simps world_full_simps)
  have s: "sys_config world_full = default_config" "lastLaunch world_full = 0"
    by (simp_all add: world_full_def world_apex_def world_ascending_def new_Firework_def Let_def
          split_beta rnd_simps new_Particle_snd push_particle_def world0_def)
  have u: "autoLaunch (sys_config world_full)"
      "1000 / launchFrequency (sys_config world_full) < millis (env_at 4000) - lastLaunch world_full"
      "FireworkSystem_update (env_at 4000) world_full = world_full"
    by (simp_all add: s FireworkSystem_update_def default_config_def MAX_TOTAL_PARTICLES_def
          env_at_def world_full_simps)
  show ?thesis using a l n c p u by (simp add: fw_multi_simps world_full_simps)
qed

end
